theory Spec2Isabelle
  imports Complex_Main
begin

section \<open>Filament cutting and unloading: extras/cutter_sensor.py, extras/unload_filament.py\<close>

text \<open>
  The two modules are classes whose methods mutate attributes of \<open>self\<close> and call into
  collaborators that are not part of the sources (toolhead, heaters, gcode console, reactor,
  event bus).  The embedding keeps three things apart:
  \<^item> \<open>printer\<close>: the mutable attributes of the two objects, and the log of the calls made
    to the collaborators so far (\<open>trace\<close>);
  \<^item> \<open>config\<close>: the attributes that are set at construction or at klippy:connect /
    klippy:ready and never written afterwards;
  \<^item> \<open>env\<close>: what the collaborators answer.  Every answer may depend on the log, so that
    a reading can change after a command (homed axes after G28, the heater temperature
    between two polls), and every call may raise.
  A method is a function from the state to an outcome and the new state.  Times are reals
  where the source has floats.  Logging is not modelled.
\<close>

subsection \<open>The calls made to the collaborators\<close>

type_synonym position = "real \<times> real \<times> real \<times> real"

datatype timer =
    Unextrude_to_sensor_timer
  | Unextrude_timer
  | Verify_flow_sensor_timer
  | Verify_switch_sensor_timer

datatype callback =
    Cut bool bool real
  | Unload_end
  | Insert_event_handler
  | Runout_event_handler

datatype sensor = Filament_flow_sensor | Filament_switch_sensor

datatype action =
    Respond_info string
  | Run_script_from_command string
  | Run_script string
  | Send_event string
  | Update_timer timer real
  | Register_callback callback
  | Wait_moves
  | Move "real list" real
  | Manual_move "real list" real
  | Set_temperature real bool
  | Restore_default_boundary
  | Set_custom_boundary
  | Bucket_move_to_bucket
  | Send_pause_command
  | Pause real
  | Set_sensor_enabled sensor int
  | Set_absolute_coord bool

text \<open>
  Modelled from the spec: the reactor's constants are not in the sources.  A timer whose
  next fire time is \<open>NEVER\<close> is cancelled, one set to \<open>NOW\<close> runs on the next tick.
\<close>

definition NEVER :: real where
  "NEVER = 9999999999999999"

definition NOW :: real where
  "NOW = 0"

subsection \<open>Exceptions and outcomes\<close>

datatype error =
    Exception string
  | TypeError string
  | CutterSensorError string
  | UnloadFilamentError string

fun str_of :: "error \<Rightarrow> string" where
  "str_of (Exception m) = m"
| "str_of (TypeError m) = m"
| "str_of (CutterSensorError m) = m"
| "str_of (UnloadFilamentError m) = m"

text \<open>
  \<open>UnloadFilamentError.__init__(self, message, errors)\<close> has no default for \<open>errors\<close>:
  constructing it with the message alone raises this TypeError instead.
\<close>

definition missing_errors :: error where
  "missing_errors = TypeError (''UnloadFilamentError.__init__() missing 1 required positional argument: ''
      @ [CHR 0x27] @ ''errors'' @ [CHR 0x27])"

definition no_attribute :: "string \<Rightarrow> string \<Rightarrow> error" where
  "no_attribute cls attr = Exception ([CHR 0x27] @ cls @ [CHR 0x27] @ '' object has no attribute ''
      @ [CHR 0x27] @ attr @ [CHR 0x27])"

datatype 'a outcome = Return 'a | Raise error | Diverge

subsection \<open>State, configuration, environment\<close>

record printer =
  filament_present :: bool
  sensor_enabled :: int
  min_event_systime :: real
  is_cutting :: bool
  prev_pos :: "position option"
  unload_started :: "bool option"
  unextrude_count :: int
  trace :: "action list"

record config =
  extrude_length_mm :: real
  retract_length_mm :: real
  extrude_speed :: real
  travel_speed :: real
  cut_speed :: real
  cutter_position_x :: real
  cutter_position_y :: real
  pre_cutter_position_x :: real
  pre_cutter_position_y :: real
  bucked_position_xy :: "(real \<times> real) option"
  runout_gcode :: "string option"
  insert_gcode :: "string option"
  event_delay :: real
  pause_delay :: real
  runout_pause :: bool
  toolhead :: bool
  custom_boundary_object :: bool
  load_filament_object :: bool
  unload_filament_object :: bool
  idex :: bool
  unload_speed :: real
  timeout :: "int option"
  unload_custom_boundary_object :: bool
  bucket_object :: bool
  cutter_object :: bool
  filament_flow_sensor_object :: bool
  filament_switch_sensor_object :: bool

text \<open>
  In \<open>config\<close> an object reference is the truth value of \<open>is not None\<close>; \<open>toolhead\<close>
  stands for the attribute of both classes, set by both at klippy:connect, and
  \<open>unload_custom_boundary_object\<close> for \<open>UnloadFilament.custom_boundary_object\<close>.
\<close>

record env =
  fails :: "action list \<Rightarrow> action \<Rightarrow> string option"
  lookup_error :: "string \<Rightarrow> string option"
  monotonic :: "action list \<Rightarrow> real"
  homed_axes :: "action list \<Rightarrow> string"
  get_position :: "action list \<Rightarrow> position"
  extrude_factor :: "action list \<Rightarrow> real"
  get_temp :: "action list \<Rightarrow> real"
  is_shutdown :: "action list \<Rightarrow> bool"
  idle_timeout_state :: "action list \<Rightarrow> string"
  print_stats_state :: "action list \<Rightarrow> string option"
  load_started :: "action list \<Rightarrow> bool"
  switch_filament_detected :: "action list \<Rightarrow> bool"
  flow_filament_detected :: "action list \<Rightarrow> bool"
  is_paused :: "action list \<Rightarrow> bool"
  is_active :: "action list \<Rightarrow> bool"
  render :: "action list \<Rightarrow> string \<Rightarrow> string + string"

text \<open>
  \<open>fails env tr a = Some m\<close>: after the calls \<open>tr\<close>, the call \<open>a\<close> raises an exception
  whose text is \<open>m\<close>; \<open>lookup_error env name = Some m\<close>: \<open>printer.lookup_object(name)\<close>
  raises; \<open>print_stats_state env tr = None\<close>: there is no print_stats object;
  \<open>render env tr t\<close>: the text a template renders to (\<open>Inr\<close>) or the text of the exception
  it raises (\<open>Inl\<close>).
\<close>

type_synonym 'a prog = "printer \<Rightarrow> 'a outcome \<times> printer"

subsection \<open>Statements\<close>

text \<open>
  The building blocks the methods are written with: sequencing, \<open>try\<close>/\<open>except\<close>, a test
  of the state (\<open>cond\<close>), a reading of the state or of the environment (\<open>reading\<close>), an
  assignment (\<open>modify\<close>), and the three kinds of call into a collaborator: \<open>call\<close> (logged,
  may raise), \<open>emit\<close> (an attribute written on a collaborator: logged, cannot raise) and
  \<open>lookup_object\<close> (not logged, may raise).
\<close>

definition bind :: "'a prog \<Rightarrow> ('a \<Rightarrow> 'b prog) \<Rightarrow> 'b prog" where
  "bind m f s =
     (case m s of
        (Return v, s') \<Rightarrow> f v s'
      | (Raise e, s') \<Rightarrow> (Raise e, s')
      | (Diverge, s') \<Rightarrow> (Diverge, s'))"

definition return :: "'a \<Rightarrow> 'a prog" where
  "return v s = (Return v, s)"

definition skip :: "unit prog" where
  "skip = return ()"

definition raise :: "error \<Rightarrow> 'a prog" where
  "raise e s = (Raise e, s)"

definition diverge :: "'a prog" where
  "diverge s = (Diverge, s)"

fun seq :: "unit prog list \<Rightarrow> unit prog" where
  "seq [] = skip"
| "seq (m # ms) = bind m (\<lambda>_. seq ms)"

definition if_then :: "bool \<Rightarrow> unit prog \<Rightarrow> unit prog" where
  "if_then b m = (if b then m else skip)"

definition cond :: "(printer \<Rightarrow> bool) \<Rightarrow> 'a prog \<Rightarrow> 'a prog \<Rightarrow> 'a prog" where
  "cond b m1 m2 s = (if b s then m1 s else m2 s)"

definition reading :: "(printer \<Rightarrow> 'v) \<Rightarrow> ('v \<Rightarrow> 'a prog) \<Rightarrow> 'a prog" where
  "reading r k s = k (r s) s"

definition try_except :: "'a prog \<Rightarrow> (error \<Rightarrow> 'a prog) \<Rightarrow> 'a prog" where
  "try_except m h s =
     (case m s of
        (Raise e, s') \<Rightarrow> h e s'
      | r \<Rightarrow> r)"

definition modify :: "(printer \<Rightarrow> printer) \<Rightarrow> unit prog" where
  "modify f s = (Return (), f s)"

definition call :: "env \<Rightarrow> action \<Rightarrow> unit prog" where
  "call env a s =
     (case fails env (trace s) a of
        Some m \<Rightarrow> (Raise (Exception m), s)
      | None \<Rightarrow> (Return (), s\<lparr>trace := trace s @ [a]\<rparr>))"

definition emit :: "action \<Rightarrow> unit prog" where
  "emit a s = (Return (), s\<lparr>trace := trace s @ [a]\<rparr>)"

definition lookup_object :: "env \<Rightarrow> string \<Rightarrow> unit prog" where
  "lookup_object env name =
     (case lookup_error env name of
        Some m \<Rightarrow> raise (Exception m)
      | None \<Rightarrow> skip)"

subsection \<open>Strings and truth values\<close>

fun starts_with :: "string \<Rightarrow> string \<Rightarrow> bool" where
  "starts_with [] s = True"
| "starts_with (p # ps) [] = False"
| "starts_with (p # ps) (c # cs) = (p = c \<and> starts_with ps cs)"

fun str_in :: "string \<Rightarrow> string \<Rightarrow> bool" where
  "str_in p [] = (p = [])"
| "str_in p (c # cs) = (starts_with p (c # cs) \<or> str_in p cs)"

definition lower_char :: "char \<Rightarrow> char" where
  "lower_char c =
     (let n = (of_char c :: nat) in if 65 \<le> n \<and> n \<le> 90 then char_of (n + 32) else c)"

definition lower :: "string \<Rightarrow> string" where
  "lower s = map lower_char s"

text \<open>\<open>unload_started\<close> is \<open>None\<close> until the first unload; \<open>None\<close> and \<open>False\<close> are false.\<close>

definition truthy :: "bool option \<Rightarrow> bool" where
  "truthy b = (b = Some True)"

subsection \<open>CutterSensor: the cut\<close>

definition home_needed :: "env \<Rightarrow> config \<Rightarrow> unit prog" where
  "home_needed env cfg =
     (if \<not> toolhead cfg
      then raise (CutterSensorError ''Toolhead object is missing, called on home_needed.'')
      else try_except
        (cond (\<lambda>s. str_in ''xyz'' (lower (homed_axes env (trace s))))
           (call env (Respond_info ''Printer already homed.''))
           (seq [call env (Respond_info ''Homing.''),
                 call env (Run_script_from_command ''G28\<newline>M400'')]))
        (\<lambda>e. raise (CutterSensorError (''Unable to home: '' @ str_of e))))"

text \<open>
  The polling loop of \<open>heat_and_wait\<close> ends when the temperature is within 5 degrees of
  the target or the printer shuts down; nothing bounds the number of its rounds.  \<open>fuel\<close>
  is the number of rounds the model follows: a loop that wants one more is \<open>Diverge\<close>.
\<close>

fun heat_wait_loop :: "env \<Rightarrow> real \<Rightarrow> bool \<Rightarrow> nat \<Rightarrow> real \<Rightarrow> unit prog" where
  "heat_wait_loop env temp wait 0 eventtime =
     cond (\<lambda>s. \<not> is_shutdown env (trace s) \<and> wait) diverge skip"
| "heat_wait_loop env temp wait (Suc fuel) eventtime =
     cond (\<lambda>s. \<not> is_shutdown env (trace s) \<and> wait)
       (seq [call env (Respond_info ''Waiting for temperature to stabilize.''),
             cond (\<lambda>s. get_temp env (trace s) \<ge> temp - 5 \<and> get_temp env (trace s) \<le> temp + 5)
               skip
               (seq [call env (Pause (eventtime + 1.0)),
                     reading (\<lambda>s. monotonic env (trace s))
                       (\<lambda>eventtime. heat_wait_loop env temp wait fuel eventtime)])])
       skip"

definition heat_and_wait :: "env \<Rightarrow> config \<Rightarrow> nat \<Rightarrow> real \<Rightarrow> bool \<Rightarrow> unit prog" where
  "heat_and_wait env cfg fuel temp wait =
     try_except
       (reading (\<lambda>s. monotonic env (trace s))
          (\<lambda>eventtime.
             if \<not> toolhead cfg then raise (no_attribute ''NoneType'' ''get_extruder'')
             else seq [lookup_object env ''heaters'',
                       call env (Set_temperature temp False),
                       heat_wait_loop env temp wait fuel eventtime]))
       (\<lambda>e. raise (CutterSensorError (''Error heating extruder: '' @ str_of e)))"

definition move_extruder_mm :: "env \<Rightarrow> config \<Rightarrow> real \<Rightarrow> real \<Rightarrow> bool \<Rightarrow> unit prog" where
  "move_extruder_mm env cfg distance speed wait =
     (if \<not> toolhead cfg then skip
      else try_except
        (seq [lookup_object env ''gcode_move'',
              reading (\<lambda>s. get_position env (trace s))
                (\<lambda>(p0, p1, p2, p3).
                   reading (\<lambda>s. extrude_factor env (trace s))
                     (\<lambda>factor.
                        let v = distance * factor;
                            new_distance = v + p3
                        in call env (Move [p0, p1, p2, new_distance] speed))),
              if_then wait (call env Wait_moves)])
        (\<lambda>e. raise (CutterSensorError
                (''[CUTTER] Unable to move extruder error: '' @ str_of e @ ''.''))))"

definition cut_move :: "env \<Rightarrow> config \<Rightarrow> unit prog" where
  "cut_move env cfg =
     try_except
       (if \<not> toolhead cfg then raise (no_attribute ''NoneType'' ''manual_move'')
        else seq [call env (Manual_move [cutter_position_x cfg, cutter_position_y cfg]
                              (travel_speed cfg)),
                  call env (Manual_move [pre_cutter_position_x cfg, pre_cutter_position_y cfg]
                              (cut_speed cfg)),
                  call env Wait_moves])
       (\<lambda>e. raise (CutterSensorError
               (''Error performing performing cut move: '' @ str_of e @ ''.'')))"

definition move_to_cutter_pos :: "env \<Rightarrow> config \<Rightarrow> unit prog" where
  "move_to_cutter_pos env cfg =
     try_except
       (if \<not> toolhead cfg then raise (no_attribute ''NoneType'' ''get_kinematics'')
        else cond (\<lambda>s. \<not> str_in ''xyz'' (homed_axes env (trace s)))
               skip
               (seq [call env (Manual_move
                                 [pre_cutter_position_x cfg, pre_cutter_position_y cfg]
                                 (travel_speed cfg)),
                     call env Wait_moves]))
       (\<lambda>e. raise (CutterSensorError
               (''Error moving to cutter position: '' @ str_of e @ ''.'')))"

definition move_to_bucket :: "env \<Rightarrow> config \<Rightarrow> bool \<Rightarrow> unit prog" where
  "move_to_bucket env cfg split =
     try_except
       (seq [if_then (custom_boundary_object cfg)
               (seq [call env (Respond_info ''Restoring original printer Boundaries.''),
                     call env Restore_default_boundary]),
             (case bucked_position_xy cfg of
                None \<Rightarrow> raise (no_attribute ''CutterSensor'' ''bucked_position_x'')
              | Some (x, y) \<Rightarrow>
                  if \<not> toolhead cfg then raise (no_attribute ''NoneType'' ''manual_move'')
                  else if \<not> split
                  then call env (Manual_move [x, y] (travel_speed cfg))
                  else seq [call env (Manual_move [x] (travel_speed cfg)),
                            call env Wait_moves,
                            call env (Manual_move [y] (travel_speed cfg))]),
             (if \<not> toolhead cfg then raise (no_attribute ''NoneType'' ''wait_moves'')
              else call env Wait_moves)])
       (\<lambda>e. raise (CutterSensorError
               (''Error moving to bucket position: '' @ str_of e @ ''.'')))"

definition move_back :: "env \<Rightarrow> config \<Rightarrow> unit prog" where
  "move_back env cfg =
     try_except
       (reading prev_pos
          (\<lambda>p. case p of
             None \<Rightarrow> skip
           | Some (p0, p1, p2, p3) \<Rightarrow>
               if \<not> toolhead cfg then raise (no_attribute ''NoneType'' ''manual_move'')
               else seq [call env (Manual_move [p0, p1, p2] (travel_speed cfg)),
                         call env Wait_moves]))
       (\<lambda>e. raise (CutterSensorError
               (''Error moving to the original position: '' @ str_of e @ ''.'')))"

definition cut :: "env \<Rightarrow> config \<Rightarrow> nat \<Rightarrow> bool \<Rightarrow> bool \<Rightarrow> real \<Rightarrow> unit prog" where
  "cut env cfg fuel return_last_pos off_heaters temp =
     cond is_cutting
       (call env (Respond_info ''[CUTTER] Already cutting filament''))
       (seq [
          modify (\<lambda>s. s\<lparr>is_cutting := True\<rparr>),
          home_needed env cfg,
          call env Wait_moves,
          cond (\<lambda>s. \<not> str_in ''xyz'' (homed_axes env (trace s)))
            (call env (Respond_info ''[CUTTER] Printer needs to be homed for filament cutting.''))
            (seq [
               modify (\<lambda>s. s\<lparr>prev_pos := Some (get_position env (trace s))\<rparr>),
               call env (Run_script_from_command ''G90\<newline>M400''),
               call env (Run_script_from_command ''M83\<newline>M400''),
               call env (Run_script_from_command ''G92 E0.0\<newline>M400''),
               call env (Respond_info ''[CUTTER] Heating extruder.''),
               heat_and_wait env cfg fuel temp True,
               if_then (bucked_position_xy cfg \<noteq> None) (move_to_bucket env cfg False),
               move_extruder_mm env cfg 10 (extrude_speed cfg) False,
               move_extruder_mm env cfg (retract_length_mm cfg) (extrude_speed cfg) False,
               move_to_cutter_pos env cfg,
               cut_move env cfg,
               if_then (bucked_position_xy cfg \<noteq> None) (move_to_bucket env cfg False),
               move_extruder_mm env cfg (- 2.0) (extrude_speed cfg) False,
               move_extruder_mm env cfg (extrude_length_mm cfg + 10) (extrude_speed cfg) False,
               call env (Update_timer Unextrude_to_sensor_timer NOW),
               cond (\<lambda>s. prev_pos s \<noteq> None \<and> return_last_pos)
                 (seq [move_back env cfg,
                       call env Wait_moves,
                       if_then (custom_boundary_object cfg) (call env Set_custom_boundary)])
                 skip,
               if_then off_heaters (heat_and_wait env cfg fuel 0 False)])])"

text \<open>The callback of \<open>unextrude_to_sensor_timer\<close>; it returns the next fire time.\<close>

definition unextrude :: "env \<Rightarrow> config \<Rightarrow> real \<Rightarrow> real prog" where
  "unextrude env cfg eventtime =
     cond (\<lambda>s. \<not> is_cutting s)
       (return NEVER)
       (try_except
          (bind (move_extruder_mm env cfg (- 10) (extrude_speed cfg) False)
             (\<lambda>_. if extrude_speed cfg = 0 then raise (Exception ''float division by zero'')
                  else return (eventtime + 10 / extrude_speed cfg)))
          (\<lambda>e. raise (CutterSensorError (''[CUTTER] Error Unextruding: '' @ str_of e))))"

subsection \<open>UnloadFilament\<close>

text \<open>
  What \<open>gcmd.get\<close> and \<open>gcmd.get_int\<close> hand back for the parameters the commands read:
  the value (\<open>Inr\<close>, the default when the parameter is absent), or the text of the command
  error they raise (\<open>Inl\<close>: a value that does not parse or is out of range, a missing
  parameter that has no default).
\<close>

record gcmd =
  get_TEMPERATURE :: "string + real"
  get_TOOLHEAD :: "string + string"
  get_ENABLE :: "string + int"

definition handle_cutter_fnp :: "env \<Rightarrow> config \<Rightarrow> unit prog" where
  "handle_cutter_fnp env cfg =
     cond (\<lambda>s. truthy (unload_started s))
       (seq [call env (Respond_info ''Pulling filament out of the printer wait....''),
             call env (Update_timer Unextrude_timer NOW)])
       skip"

text \<open>
  \<open>printer.send_event\<close> runs the handlers of the event before it returns.  The one handler
  registered in the sources is \<open>handle_cutter_fnp\<close>, registered at klippy:ready when the
  unload module has found its cutter.
\<close>

definition send_event :: "env \<Rightarrow> config \<Rightarrow> string \<Rightarrow> unit prog" where
  "send_event env cfg ev =
     seq [call env (Send_event ev),
          if_then (ev = ''cutter_sensor:no_filament'' \<and> cutter_object cfg)
            (handle_cutter_fnp env cfg)]"

definition unload_heat_and_wait :: "env \<Rightarrow> config \<Rightarrow> real \<Rightarrow> bool \<Rightarrow> unit prog" where
  "unload_heat_and_wait env cfg temp wait =
     (if \<not> toolhead cfg then raise (no_attribute ''NoneType'' ''get_extruder'')
      else seq [lookup_object env ''heaters'',
                call env (Set_temperature temp wait)])"

definition SAVE_GCODE_STATE :: action where
  "SAVE_GCODE_STATE = Run_script_from_command ''SAVE_GCODE_STATE NAME=_UNLOAD_STATE\<newline>M400''"

definition SAVE_DUAL_CARRIAGE_STATE :: action where
  "SAVE_DUAL_CARRIAGE_STATE =
     Run_script_from_command ''SAVE_DUAL_CARRIAGE_STATE NAME=unload_carriage_state\<newline>M400''"

definition RESTORE_GCODE_STATE :: action where
  "RESTORE_GCODE_STATE =
     Run_script_from_command ''RESTORE_GCODE_STATE NAME=_UNLOAD_STATE MOVE=1 MOVE_SPEED=100\<newline>M400''"

definition RESTORE_DUAL_CARRIAGE_STATE :: action where
  "RESTORE_DUAL_CARRIAGE_STATE =
     Run_script_from_command
       ''RESTORE_DUAL_CARRIAGE_STATE NAME=unload_carriage_state MOVE=0\<newline>M400''"

definition save_state :: "env \<Rightarrow> config \<Rightarrow> unit prog" where
  "save_state env cfg =
     seq [if_then (idex cfg) (call env SAVE_DUAL_CARRIAGE_STATE),
          call env SAVE_GCODE_STATE]"

definition restore_state :: "env \<Rightarrow> config \<Rightarrow> unit prog" where
  "restore_state env cfg =
     seq [call env RESTORE_GCODE_STATE,
          if_then (idex cfg) (call env RESTORE_DUAL_CARRIAGE_STATE)]"

definition wait_moves :: "env \<Rightarrow> config \<Rightarrow> unit prog" where
  "wait_moves env cfg =
     (if \<not> toolhead cfg then raise (no_attribute ''NoneType'' ''wait_moves'')
      else call env Wait_moves)"

definition unload_end :: "env \<Rightarrow> config \<Rightarrow> bool prog" where
  "unload_end env cfg =
     cond (\<lambda>s. \<not> truthy (unload_started s))
       (return False)
       (bind
          (seq [modify (\<lambda>s. s\<lparr>unload_started := Some False\<rparr>),
                send_event env cfg ''unload_filament:end'',
                wait_moves env cfg,
                call env (Run_script_from_command ''G91\<newline>M400''),
                call env (Run_script_from_command ''M83\<newline>M400''),
                call env (Run_script_from_command ''G92 E0.0\<newline>M400''),
                call env (Run_script_from_command ''M82\<newline>M400''),
                wait_moves env cfg,
                call env (Respond_info ''Cooling down extruder''),
                restore_state env cfg,
                if_then (unload_custom_boundary_object cfg) (call env Set_custom_boundary),
                unload_heat_and_wait env cfg 0 False,
                if_then (idex cfg)
                  (seq [call env (Respond_info ''Parking toolhead 0''),
                        call env (Run_script_from_command ''T0 PARK\<newline>M400'')]),
                wait_moves env cfg,
                call env (Respond_info ''[UNLOAD FILAMENT] Finished.'')])
          (\<lambda>_. return True))"

definition verify_switch_sensor_state :: "env \<Rightarrow> config \<Rightarrow> real \<Rightarrow> real prog" where
  "verify_switch_sensor_state env cfg eventtime =
     cond (\<lambda>s. \<not> truthy (unload_started s))
       (return NEVER)
       (if \<not> filament_switch_sensor_object cfg
        then raise (no_attribute ''NoneType'' ''get_status'')
        else cond (\<lambda>s. switch_filament_detected env (trace s))
               (return (eventtime + 1.250))
               (bind
                  (seq [call env (Update_timer Unextrude_timer NEVER),
                        call env (Register_callback Unload_end)])
                  (\<lambda>_. return NEVER)))"

definition verify_flow_sensor_state :: "env \<Rightarrow> config \<Rightarrow> real \<Rightarrow> real prog" where
  "verify_flow_sensor_state env cfg eventtime =
     cond (\<lambda>s. \<not> truthy (unload_started s))
       (return NEVER)
       (if \<not> filament_flow_sensor_object cfg then return NEVER
        else cond (\<lambda>s. flow_filament_detected env (trace s))
               (return (eventtime + 1.0))
               (return (eventtime + 1.250)))"

definition unload_move_extruder_mm :: "env \<Rightarrow> config \<Rightarrow> real \<Rightarrow> real \<Rightarrow> bool \<Rightarrow> unit prog" where
  "unload_move_extruder_mm env cfg distance speed wait =
     (if \<not> toolhead cfg then skip
      else try_except
        (seq [lookup_object env ''gcode_move'',
              reading (\<lambda>s. get_position env (trace s))
                (\<lambda>(p0, p1, p2, p3).
                   seq [emit (Set_absolute_coord False),
                        reading (\<lambda>s. extrude_factor env (trace s))
                          (\<lambda>factor.
                             let v = distance * factor;
                                 new_distance = v + p3
                             in call env (Manual_move [p0, p1, p2, new_distance] (speed * 60)))]),
              if_then wait (call env Wait_moves)])
        (\<lambda>e. raise missing_errors))"

text \<open>
  \<open>completion = reactor.register_callback(f); completion.wait()\<close> is the registration
  followed by the run of \<open>f\<close>: the caller is suspended until \<open>f\<close> has returned.  An
  exception of \<open>f\<close> is taken to reach the caller.
\<close>

text \<open>
  \<open>pulse\<close> is the end of the \<open>try\<close> block of \<open>unextrude\<close>: one retraction of 10 mm and
  the next fire time.
\<close>

definition pulse :: "env \<Rightarrow> config \<Rightarrow> real \<Rightarrow> real prog" where
  "pulse env cfg eventtime =
     bind (unload_move_extruder_mm env cfg (- 10) (unload_speed cfg) False)
       (\<lambda>_. if unload_speed cfg = 0 then raise (Exception ''float division by zero'')
            else return (eventtime + 10 / unload_speed cfg))"

definition unload_unextrude :: "env \<Rightarrow> config \<Rightarrow> real \<Rightarrow> real prog" where
  "unload_unextrude env cfg eventtime =
     cond (\<lambda>s. \<not> truthy (unload_started s))
       (return NEVER)
       (try_except
          (case timeout cfg of
             Some n \<Rightarrow>
               cond (\<lambda>s. unextrude_count s > n)
                 (bind
                    (seq [call env (Update_timer Verify_switch_sensor_timer NEVER),
                          call env (Register_callback Unload_end)])
                    (\<lambda>_. bind (unload_end env cfg) (\<lambda>_. return NEVER)))
                 (bind (modify (\<lambda>s. s\<lparr>unextrude_count := unextrude_count s + 1\<rparr>))
                    (\<lambda>_. pulse env cfg eventtime))
           | None \<Rightarrow> pulse env cfg eventtime)
          (\<lambda>e. raise (UnloadFilamentError
                  (''[UNLOAD FILAMENT] Error while unloading: '' @ str_of e))))"

definition disable_sensors :: "env \<Rightarrow> config \<Rightarrow> unit prog" where
  "disable_sensors env cfg =
     seq [if_then (filament_flow_sensor_object cfg) (emit (Set_sensor_enabled Filament_flow_sensor 0)),
          if_then (filament_switch_sensor_object cfg)
            (seq [emit (Set_sensor_enabled Filament_switch_sensor 0),
                  call env (Respond_info ''filament switch sensor is not enabled'')])]"

definition enable_sensors :: "env \<Rightarrow> config \<Rightarrow> unit prog" where
  "enable_sensors env cfg =
     seq [if_then (filament_flow_sensor_object cfg) (emit (Set_sensor_enabled Filament_flow_sensor 1)),
          if_then (filament_switch_sensor_object cfg)
            (seq [call env (Respond_info ''filament switch sensor is now enabled''),
                  emit (Set_sensor_enabled Filament_switch_sensor 1)])]"

definition unload_home_needed :: "env \<Rightarrow> config \<Rightarrow> unit prog" where
  "unload_home_needed env cfg =
     (if \<not> toolhead cfg then skip
      else try_except
        (cond (\<lambda>s. str_in ''xyz'' (lower (homed_axes env (trace s))))
           skip
           (call env (Run_script_from_command ''G28'')))
        (\<lambda>e. raise missing_errors))"

definition conditional_pause :: "env \<Rightarrow> config \<Rightarrow> real \<Rightarrow> bool option prog" where
  "conditional_pause env cfg eventtime =
     bind
       (seq [lookup_object env ''idle_timeout'',
             lookup_object env ''pause_resume'',
             lookup_object env ''virtual_sdcard'',
             cond (\<lambda>s. idle_timeout_state env (trace s) = ''Printing''
                        \<and> \<not> is_paused env (trace s)
                        \<and> truthy (unload_started s)
                        \<and> is_active env (trace s))
               (seq [lookup_object env ''gcode_macro PAUSE'',
                     call env (Run_script_from_command ''PAUSE'')])
               skip])
       (\<lambda>_. return (Some False))"

definition cmd_UNLOAD_FILAMENT :: "env \<Rightarrow> config \<Rightarrow> nat \<Rightarrow> gcmd \<Rightarrow> unit prog" where
  "cmd_UNLOAD_FILAMENT env cfg fuel gcmd =
     (case get_TEMPERATURE gcmd of
        Inl m \<Rightarrow> raise (Exception m)
      | Inr temp \<Rightarrow>
          if \<not> toolhead cfg then skip
          else try_except
            (cond (\<lambda>s. truthy (unload_started s))
               (call env (Respond_info ''Printer already unloading filament''))
               (seq [
                  unload_home_needed env cfg,
                  save_state env cfg,
                  disable_sensors env cfg,
                  if_then (idex cfg)
                    (case get_TOOLHEAD gcmd of
                       Inl m \<Rightarrow> raise (Exception m)
                     | Inr t \<Rightarrow>
                         if t = ''Load_T0''
                         then call env (Run_script_from_command ''T0 UNLOAD'')
                         else call env (Run_script_from_command ''T1 UNLOAD'')),
                  modify (\<lambda>s. s\<lparr>unload_started := Some True\<rparr>),
                  send_event env cfg ''unload_filament:start'',
                  call env (Respond_info ''[UNLOAD FILAMENT] Start''),
                  call env (Run_script_from_command ''G91\<newline>M400''),
                  call env (Run_script_from_command ''M83\<newline>M400''),
                  if_then (timeout cfg \<noteq> None) (modify (\<lambda>s. s\<lparr>unextrude_count := 0\<rparr>)),
                  unload_heat_and_wait env cfg temp False,
                  if_then (bucket_object cfg) (call env Bucket_move_to_bucket),
                  unload_heat_and_wait env cfg temp True,
                  wait_moves env cfg,
                  if_then (cutter_object cfg)
                    (seq [call env (Register_callback (Cut False False temp)),
                          cut env cfg fuel False False temp]),
                  if_then (\<not> cutter_object cfg \<and> timeout cfg \<noteq> None)
                    (seq [call env (Update_timer Unextrude_timer NOW),
                          if_then (filament_flow_sensor_object cfg)
                            (call env (Update_timer Verify_flow_sensor_timer NOW))]),
                  if_then (filament_switch_sensor_object cfg)
                    (seq [call env (Respond_info
                            ''[UNLOAD FILAMENT] Starting filament switch sensor unload verification in 10 seconds''),
                          call env (Update_timer Verify_switch_sensor_timer (NOW + 5.0))])]))
            (\<lambda>e. raise missing_errors))"

subsection \<open>CutterSensor: the sensor callback and its reactions\<close>

definition exec_gcode :: "env \<Rightarrow> config \<Rightarrow> string \<Rightarrow> string option \<Rightarrow> unit prog" where
  "exec_gcode env cfg prefix template =
     seq [try_except
            (case template of
               None \<Rightarrow> raise (no_attribute ''NoneType'' ''render'')
             | Some t \<Rightarrow>
                 reading (\<lambda>s. render env (trace s) t)
                   (\<lambda>r. case r of
                      Inl m \<Rightarrow> raise (Exception m)
                    | Inr text \<Rightarrow> call env (Run_script (prefix @ text @ ''\<newline>M400''))))
            (\<lambda>e. skip),
          modify (\<lambda>s. s\<lparr>min_event_systime := monotonic env (trace s) + event_delay cfg\<rparr>)]"

definition insert_event_handler :: "env \<Rightarrow> config \<Rightarrow> real \<Rightarrow> unit prog" where
  "insert_event_handler env cfg eventtime = exec_gcode env cfg [] (insert_gcode cfg)"

definition runout_event_handler :: "env \<Rightarrow> config \<Rightarrow> real \<Rightarrow> unit prog" where
  "runout_event_handler env cfg eventtime =
     (if runout_pause cfg
      then seq [lookup_object env ''pause_resume'',
                call env Send_pause_command,
                call env (Pause (eventtime + pause_delay cfg)),
                exec_gcode env cfg ''PAUSE\<newline>'' (runout_gcode cfg)]
      else exec_gcode env cfg [] (runout_gcode cfg))"

text \<open>
  The branch of \<open>cutter_sensor_callback\<close> taken while a load or an unload is running, and
  the three branches taken otherwise; \<open>ps\<close> and \<open>it\<close> are \<open>is_printing_print_stats\<close>
  (\<open>None\<close> without a print_stats object) and \<open>is_printing_idle_timeout\<close>.
\<close>

definition load_unload_branch :: "env \<Rightarrow> config \<Rightarrow> bool \<Rightarrow> unit prog" where
  "load_unload_branch env cfg state =
     (if state then send_event env cfg ''cutter_sensor:filament_present''
      else seq [cond is_cutting
                  (seq [call env (Update_timer Unextrude_to_sensor_timer NEVER),
                        call env (Respond_info ''[CUTTER] Cut done.''),
                        modify (\<lambda>s. s\<lparr>is_cutting := False\<rparr>)])
                  skip,
                send_event env cfg ''cutter_sensor:no_filament''])"

definition idle_or_printing_branch :: "env \<Rightarrow> config \<Rightarrow> bool \<Rightarrow> bool option \<Rightarrow> bool \<Rightarrow> unit prog" where
  "idle_or_printing_branch env cfg state ps it =
     (if state
      then if_then (\<not> it \<and> \<not> truthy ps \<and> insert_gcode cfg \<noteq> None)
             (seq [send_event env cfg ''cutter_sensor:filament_present'',
                   modify (\<lambda>s. s\<lparr>min_event_systime := NEVER\<rparr>),
                   call env (Register_callback Insert_event_handler)])
      else if \<not> it \<and> \<not> truthy ps \<and> runout_gcode cfg \<noteq> None
      then seq [cond is_cutting
                  (seq [call env (Update_timer Unextrude_to_sensor_timer NEVER),
                        modify (\<lambda>s. s\<lparr>is_cutting := False\<rparr>)])
                  skip,
                send_event env cfg ''cutter_sensor:no_filament'',
                modify (\<lambda>s. s\<lparr>min_event_systime := NEVER\<rparr>),
                call env (Register_callback Runout_event_handler)]
      else if_then (it \<and> truthy ps \<and> runout_gcode cfg \<noteq> None)
             (seq [send_event env cfg ''cutter_sensor:no_filament'',
                   modify (\<lambda>s. s\<lparr>min_event_systime := NEVER\<rparr>),
                   call env (Register_callback Runout_event_handler)]))"

definition cutter_sensor_callback :: "env \<Rightarrow> config \<Rightarrow> real \<Rightarrow> bool \<Rightarrow> unit prog" where
  "cutter_sensor_callback env cfg eventtime state =
     cond (\<lambda>s. state = filament_present s)
       skip
       (seq [
          modify (\<lambda>s. s\<lparr>filament_present := state\<rparr>),
          cond (\<lambda>s. monotonic env (trace s) < min_event_systime s)
            skip
            (seq [
               lookup_object env ''idle_timeout'',
               reading (\<lambda>s. case print_stats_state env (trace s) of
                               None \<Rightarrow> None
                             | Some st \<Rightarrow> Some (st = ''Printing''))
                 (\<lambda>is_printing_print_stats.
                    reading (\<lambda>s. idle_timeout_state env (trace s) = ''Printing'')
                      (\<lambda>is_printing_idle_timeout.
                         cond (\<lambda>s. (load_filament_object cfg \<and> load_started env (trace s))
                                    \<or> (unload_filament_object cfg \<and> truthy (unload_started s)))
                           (load_unload_branch env cfg state)
                           (idle_or_printing_branch env cfg state
                              is_printing_print_stats is_printing_idle_timeout))),
               call env (Run_script_from_command ''G90\<newline>M400''),
               call env (Run_script_from_command ''M83\<newline>M400''),
               call env (Run_script_from_command ''G92 E0.0\<newline>M400'')])])"

definition cmd_SET_FILAMENT_SENSOR :: "gcmd \<Rightarrow> unit prog" where
  "cmd_SET_FILAMENT_SENSOR gcmd =
     (case get_ENABLE gcmd of
        Inl m \<Rightarrow> raise (Exception m)
      | Inr v \<Rightarrow> modify (\<lambda>s. s\<lparr>sensor_enabled := v\<rparr>))"

text \<open>\<open>get_status\<close> returns the pair of \<open>filament_detect\<close> and \<open>enabled\<close>.\<close>

definition get_status :: "printer \<Rightarrow> real \<Rightarrow> bool \<times> bool" where
  "get_status s eventtime = (filament_present s, sensor_enabled s \<noteq> 0)"

section \<open>What a method may change\<close>

text \<open>
  \<open>confined f P m\<close>: whatever happens in a run of \<open>m\<close>, the value of \<open>f\<close> is the same
  afterwards, the log has only grown, and every call added to it satisfies \<open>P\<close>.
  \<open>ignores_sensor_enabled m\<close>: a run of \<open>m\<close> neither reads nor writes \<open>sensor_enabled\<close>.
\<close>

definition untraced :: "(printer \<Rightarrow> 'b) \<Rightarrow> bool" where
  "untraced f = (\<forall>s t. f (s\<lparr>trace := t\<rparr>) = f s)"

definition frame :: "(printer \<Rightarrow> 'b) \<Rightarrow> (action \<Rightarrow> bool) \<Rightarrow> printer \<Rightarrow> printer \<Rightarrow> bool" where
  "frame f P s s' = (f s' = f s \<and> (\<exists>tr. trace s' = trace s @ tr \<and> list_all P tr))"

definition confined :: "(printer \<Rightarrow> 'b) \<Rightarrow> (action \<Rightarrow> bool) \<Rightarrow> 'a prog \<Rightarrow> bool" where
  "confined f P m = (\<forall>s. frame f P s (snd (m s)))"

definition ignores_sensor_enabled :: "'a prog \<Rightarrow> bool" where
  "ignores_sensor_enabled m =
     (\<forall>s v. m (s\<lparr>sensor_enabled := v\<rparr>) = (fst (m s), (snd (m s))\<lparr>sensor_enabled := v\<rparr>))"

text \<open>\<open>emitted s s'\<close>: the calls logged between the states \<open>s\<close> and \<open>s'\<close> of one run.\<close>

definition emitted :: "printer \<Rightarrow> printer \<Rightarrow> action list" where
  "emitted s s' = drop (length (trace s)) (trace s')"

text \<open>
  \<open>silent a m\<close>: a run of \<open>m\<close> never makes the call \<open>a\<close>.  \<open>once a m\<close>: a run of \<open>m\<close>
  makes the call \<open>a\<close> at most once, and exactly once when it returns.
\<close>

definition silent :: "action \<Rightarrow> 'a prog \<Rightarrow> bool" where
  "silent a m = confined (\<lambda>s. ()) (\<lambda>b. b \<noteq> a) m"

definition once :: "action \<Rightarrow> 'a prog \<Rightarrow> bool" where
  "once a m =
     (\<forall>s. \<exists>tr. trace (snd (m s)) = trace s @ tr \<and> count_list tr a \<le> 1
        \<and> ((\<exists>v. fst (m s) = Return v) \<longrightarrow> count_list tr a = 1))"

text \<open>The calls that \<open>cut\<close> and \<open>unload_end\<close> can make.\<close>

fun cut_call :: "action \<Rightarrow> bool" where
  "cut_call (Respond_info m) = True"
| "cut_call (Run_script_from_command c) =
     (c \<in> {''G28\<newline>M400'', ''G90\<newline>M400'', ''M83\<newline>M400'', ''G92 E0.0\<newline>M400''})"
| "cut_call Wait_moves = True"
| "cut_call (Move xs v) = True"
| "cut_call (Manual_move xs v) = True"
| "cut_call (Set_temperature t w) = (\<not> w)"
| "cut_call Restore_default_boundary = True"
| "cut_call Set_custom_boundary = True"
| "cut_call (Update_timer t v) = (t = Unextrude_to_sensor_timer \<and> v = NOW)"
| "cut_call (Pause t) = True"
| "cut_call a = False"

fun unload_end_call :: "config \<Rightarrow> action \<Rightarrow> bool" where
  "unload_end_call cfg (Respond_info m) = True"
| "unload_end_call cfg (Run_script_from_command c) =
     (c \<in> {''G91\<newline>M400'', ''M83\<newline>M400'', ''G92 E0.0\<newline>M400'', ''M82\<newline>M400''}
      \<or> Run_script_from_command c = RESTORE_GCODE_STATE
      \<or> idex cfg \<and> Run_script_from_command c = RESTORE_DUAL_CARRIAGE_STATE
      \<or> idex cfg \<and> c = ''T0 PARK\<newline>M400'')"
| "unload_end_call cfg Wait_moves = True"
| "unload_end_call cfg (Send_event e) = (e = ''unload_filament:end'')"
| "unload_end_call cfg (Set_temperature t w) = (t = 0 \<and> \<not> w)"
| "unload_end_call cfg Set_custom_boundary = unload_custom_boundary_object cfg"
| "unload_end_call cfg a = False"

text \<open>
  The transitions of the sensor pin, delivered one after the other: each comes with what the
  collaborators answer at that moment (the clock among them), its time and the new state.
\<close>

fun deliver :: "config \<Rightarrow> (env \<times> real \<times> bool) list \<Rightarrow> unit prog" where
  "deliver cfg [] = skip"
| "deliver cfg ((env, eventtime, state) # evs) =
     bind (cutter_sensor_callback env cfg eventtime state) (\<lambda>_. deliver cfg evs)"

definition quiet :: "printer \<Rightarrow> env \<times> real \<times> bool \<Rightarrow> bool" where
  "quiet s ev = (monotonic (fst ev) (trace s) < min_event_systime s)"

text \<open>
  \<open>schedules a\<close>: the call registers the insertion or the runout reaction.  \<open>arms m\<close>:
  after a run of \<open>m\<close>, either no reaction has been registered and \<open>min_event_systime\<close>
  is what it was, or \<open>min_event_systime\<close> is \<open>NEVER\<close>.
\<close>

definition schedules :: "action \<Rightarrow> bool" where
  "schedules a = (a = Register_callback Insert_event_handler \<or> a = Register_callback Runout_event_handler)"

definition arms :: "'a prog \<Rightarrow> bool" where
  "arms m =
     (\<forall>s. \<exists>tr. trace (snd (m s)) = trace s @ tr
        \<and> (list_all (\<lambda>a. \<not> schedules a) tr \<and> min_event_systime (snd (m s)) = min_event_systime s
           \<or> min_event_systime (snd (m s)) = NEVER))"

text \<open>\<open>releases m\<close>: when a run of \<open>m\<close> returns, \<open>is_cutting\<close> is false.\<close>

definition releases :: "'a prog \<Rightarrow> bool" where
  "releases m = (\<forall>s. (\<exists>v. fst (m s) = Return v) \<longrightarrow> \<not> is_cutting (snd (m s)))"

text \<open>
  \<open>ends a m\<close>: a run of \<open>m\<close> only adds to the log and, when it makes the call \<open>a\<close>, that
  call is the last one it makes.
\<close>

definition ends :: "action \<Rightarrow> 'a prog \<Rightarrow> bool" where
  "ends a m =
     (\<forall>s. \<exists>tr. trace (snd (m s)) = trace s @ tr \<and> (a \<in> set tr \<longrightarrow> last tr = a))"

text \<open>
  The calls \<open>cmd_UNLOAD_FILAMENT\<close> can make for a requested temperature, those of the
  delegated \<open>cut\<close> included: which of them it can make depends on what is configured.
\<close>

fun unload_call :: "config \<Rightarrow> real \<Rightarrow> action \<Rightarrow> bool" where
  "unload_call cfg temp (Respond_info m) = True"
| "unload_call cfg temp (Run_script_from_command c) =
     (c \<in> {''G28'', ''G91\<newline>M400'', ''M83\<newline>M400''}
      \<or> Run_script_from_command c = SAVE_GCODE_STATE
      \<or> idex cfg \<and> (Run_script_from_command c = SAVE_DUAL_CARRIAGE_STATE
                    \<or> c = ''T0 UNLOAD'' \<or> c = ''T1 UNLOAD'')
      \<or> cutter_object cfg \<and> cut_call (Run_script_from_command c))"
| "unload_call cfg temp (Send_event e) = (e = ''unload_filament:start'')"
| "unload_call cfg temp (Set_sensor_enabled x v) = (v = 0)"
| "unload_call cfg temp (Set_temperature t w) = (t = temp \<or> cutter_object cfg \<and> \<not> w)"
| "unload_call cfg temp Bucket_move_to_bucket = bucket_object cfg"
| "unload_call cfg temp Wait_moves = True"
| "unload_call cfg temp (Register_callback cb) = (cutter_object cfg \<and> cb = Cut False False temp)"
| "unload_call cfg temp (Update_timer t v) =
     (case t of
        Unextrude_timer \<Rightarrow> v = NOW \<and> \<not> cutter_object cfg \<and> timeout cfg \<noteq> None
      | Verify_flow_sensor_timer \<Rightarrow>
          v = NOW \<and> \<not> cutter_object cfg \<and> timeout cfg \<noteq> None \<and> filament_flow_sensor_object cfg
      | Verify_switch_sensor_timer \<Rightarrow> v = NOW + 5 \<and> filament_switch_sensor_object cfg
      | Unextrude_to_sensor_timer \<Rightarrow> v = NOW \<and> cutter_object cfg)"
| "unload_call cfg temp a = (cutter_object cfg \<and> cut_call a)"

text \<open>The retraction pulses in a log: the moves of the extruder made by \<open>unextrude\<close>.\<close>

fun is_pulse :: "action \<Rightarrow> bool" where
  "is_pulse (Manual_move xs v) = True"
| "is_pulse a = False"

text \<open>
  Modelled from the spec: the TimerService, for one timer.  A timer's callback is run at the
  time the timer is set to and answers the time of its next run; a timer set to \<open>NEVER\<close>
  is not run again.  \<open>run_timer cb n t\<close> runs the callback \<open>cb\<close> of a timer set to
  \<open>t\<close> at most \<open>n\<close> times and returns the time the timer is then set to.
\<close>

fun run_timer :: "(real \<Rightarrow> real prog) \<Rightarrow> nat \<Rightarrow> real \<Rightarrow> real prog" where
  "run_timer cb 0 t = return t"
| "run_timer cb (Suc n) t = (if NEVER \<le> t then return t else bind (cb t) (run_timer cb n))"

text \<open>
  \<open>marks a f x m\<close>: a run of \<open>m\<close> only adds to the log and, when it has made the call
  \<open>a\<close>, it ends with \<open>f\<close> at \<open>x\<close>.
\<close>

definition marks :: "action \<Rightarrow> (printer \<Rightarrow> 'v) \<Rightarrow> 'v \<Rightarrow> 'a prog \<Rightarrow> bool" where
  "marks a f x m =
     (\<forall>s. \<exists>tr. trace (snd (m s)) = trace s @ tr \<and> (a \<in> set tr \<longrightarrow> f (snd (m s)) = x))"

section \<open>A printer at rest\<close>

text \<open>
  The inputs the statements below are tried on: an environment in which no call fails,
  the axes are homed and the extruder is at 220 degrees; a configuration with the toolhead
  connected, without bucket, cutter, sensors or pulse budget; a printer that has neither
  cut nor unloaded yet.
\<close>

definition quiet_env :: env where
  "quiet_env = \<lparr>
     fails = (\<lambda>tr a. None),
     lookup_error = (\<lambda>name. None),
     monotonic = (\<lambda>tr. 100),
     homed_axes = (\<lambda>tr. ''xyz''),
     get_position = (\<lambda>tr. (0, 0, 0, 0)),
     extrude_factor = (\<lambda>tr. 1),
     get_temp = (\<lambda>tr. 220),
     is_shutdown = (\<lambda>tr. False),
     idle_timeout_state = (\<lambda>tr. ''Ready''),
     print_stats_state = (\<lambda>tr. Some ''standby''),
     load_started = (\<lambda>tr. False),
     switch_filament_detected = (\<lambda>tr. False),
     flow_filament_detected = (\<lambda>tr. False),
     is_paused = (\<lambda>tr. False),
     is_active = (\<lambda>tr. False),
     render = (\<lambda>tr t. Inr t)\<rparr>"

definition bench :: config where
  "bench = \<lparr>
     extrude_length_mm = 5,
     retract_length_mm = - 5,
     extrude_speed = 2,
     travel_speed = 100,
     cut_speed = 100,
     cutter_position_x = 10,
     cutter_position_y = 20,
     pre_cutter_position_x = 30,
     pre_cutter_position_y = 20,
     bucked_position_xy = None,
     runout_gcode = None,
     insert_gcode = None,
     event_delay = 3 / 10,
     pause_delay = 1 / 2,
     runout_pause = False,
     toolhead = True,
     custom_boundary_object = True,
     load_filament_object = True,
     unload_filament_object = True,
     idex = False,
     unload_speed = 50,
     timeout = None,
     unload_custom_boundary_object = False,
     bucket_object = False,
     cutter_object = False,
     filament_flow_sensor_object = False,
     filament_switch_sensor_object = False\<rparr>"

definition idle_printer :: printer where
  "idle_printer = \<lparr>
     filament_present = False,
     sensor_enabled = 1,
     min_event_systime = 0,
     is_cutting = False,
     prev_pos = None,
     unload_started = None,
     unextrude_count = 0,
     trace = []\<rparr>"

text \<open>The command \<open>UNLOAD_FILAMENT\<close> without parameters: the temperature defaults to 250.\<close>

definition plain_unload :: gcmd where
  "plain_unload = \<lparr>
     get_TEMPERATURE = Inr 250,
     get_TOOLHEAD = Inl ''missing TOOLHEAD'',
     get_ENABLE = Inr 1\<rparr>"

text \<open>
  The same environment in the middle of a print: the idle timeout and the print statistics
  report \<open>Printing\<close>, the print is not paused and a file is active.
\<close>

definition printing_env :: env where
  "printing_env = quiet_env\<lparr>
     idle_timeout_state := \<lambda>tr. ''Printing'',
     print_stats_state := \<lambda>tr. Some ''Printing'',
     is_paused := \<lambda>tr. False,
     is_active := \<lambda>tr. True\<rparr>"

text \<open>The same environment with a heater that refuses the blocking request for 250 degrees.\<close>

definition heater_fault :: env where
  "heater_fault = quiet_env\<lparr>
     fails := \<lambda>tr a. if a = Set_temperature 250 True then Some ''heater fault'' else None\<rparr>"

text \<open>The printer once an unload has set its guard and armed the retraction timer.\<close>

definition unloading :: printer where
  "unloading = idle_printer\<lparr>unload_started := Some True\<rparr>"

text \<open>
  The same environment with only x and y homed, and staying so: the homing script returns
  without homing z.
\<close>

definition unhomed :: env where
  "unhomed = quiet_env\<lparr>homed_axes := \<lambda>tr. ''xy''\<rparr>"

text \<open>The same environment with a heater that refuses every target.\<close>

definition heater_down :: env where
  "heater_down = quiet_env\<lparr>
     fails := \<lambda>tr a. case a of Set_temperature t w \<Rightarrow> Some ''heater fault'' | _ \<Rightarrow> None\<rparr>"

section \<open>Rules for the statements\<close>

text \<open>A sequence is unfolded one statement at a time, and only where a proof asks for it.\<close>

declare seq.simps [simp del]

lemma frame_refl: "frame f P s s"
  by (simp add: frame_def)

lemma frame_trans: "frame f P s s' \<Longrightarrow> frame f P s' s'' \<Longrightarrow> frame f P s s''"
  by (auto simp add: frame_def)

lemma confined_return: "confined f P (return v)"
  by (simp add: confined_def return_def frame_refl)

lemma confined_skip: "confined f P skip"
  by (simp add: skip_def confined_return)

lemma confined_raise: "confined f P (raise e)"
  by (simp add: confined_def raise_def frame_refl)

lemma confined_diverge: "confined f P diverge"
  by (simp add: confined_def diverge_def frame_refl)

lemma confined_call: "untraced f \<Longrightarrow> P a \<Longrightarrow> confined f P (call env a)"
  by (simp add: confined_def call_def untraced_def frame_def split: option.splits)

lemma confined_emit: "untraced f \<Longrightarrow> P a \<Longrightarrow> confined f P (emit a)"
  by (simp add: confined_def emit_def untraced_def frame_def)

lemma confined_lookup_object: "confined f P (lookup_object env name)"
  by (simp add: lookup_object_def confined_raise confined_skip split: option.splits)

lemma confined_modify:
  "(\<And>s. f (g s) = f s) \<Longrightarrow> (\<And>s. trace (g s) = trace s) \<Longrightarrow> confined f P (modify g)"
  by (simp add: confined_def modify_def frame_def)

lemma confined_bind:
  assumes "confined f P m" and "\<And>v. confined f P (k v)"
  shows "confined f P (bind m k)"
proof -
  have "frame f P s (snd (bind m k s))" for s
  proof (cases "m s")
    case (Pair r s')
    have 1: "frame f P s s'"
      using assms(1) Pair by (auto simp add: confined_def dest: spec [of _ s])
    show ?thesis
    proof (cases r)
      case (Return v)
      have "frame f P s' (snd (k v s'))"
        using assms(2) by (simp add: confined_def)
      with 1 show ?thesis
        using Pair Return by (auto simp add: bind_def intro: frame_trans)
    qed (use 1 Pair in \<open>simp_all add: bind_def\<close>)
  qed
  then show ?thesis by (simp add: confined_def)
qed

lemma confined_seq_Nil: "confined f P (seq [])"
  by (simp add: seq.simps confined_skip)

lemma confined_seq_Cons: "confined f P m \<Longrightarrow> confined f P (seq ms) \<Longrightarrow> confined f P (seq (m # ms))"
  by (simp add: seq.simps confined_bind)

lemma confined_if_then: "(b \<Longrightarrow> confined f P m) \<Longrightarrow> confined f P (if_then b m)"
  by (simp add: if_then_def confined_skip)

lemma confined_cond: "confined f P m1 \<Longrightarrow> confined f P m2 \<Longrightarrow> confined f P (cond b m1 m2)"
  by (simp add: confined_def cond_def)

lemma confined_reading: "(\<And>v. confined f P (k v)) \<Longrightarrow> confined f P (reading r k)"
  by (simp add: confined_def reading_def)

lemma confined_try_except:
  assumes "confined f P m" and "\<And>e. confined f P (h e)"
  shows "confined f P (try_except m h)"
proof -
  have "frame f P s (snd (try_except m h s))" for s
  proof (cases "m s")
    case (Pair r s')
    have 1: "frame f P s s'"
      using assms(1) Pair by (auto simp add: confined_def dest: spec [of _ s])
    show ?thesis
    proof (cases r)
      case (Raise e)
      have "frame f P s' (snd (h e s'))"
        using assms(2) by (simp add: confined_def)
      with 1 show ?thesis
        using Pair Raise by (auto simp add: try_except_def intro: frame_trans)
    qed (use 1 Pair in \<open>simp_all add: try_except_def\<close>)
  qed
  then show ?thesis by (simp add: confined_def)
qed

lemma confined_If:
  "(b \<Longrightarrow> confined f P m1) \<Longrightarrow> (\<not> b \<Longrightarrow> confined f P m2) \<Longrightarrow> confined f P (if b then m1 else m2)"
  by simp

lemma confined_case_option:
  "(x = None \<Longrightarrow> confined f P m1) \<Longrightarrow> (\<And>v. x = Some v \<Longrightarrow> confined f P (m2 v))
    \<Longrightarrow> confined f P (case x of None \<Rightarrow> m1 | Some v \<Rightarrow> m2 v)"
  by (cases x) simp_all

lemma confined_case_sum:
  "(\<And>v. x = Inl v \<Longrightarrow> confined f P (m1 v)) \<Longrightarrow> (\<And>v. x = Inr v \<Longrightarrow> confined f P (m2 v))
    \<Longrightarrow> confined f P (case x of Inl v \<Rightarrow> m1 v | Inr v \<Rightarrow> m2 v)"
  by (cases x) simp_all

lemma confined_case_prod:
  "(\<And>a b. confined f P (k a b)) \<Longrightarrow> confined f P (case x of (a, b) \<Rightarrow> k a b)"
  by (cases x) simp

lemma confined_Let: "confined f P (k v) \<Longrightarrow> confined f P (Let v k)"
  by simp

lemmas confined_intros =
  confined_return confined_skip confined_raise confined_diverge confined_lookup_object
  confined_bind confined_seq_Nil confined_seq_Cons confined_if_then confined_cond
  confined_reading confined_try_except confined_If confined_case_option confined_case_sum
  confined_case_prod confined_Let confined_call confined_emit confined_modify

lemma untraced_erase: "untraced (\<lambda>s. s\<lparr>trace := []\<rparr>)"
  by (simp add: untraced_def)

lemma confined_weaken: "confined f P m \<Longrightarrow> (\<And>a. P a \<Longrightarrow> Q a) \<Longrightarrow> confined f Q m"
  by (auto simp add: confined_def frame_def list_all_iff) blast

lemma ignores_return: "ignores_sensor_enabled (return x)"
  by (simp add: ignores_sensor_enabled_def return_def)

lemma ignores_skip: "ignores_sensor_enabled skip"
  by (simp add: skip_def ignores_return)

lemma ignores_raise: "ignores_sensor_enabled (raise e)"
  by (simp add: ignores_sensor_enabled_def raise_def)

lemma ignores_call: "ignores_sensor_enabled (call env a)"
  by (simp add: ignores_sensor_enabled_def call_def split: option.splits)

lemma ignores_lookup_object: "ignores_sensor_enabled (lookup_object env name)"
  by (simp add: lookup_object_def ignores_raise ignores_skip split: option.splits)

lemma ignores_modify:
  "(\<And>s v. h (s\<lparr>sensor_enabled := v\<rparr>) = (h s)\<lparr>sensor_enabled := v\<rparr>) \<Longrightarrow> ignores_sensor_enabled (modify h)"
  by (simp add: ignores_sensor_enabled_def modify_def)

lemma ignores_bind:
  assumes "ignores_sensor_enabled m" and "\<And>x. ignores_sensor_enabled (k x)"
  shows "ignores_sensor_enabled (bind m k)"
proof -
  have "bind m k (s\<lparr>sensor_enabled := v\<rparr>) = (fst (bind m k s), (snd (bind m k s))\<lparr>sensor_enabled := v\<rparr>)"
    for s v
  proof (cases "m s")
    case (Pair r s')
    then have 1: "m (s\<lparr>sensor_enabled := v\<rparr>) = (r, s'\<lparr>sensor_enabled := v\<rparr>)"
      using assms(1) by (simp add: ignores_sensor_enabled_def)
    show ?thesis
    proof (cases r)
      case (Return x)
      have "k x (s'\<lparr>sensor_enabled := v\<rparr>) = (fst (k x s'), (snd (k x s'))\<lparr>sensor_enabled := v\<rparr>)"
        using assms(2) by (simp add: ignores_sensor_enabled_def)
      then show ?thesis
        using Pair 1 Return by (simp add: bind_def)
    qed (use Pair 1 in \<open>simp_all add: bind_def\<close>)
  qed
  then show ?thesis by (simp add: ignores_sensor_enabled_def)
qed

lemma ignores_seq_Nil: "ignores_sensor_enabled (seq [])"
  by (simp add: seq.simps ignores_skip)

lemma ignores_seq_Cons:
  "ignores_sensor_enabled m \<Longrightarrow> ignores_sensor_enabled (seq ms) \<Longrightarrow> ignores_sensor_enabled (seq (m # ms))"
  by (simp add: seq.simps ignores_bind)

lemma ignores_if_then: "(b \<Longrightarrow> ignores_sensor_enabled m) \<Longrightarrow> ignores_sensor_enabled (if_then b m)"
  by (simp add: if_then_def ignores_skip)

lemma ignores_If:
  "(b \<Longrightarrow> ignores_sensor_enabled m1) \<Longrightarrow> (\<not> b \<Longrightarrow> ignores_sensor_enabled m2)
    \<Longrightarrow> ignores_sensor_enabled (if b then m1 else m2)"
  by simp

lemma ignores_cond:
  "(\<And>s v. b (s\<lparr>sensor_enabled := v\<rparr>) = b s) \<Longrightarrow> ignores_sensor_enabled m1
    \<Longrightarrow> ignores_sensor_enabled m2 \<Longrightarrow> ignores_sensor_enabled (cond b m1 m2)"
  by (simp add: ignores_sensor_enabled_def cond_def)

lemma ignores_reading:
  "(\<And>s v. r (s\<lparr>sensor_enabled := v\<rparr>) = r s) \<Longrightarrow> (\<And>x. ignores_sensor_enabled (k x))
    \<Longrightarrow> ignores_sensor_enabled (reading r k)"
  by (simp add: ignores_sensor_enabled_def reading_def)

lemmas ignores_intros =
  ignores_return ignores_skip ignores_raise ignores_call ignores_lookup_object ignores_modify
  ignores_bind ignores_seq_Nil ignores_seq_Cons ignores_if_then ignores_If ignores_cond
  ignores_reading

lemma ignores_handle_cutter_fnp: "ignores_sensor_enabled (handle_cutter_fnp env cfg)"
  unfolding handle_cutter_fnp_def by (intro ignores_intros) simp_all

lemma ignores_send_event: "ignores_sensor_enabled (send_event env cfg ev)"
  unfolding send_event_def by (intro ignores_intros ignores_handle_cutter_fnp)

lemma ignores_load_unload_branch: "ignores_sensor_enabled (load_unload_branch env cfg st)"
  unfolding load_unload_branch_def by (intro ignores_intros ignores_send_event) simp_all

lemma ignores_idle_or_printing_branch:
  "ignores_sensor_enabled (idle_or_printing_branch env cfg st ps it)"
  unfolding idle_or_printing_branch_def by (intro ignores_intros ignores_send_event) simp_all

lemma ignores_cutter_sensor_callback:
  "ignores_sensor_enabled (cutter_sensor_callback env cfg t st)"
  unfolding cutter_sensor_callback_def
  by (intro ignores_intros ignores_load_unload_branch ignores_idle_or_printing_branch) simp_all

lemma confinedD:
  "confined f P m \<Longrightarrow> f (snd (m s)) = f s \<and> (\<exists>tr. trace (snd (m s)) = trace s @ tr \<and> list_all P tr)"
  by (simp add: confined_def frame_def)

lemma confined_value: "confined f P m \<Longrightarrow> f (snd (m s)) = f s"
  by (simp add: confinedD)

lemma confined_emitted: "confined f P m \<Longrightarrow> list_all P (emitted s (snd (m s)))"
  by (auto simp add: emitted_def dest: confinedD [where s = s])

lemma untraced_field [simp]:
  "untraced is_cutting" "untraced unload_started" "untraced min_event_systime"
  "untraced filament_present" "untraced unextrude_count" "untraced prev_pos"
  "untraced sensor_enabled" "untraced (\<lambda>s. s\<lparr>trace := []\<rparr>)" "untraced (\<lambda>s. ())"
  by (simp_all add: untraced_def)

lemma snd_bind_return: "snd (bind m (\<lambda>_. return v) s) = snd (m s)"
  by (simp add: bind_def return_def split: prod.splits outcome.splits)

lemma snd_seq_modify: "snd (seq (modify g # ms) s) = snd (seq ms (g s))"
  by (simp add: seq.simps bind_def modify_def)

lemma after_modify:
  "confined f P (seq ms) \<Longrightarrow> f (g s) = x
    \<Longrightarrow> f (snd (bind (seq (modify g # ms)) (\<lambda>_. return v) s)) = x"
  by (simp only: snd_bind_return snd_seq_modify confined_value)

lemma emitted_append: "trace s' = trace s @ tr \<Longrightarrow> emitted s s' = tr"
  by (simp add: emitted_def)

lemma fst_bind_Return:
  "fst (bind m k s) = Return v \<longleftrightarrow> (\<exists>u. fst (m s) = Return u \<and> fst (k u (snd (m s))) = Return v)"
  by (cases "m s"; cases "fst (m s)") (auto simp add: bind_def)

lemma snd_bind_Return: "fst (m s) = Return u \<Longrightarrow> snd (bind m k s) = snd (k u (snd (m s)))"
  by (cases "m s") (simp add: bind_def)

lemma bind_Return: "fst (m s) = Return u \<Longrightarrow> bind m k s = k u (snd (m s))"
  by (cases "m s") (simp add: bind_def)

lemma silentD: "silent a m \<Longrightarrow> \<exists>tr. trace (snd (m s)) = trace s @ tr \<and> count_list tr a = 0"
  by (auto simp add: silent_def list_all_iff count_list_0_iff dest!: confinedD [where s = s])

lemma silentI: "confined f (\<lambda>b. b \<noteq> a) m \<Longrightarrow> silent a m"
  by (auto simp add: silent_def confined_def frame_def)

lemma silent_emitted: "silent a m \<Longrightarrow> count_list (emitted s (snd (m s))) a = 0"
  using silentD [of a m s] by (auto simp add: emitted_def)

lemma once_emitted:
  "once a m \<Longrightarrow> count_list (emitted s (snd (m s))) a \<le> 1
     \<and> (fst (m s) = Return v \<longrightarrow> count_list (emitted s (snd (m s))) a = 1)"
  by (auto simp add: once_def emitted_def dest!: spec [where x = s])

lemma once_call: "once a (call env a)"
  by (simp add: once_def call_def split: option.splits)

lemma once_bind_left:
  assumes "once a m" and "\<And>v. silent a (k v)"
  shows "once a (bind m k)"
  unfolding once_def
proof
  fix s
  obtain tr where 1: "trace (snd (m s)) = trace s @ tr" "count_list tr a \<le> 1"
    "(\<exists>v. fst (m s) = Return v) \<longrightarrow> count_list tr a = 1"
    using assms(1) unfolding once_def by blast
  show "\<exists>tr. trace (snd (bind m k s)) = trace s @ tr \<and> count_list tr a \<le> 1
          \<and> ((\<exists>v. fst (bind m k s) = Return v) \<longrightarrow> count_list tr a = 1)"
  proof (cases "fst (m s)")
    case (Return u)
    obtain tr' where 2: "trace (snd (k u (snd (m s)))) = trace (snd (m s)) @ tr'"
      "count_list tr' a = 0"
      using silentD [OF assms(2)] by blast
    show ?thesis
      using 1 2 Return by (intro exI [of _ "tr @ tr'"]) (simp add: snd_bind_Return)
  next
    case (Raise e)
    then show ?thesis
      using 1 by (cases "m s") (auto simp add: bind_def)
  next
    case Diverge
    then show ?thesis
      using 1 by (cases "m s") (auto simp add: bind_def)
  qed
qed

lemma once_bind_right:
  assumes "silent a m" and "\<And>v. once a (k v)"
  shows "once a (bind m k)"
  unfolding once_def
proof
  fix s
  obtain tr where 1: "trace (snd (m s)) = trace s @ tr" "count_list tr a = 0"
    using silentD [OF assms(1)] by blast
  show "\<exists>tr. trace (snd (bind m k s)) = trace s @ tr \<and> count_list tr a \<le> 1
          \<and> ((\<exists>v. fst (bind m k s) = Return v) \<longrightarrow> count_list tr a = 1)"
  proof (cases "fst (m s)")
    case (Return u)
    obtain tr' where 2: "trace (snd (k u (snd (m s)))) = trace (snd (m s)) @ tr'"
      "count_list tr' a \<le> 1"
      "(\<exists>v. fst (k u (snd (m s))) = Return v) \<longrightarrow> count_list tr' a = 1"
      using assms(2) [of u] unfolding once_def by blast
    show ?thesis
      using 1 2 Return
      by (intro exI [of _ "tr @ tr'"]) (auto simp add: snd_bind_Return fst_bind_Return)
  next
    case (Raise e)
    then show ?thesis
      using 1 by (cases "m s") (auto simp add: bind_def)
  next
    case Diverge
    then show ?thesis
      using 1 by (cases "m s") (auto simp add: bind_def)
  qed
qed

lemma once_here: "once a m \<Longrightarrow> silent a (seq ms) \<Longrightarrow> once a (seq (m # ms))"
  by (simp add: seq.simps once_bind_left)

lemma once_later: "silent a m \<Longrightarrow> once a (seq ms) \<Longrightarrow> once a (seq (m # ms))"
  by (simp add: seq.simps once_bind_right)

lemma once_if_then: "b \<Longrightarrow> once a m \<Longrightarrow> once a (if_then b m)"
  by (simp add: if_then_def)

lemma once_cond: "once a m1 \<Longrightarrow> once a m2 \<Longrightarrow> once a (cond b m1 m2)"
  by (simp add: once_def cond_def)

lemma once_try_raise: "once a m \<Longrightarrow> once a (try_except m (\<lambda>e. raise (h e)))"
  unfolding once_def
proof
  fix s
  assume "\<forall>s. \<exists>tr. trace (snd (m s)) = trace s @ tr \<and> count_list tr a \<le> 1
        \<and> ((\<exists>v. fst (m s) = Return v) \<longrightarrow> count_list tr a = 1)"
  then obtain tr where "trace (snd (m s)) = trace s @ tr" "count_list tr a \<le> 1"
    "(\<exists>v. fst (m s) = Return v) \<longrightarrow> count_list tr a = 1"
    by blast
  then show "\<exists>tr. trace (snd (try_except m (\<lambda>e. raise (h e)) s)) = trace s @ tr
      \<and> count_list tr a \<le> 1
      \<and> ((\<exists>v. fst (try_except m (\<lambda>e. raise (h e)) s) = Return v) \<longrightarrow> count_list tr a = 1)"
    by (cases "m s"; cases "fst (m s)") (auto simp add: try_except_def raise_def)
qed

lemma silent_modify: "(\<And>s. trace (g s) = trace s) \<Longrightarrow> silent a (modify g)"
  unfolding silent_def by (rule confined_modify) simp_all

lemmas stmt_defs = seq.simps bind_def return_def skip_def raise_def diverge_def if_then_def cond_def
  reading_def try_except_def modify_def call_def emit_def lookup_object_def

lemma bind_return: "bind (return v) k = k v"
  by (rule ext) (simp add: bind_def return_def)

lemma bind_skip: "bind skip k = k ()"
  by (simp add: skip_def bind_return)

lemma bind_raise: "bind (raise e) k = raise e"
  by (rule ext) (simp add: bind_def raise_def)

lemma bind_modify: "bind (modify g) k s = k () (g s)"
  by (simp add: bind_def modify_def)

lemma bind_bind: "bind (bind m k) k' = bind m (\<lambda>v. bind (k v) k')"
proof
  fix s
  show "bind (bind m k) k' s = bind m (\<lambda>v. bind (k v) k') s"
    by (cases "m s"; cases "fst (m s)") (simp_all add: bind_def)
qed

lemma bind_skip_right: "bind m (\<lambda>_. skip) = m"
proof
  fix s
  show "bind m (\<lambda>_. skip) s = m s"
    by (cases "m s"; cases "fst (m s)") (simp_all add: bind_def skip_def return_def)
qed

lemma bind_cond: "bind (cond b m1 m2) k = cond b (bind m1 k) (bind m2 k)"
  by (rule ext) (simp add: bind_def cond_def)

lemma bind_reading: "bind (reading r f) k = reading r (\<lambda>v. bind (f v) k)"
  by (rule ext) (simp add: bind_def reading_def)

lemmas run_simps = seq.simps bind_return bind_skip bind_raise bind_modify bind_bind bind_skip_right
  bind_cond bind_reading

lemma confined_value': "confined f P m \<Longrightarrow> f s = x \<Longrightarrow> f (snd (m s)) = x"
  by (simp add: confined_value)

lemma snd_seq_modify': "f (snd (seq ms (g s))) = x \<Longrightarrow> f (snd (seq (modify g # ms) s)) = x"
  by (simp only: snd_seq_modify)

lemma holds_after_modify:
  "confined Q P (seq ms) \<Longrightarrow> Q (g s) \<Longrightarrow> Q (snd (seq (modify g # ms) s))"
  by (simp only: snd_seq_modify confined_value)

lemma cond_True: "b s \<Longrightarrow> cond b m1 m2 s = m1 s"
  by (simp add: cond_def)

lemma cond_False: "\<not> b s \<Longrightarrow> cond b m1 m2 s = m2 s"
  by (simp add: cond_def)

lemma try_except_cond: "try_except (cond b m1 m2) h = cond b (try_except m1 h) (try_except m2 h)"
  by (rule ext) (simp add: try_except_def cond_def)

lemma try_raise_Return:
  "fst (try_except m (\<lambda>e. raise (h e)) s) = Return r \<Longrightarrow> try_except m (\<lambda>e. raise (h e)) s = m s"
  by (cases "m s"; cases "fst (m s)") (simp_all add: try_except_def raise_def)

lemma snd_try_raise: "snd (try_except m (\<lambda>e. raise (h e)) s) = snd (m s)"
  by (cases "m s"; cases "fst (m s)") (simp_all add: try_except_def raise_def)

lemma snd_bind_stops: "\<forall>u. fst (m s) \<noteq> Return u \<Longrightarrow> snd (bind m k s) = snd (m s)"
  by (cases "m s"; cases "fst (m s)") (simp_all add: bind_def)

lemma stops_at_head:
  "\<forall>u. fst (m s) \<noteq> Return u \<Longrightarrow> f (snd (m s)) = x
    \<Longrightarrow> f (snd (try_except (seq (m # ms)) (\<lambda>e. raise (h e)) s)) = x"
  by (simp add: seq.simps snd_try_raise snd_bind_stops)

section \<open>Invocations while the guard is set\<close>

lemma cut_while_cutting:
  "is_cutting s \<Longrightarrow>
     cut env cfg fuel return_last_pos off_heaters temp s =
       call env (Respond_info ''[CUTTER] Already cutting filament'') s"
  by (simp add: cut_def cond_def)

lemma unload_while_unloading:
  "truthy (unload_started u) \<Longrightarrow> toolhead cfg \<Longrightarrow> get_TEMPERATURE gcmd = Inr temp \<Longrightarrow>
     cmd_UNLOAD_FILAMENT env cfg fuel gcmd u =
       try_except (call env (Respond_info ''Printer already unloading filament''))
         (\<lambda>e. raise missing_errors) u"
  by (simp add: cmd_UNLOAD_FILAMENT_def cond_def try_except_def)

lemma unload_while_unloading_state:
  assumes "truthy (unload_started u)"
  shows "snd (cmd_UNLOAD_FILAMENT env cfg fuel gcmd u) = u
    \<or> snd (cmd_UNLOAD_FILAMENT env cfg fuel gcmd u) =
        u\<lparr>trace := trace u @ [Respond_info ''Printer already unloading filament'']\<rparr>"
proof (cases "get_TEMPERATURE gcmd")
  case (Inl m)
  then show ?thesis
    by (simp add: cmd_UNLOAD_FILAMENT_def raise_def)
next
  case (Inr temp)
  show ?thesis
  proof (cases "toolhead cfg")
    case True
    show ?thesis
      unfolding unload_while_unloading [OF assms True Inr]
      by (simp add: try_except_def call_def raise_def split: option.splits)
  next
    case False
    then show ?thesis
      using Inr by (simp add: cmd_UNLOAD_FILAMENT_def skip_def return_def)
  qed
qed

section \<open>The completion of an unload\<close>

lemma confined_wait_moves: "untraced f \<Longrightarrow> P Wait_moves \<Longrightarrow> confined f P (wait_moves env cfg)"
  unfolding wait_moves_def by (intro confined_intros) simp_all

lemma confined_handle_cutter_fnp:
  "untraced f \<Longrightarrow> P (Respond_info ''Pulling filament out of the printer wait....'')
    \<Longrightarrow> P (Update_timer Unextrude_timer NOW) \<Longrightarrow> confined f P (handle_cutter_fnp env cfg)"
  unfolding handle_cutter_fnp_def by (intro confined_intros) simp_all

lemma confined_send_event:
  "untraced f \<Longrightarrow> P (Send_event ev) \<Longrightarrow> ev \<noteq> ''cutter_sensor:no_filament''
    \<Longrightarrow> confined f P (send_event env cfg ev)"
  unfolding send_event_def by (intro confined_intros) simp_all

lemma confined_restore_state:
  "untraced f \<Longrightarrow> P RESTORE_GCODE_STATE \<Longrightarrow> (idex cfg \<Longrightarrow> P RESTORE_DUAL_CARRIAGE_STATE)
    \<Longrightarrow> confined f P (restore_state env cfg)"
  unfolding restore_state_def by (intro confined_intros) simp_all

lemma confined_unload_heat_and_wait:
  "untraced f \<Longrightarrow> P (Set_temperature t w) \<Longrightarrow> confined f P (unload_heat_and_wait env cfg t w)"
  unfolding unload_heat_and_wait_def by (intro confined_intros) simp_all

lemma confined_unload_end:
  "untraced f \<Longrightarrow> (\<And>s. f (s\<lparr>unload_started := Some False\<rparr>) = f s)
    \<Longrightarrow> confined f (unload_end_call cfg) (unload_end env cfg)"
  unfolding unload_end_def
  by (intro confined_intros confined_send_event confined_wait_moves confined_restore_state
      confined_unload_heat_and_wait)
    (simp_all add: RESTORE_GCODE_STATE_def RESTORE_DUAL_CARRIAGE_STATE_def)

lemma unload_end_noop: "\<not> truthy (unload_started s) \<Longrightarrow> unload_end env cfg s = (Return False, s)"
  by (simp add: unload_end_def cond_def return_def)

lemma unload_end_started:
  assumes "truthy (unload_started s)"
  shows "unload_started (snd (unload_end env cfg s)) = Some False"
  unfolding unload_end_def cond_def
  apply (simp only: assms not_True_eq_False if_False)
  apply (rule after_modify [where P = "unload_end_call cfg"])
   apply (intro confined_intros confined_send_event confined_wait_moves confined_restore_state
      confined_unload_heat_and_wait)
                      apply (simp_all add: RESTORE_GCODE_STATE_def RESTORE_DUAL_CARRIAGE_STATE_def)
  done

lemma unload_end_clears: "\<not> truthy (unload_started (snd (unload_end env cfg s)))"
proof (cases "truthy (unload_started s)")
  case True
  then show ?thesis by (simp add: unload_end_started truthy_def)
next
  case False
  then show ?thesis by (simp add: unload_end_noop)
qed

lemma once_send_event:
  "ev \<noteq> ''cutter_sensor:no_filament'' \<Longrightarrow> once (Send_event ev) (send_event env cfg ev)"
  unfolding send_event_def
  by (intro once_here once_call silentI [where f = "\<lambda>s. ()"] confined_intros) simp_all

lemma once_unload_end_event:
  "truthy (unload_started s) \<Longrightarrow>
     count_list (emitted s (snd (unload_end env cfg s))) (Send_event ''unload_filament:end'') \<le> 1
     \<and> (fst (unload_end env cfg s) = Return True \<longrightarrow>
        count_list (emitted s (snd (unload_end env cfg s))) (Send_event ''unload_filament:end'') = 1)"
  unfolding unload_end_def cond_def
  apply (simp only: not_True_eq_False if_False)
  apply (rule once_emitted)
  apply (intro once_bind_left once_here [where m = "send_event env cfg ev" for ev] once_later
      once_send_event silent_modify
      silentI [where f = "\<lambda>s. ()"] confined_intros confined_send_event confined_wait_moves
      confined_restore_state confined_unload_heat_and_wait)
                      apply (simp_all add: RESTORE_GCODE_STATE_def RESTORE_DUAL_CARRIAGE_STATE_def)
  done

lemma confined_unload_home_needed:
  "untraced f \<Longrightarrow> P (Run_script_from_command ''G28'') \<Longrightarrow> confined f P (unload_home_needed env cfg)"
  unfolding unload_home_needed_def by (intro confined_intros) simp_all

lemma unextrude_budget_exceeded:
  assumes t: "truthy (unload_started s)" and n: "timeout cfg = Some n" "n < unextrude_count s"
    and r: "fst (unload_unextrude env cfg eventtime s) = Return r"
  shows "r = NEVER \<and> unload_started (snd (unload_unextrude env cfg eventtime s)) = Some False"
proof -
  let ?pre = "seq [call env (Update_timer Verify_switch_sensor_timer NEVER),
      call env (Register_callback Unload_end)]"
  let ?m = "bind ?pre (\<lambda>_. bind (unload_end env cfg) (\<lambda>_. return NEVER))"
  let ?h = "\<lambda>e. UnloadFilamentError (''[UNLOAD FILAMENT] Error while unloading: '' @ str_of e)"
  have eq: "unload_unextrude env cfg eventtime s = try_except ?m (\<lambda>e. raise (?h e)) s"
    using t n by (simp add: unload_unextrude_def try_except_cond cond_def)
  have 1: "unload_unextrude env cfg eventtime s = ?m s"
    using r unfolding eq by (rule try_raise_Return)
  obtain u where u: "fst (?pre s) = Return u"
    using r unfolding 1 by (auto simp add: fst_bind_Return)
  let ?s1 = "snd (?pre s)"
  have "confined unload_started (\<lambda>a. True) ?pre"
    by (intro confined_intros) simp_all
  then have t1: "truthy (unload_started ?s1)"
    using t by (simp add: confined_value)
  have 2: "unload_unextrude env cfg eventtime s = bind (unload_end env cfg) (\<lambda>_. return NEVER) ?s1"
    unfolding 1 using u by (rule bind_Return)
  have "r = NEVER"
    using r unfolding 2 by (auto simp add: fst_bind_Return return_def)
  moreover have "unload_started (snd (unload_unextrude env cfg eventtime s)) = Some False"
    unfolding 2 by (simp add: snd_bind_return unload_end_started [OF t1])
  ultimately show ?thesis by simp
qed

lemma unload_stops_before_the_guard:
  assumes "\<not> toolhead cfg \<or> fst (unload_home_needed env cfg s) \<noteq> Return ()"
  shows "unload_started (snd (cmd_UNLOAD_FILAMENT env cfg fuel gcmd s)) = unload_started s"
proof (cases "get_TEMPERATURE gcmd")
  case (Inl m)
  then show ?thesis
    by (simp add: cmd_UNLOAD_FILAMENT_def raise_def)
next
  case (Inr temp)
  show ?thesis
  proof (cases "toolhead cfg")
    case False
    then show ?thesis
      using Inr by (simp add: cmd_UNLOAD_FILAMENT_def skip_def return_def)
  next
    case True
    then have h: "\<forall>u. fst (unload_home_needed env cfg s) \<noteq> Return u"
      using assms by simp
    have th: "toolhead cfg = True"
      using True by simp
    show ?thesis
    proof (cases "truthy (unload_started s)")
      case True
      then show ?thesis
        using unload_while_unloading_state [of s env cfg fuel gcmd] by auto
    next
      case False
      show ?thesis
        apply (simp only: cmd_UNLOAD_FILAMENT_def Inr sum.case th not_True_eq_False if_False
            try_except_cond cond_False [of "\<lambda>s. truthy (unload_started s)", OF False])
        apply (rule stops_at_head [where m = "unload_home_needed env cfg"])
         apply (rule h)
        apply (rule confined_value' [where P = "\<lambda>a. True"])
         apply (rule confined_unload_home_needed)
          apply simp_all
        done
    qed
  qed
qed

section \<open>The sensor callback and the Quiet Period\<close>

lemma callback_same_state:
  "state = filament_present s \<Longrightarrow> cutter_sensor_callback env cfg eventtime state s = (Return (), s)"
  by (simp add: cutter_sensor_callback_def cond_def skip_def return_def)

lemma callback_quiet:
  assumes "monotonic env (trace s) < min_event_systime s"
  shows "cutter_sensor_callback env cfg eventtime state s = (Return (), s\<lparr>filament_present := state\<rparr>)"
proof (cases "state = filament_present s")
  case True
  then show ?thesis by (simp add: callback_same_state)
next
  case False
  then show ?thesis
    using assms
    by (simp add: cutter_sensor_callback_def seq.simps cond_def bind_def modify_def skip_def
        return_def)
qed

lemma armsD:
  "arms m \<Longrightarrow> \<exists>tr. trace (snd (m s)) = trace s @ tr
        \<and> (list_all (\<lambda>a. \<not> schedules a) tr \<and> min_event_systime (snd (m s)) = min_event_systime s
           \<or> min_event_systime (snd (m s)) = NEVER)"
  by (simp add: arms_def)

lemma arms_confined: "confined min_event_systime (\<lambda>a. \<not> schedules a) m \<Longrightarrow> arms m"
  unfolding arms_def by (blast dest: confinedD)

lemma arms_bind:
  assumes "arms m" and "\<And>v. arms (k v)"
  shows "arms (bind m k)"
  unfolding arms_def
proof
  fix s
  obtain tr where 1: "trace (snd (m s)) = trace s @ tr"
    "list_all (\<lambda>a. \<not> schedules a) tr \<and> min_event_systime (snd (m s)) = min_event_systime s
           \<or> min_event_systime (snd (m s)) = NEVER"
    using armsD [OF assms(1)] by blast
  show "\<exists>tr. trace (snd (bind m k s)) = trace s @ tr
        \<and> (list_all (\<lambda>a. \<not> schedules a) tr
             \<and> min_event_systime (snd (bind m k s)) = min_event_systime s
           \<or> min_event_systime (snd (bind m k s)) = NEVER)"
  proof (cases "fst (m s)")
    case (Return u)
    obtain tr' where 2: "trace (snd (k u (snd (m s)))) = trace (snd (m s)) @ tr'"
      "list_all (\<lambda>a. \<not> schedules a) tr'
          \<and> min_event_systime (snd (k u (snd (m s)))) = min_event_systime (snd (m s))
        \<or> min_event_systime (snd (k u (snd (m s)))) = NEVER"
      using armsD [OF assms(2)] by blast
    show ?thesis
      using 1 2 Return by (intro exI [of _ "tr @ tr'"]) (auto simp add: snd_bind_Return)
  next
    case (Raise e)
    then show ?thesis
      using 1 by (cases "m s") (auto simp add: bind_def)
  next
    case Diverge
    then show ?thesis
      using 1 by (cases "m s") (auto simp add: bind_def)
  qed
qed

lemma arms_set:
  "arms (seq [modify (\<lambda>s. s\<lparr>min_event_systime := NEVER\<rparr>), call env a])"
  by (simp add: arms_def seq.simps modify_def call_def skip_def bind_def return_def
      split: option.splits)

lemma arms_seq_Cons: "arms m \<Longrightarrow> arms (seq ms) \<Longrightarrow> arms (seq (m # ms))"
  by (simp add: seq.simps arms_bind)

lemma arms_if_then: "(b \<Longrightarrow> arms m) \<Longrightarrow> arms (if_then b m)"
  by (simp add: if_then_def arms_confined confined_skip)

lemma arms_If: "(b \<Longrightarrow> arms m1) \<Longrightarrow> (\<not> b \<Longrightarrow> arms m2) \<Longrightarrow> arms (if b then m1 else m2)"
  by simp

lemma arms_cond: "arms m1 \<Longrightarrow> arms m2 \<Longrightarrow> arms (cond b m1 m2)"
  by (simp add: arms_def cond_def)

lemma arms_reading: "(\<And>v. arms (k v)) \<Longrightarrow> arms (reading r k)"
  by (simp add: arms_def reading_def)

lemma confined_send_event_any:
  "untraced f \<Longrightarrow> P (Send_event ev)
    \<Longrightarrow> P (Respond_info ''Pulling filament out of the printer wait....'')
    \<Longrightarrow> P (Update_timer Unextrude_timer NOW) \<Longrightarrow> confined f P (send_event env cfg ev)"
  unfolding send_event_def by (intro confined_intros confined_handle_cutter_fnp) simp_all

lemma arms_load_unload_branch:
  "confined min_event_systime (\<lambda>a. \<not> schedules a) (load_unload_branch env cfg state)"
  unfolding load_unload_branch_def
  by (intro confined_intros confined_send_event_any) (simp_all add: schedules_def)

lemma arms_idle_or_printing_branch: "arms (idle_or_printing_branch env cfg state ps it)"
  unfolding idle_or_printing_branch_def
  by (intro arms_set arms_seq_Cons arms_if_then arms_If arms_cond arms_confined
      confined_intros confined_send_event_any)
    (simp_all add: schedules_def)

lemma arms_cutter_sensor_callback: "arms (cutter_sensor_callback env cfg eventtime state)"
  unfolding cutter_sensor_callback_def
  by (intro arms_cond arms_reading arms_idle_or_printing_branch
      arms_confined [OF arms_load_unload_branch] arms_seq_Cons arms_confined confined_intros)
    (simp_all add: schedules_def)

lemma exec_gcode_deadline:
  "fst (exec_gcode env cfg prefix template s) = Return ()
   \<and> min_event_systime (snd (exec_gcode env cfg prefix template s)) =
       monotonic env (trace (snd (exec_gcode env cfg prefix template s))) + event_delay cfg"
  by (cases template; cases "render env (trace s) (the template)")
    (simp_all add: exec_gcode_def stmt_defs split: option.splits)

lemma runout_event_handler_deadline:
  assumes "fst (runout_event_handler env cfg eventtime s) = Return ()"
  shows "min_event_systime (snd (runout_event_handler env cfg eventtime s)) =
       monotonic env (trace (snd (runout_event_handler env cfg eventtime s))) + event_delay cfg"
proof (cases "runout_pause cfg")
  case False
  then show ?thesis
    by (simp add: runout_event_handler_def exec_gcode_deadline)
next
  case True
  let ?pre = "seq [lookup_object env ''pause_resume'', call env Send_pause_command,
      call env (Pause (eventtime + pause_delay cfg))]"
  let ?ex = "exec_gcode env cfg ''PAUSE\<newline>'' (runout_gcode cfg)"
  have eq: "runout_event_handler env cfg eventtime s = bind ?pre (\<lambda>_. ?ex) s"
    using True by (simp add: runout_event_handler_def run_simps)
  obtain u where "fst (?pre s) = Return u"
    using assms unfolding eq by (auto simp add: fst_bind_Return)
  then have "runout_event_handler env cfg eventtime s = ?ex (snd (?pre s))"
    unfolding eq by (rule bind_Return)
  then show ?thesis
    by (simp add: exec_gcode_deadline)
qed

lemma callback_during_load_or_unload:
  assumes "(load_filament_object cfg \<and> load_started env (trace s))
      \<or> (unload_filament_object cfg \<and> truthy (unload_started s))"
  shows "min_event_systime (snd (cutter_sensor_callback env cfg eventtime state s)) = min_event_systime s"
proof (cases "state = filament_present s \<or> monotonic env (trace s) < min_event_systime s")
  case True
  then show ?thesis
    by (auto simp add: callback_same_state callback_quiet)
next
  case False
  show ?thesis
  proof (cases "lookup_error env ''idle_timeout''")
    case (Some m)
    then show ?thesis
      using False
      by (simp add: cutter_sensor_callback_def run_simps cond_def lookup_object_def raise_def)
  next
    case None
    show ?thesis
      using False None assms
      apply (simp add: cutter_sensor_callback_def run_simps cond_def lookup_object_def reading_def)
      apply (rule confined_value' [where P = "\<lambda>a. True"])
       apply (intro confined_intros confined_send_event_any
          confined_weaken [OF arms_load_unload_branch])
              apply simp_all
      done
  qed
qed

lemma releases_clear: "releases (seq [modify (\<lambda>s. s\<lparr>is_cutting := False\<rparr>)])"
  by (simp add: releases_def seq.simps bind_modify skip_def return_def)

lemma releases_last: "releases (seq ms) \<Longrightarrow> releases (seq (m # ms))"
  by (auto simp add: releases_def seq.simps fst_bind_Return snd_bind_Return)

lemma releases_keep:
  assumes "releases m" and "\<And>v. confined is_cutting P (k v)"
  shows "releases (bind m k)"
  unfolding releases_def
proof (intro allI impI)
  fix s
  assume "\<exists>v. fst (bind m k s) = Return v"
  then obtain u where u: "fst (m s) = Return u"
    by (auto simp add: fst_bind_Return)
  then have "\<not> is_cutting (snd (m s))"
    using assms(1) by (auto simp add: releases_def)
  then show "\<not> is_cutting (snd (bind m k s))"
    using u confined_value [OF assms(2), of u "snd (m s)"] by (simp add: snd_bind_Return)
qed

lemma releases_seq_keep: "releases m \<Longrightarrow> confined is_cutting P (seq ms) \<Longrightarrow> releases (seq (m # ms))"
  by (simp add: seq.simps releases_keep)

lemma releases_guarded: "releases m \<Longrightarrow> releases (cond is_cutting m skip)"
  by (simp add: releases_def cond_def skip_def return_def)

lemma releases_load_unload_branch: "releases (load_unload_branch env cfg False)"
  unfolding load_unload_branch_def
  apply (simp only: if_False)
  apply (rule releases_seq_keep [where P = "\<lambda>a. True"])
   apply (intro releases_guarded releases_clear releases_last)
  apply (intro confined_intros confined_send_event_any)
     apply simp_all
  done

lemma releases_idle_branch:
  assumes "\<not> it \<and> \<not> truthy ps \<and> runout_gcode cfg \<noteq> None"
  shows "releases (idle_or_printing_branch env cfg False ps it)"
  unfolding idle_or_printing_branch_def if_False if_P [OF assms]
  apply (rule releases_seq_keep [where P = "\<lambda>a. True"])
   apply (intro releases_guarded releases_clear releases_last)
  apply (intro confined_intros confined_send_event_any)
        apply simp_all
  done

lemma releasesD: "releases m \<Longrightarrow> fst (m s) = Return v \<Longrightarrow> \<not> is_cutting (snd (m s))"
  by (auto simp add: releases_def)

lemma callback_runs_branch:
  assumes "state \<noteq> filament_present s" and "\<not> monotonic env (trace s) < min_event_systime s"
    and "lookup_error env ''idle_timeout'' = None"
  shows "cutter_sensor_callback env cfg eventtime state s =
     bind
       (if (load_filament_object cfg \<and> load_started env (trace s))
            \<or> (unload_filament_object cfg \<and> truthy (unload_started s))
        then load_unload_branch env cfg state
        else idle_or_printing_branch env cfg state
               (case print_stats_state env (trace s) of None \<Rightarrow> None | Some st \<Rightarrow> Some (st = ''Printing''))
               (idle_timeout_state env (trace s) = ''Printing''))
       (\<lambda>_. seq [call env (Run_script_from_command ''G90\<newline>M400''),
                 call env (Run_script_from_command ''M83\<newline>M400''),
                 call env (Run_script_from_command ''G92 E0.0\<newline>M400'')])
       (s\<lparr>filament_present := state\<rparr>)"
  using assms
  by (simp add: cutter_sensor_callback_def run_simps cond_def lookup_object_def reading_def)

lemma callback_raises_without_idle_timeout:
  assumes "state \<noteq> filament_present s" and "\<not> monotonic env (trace s) < min_event_systime s"
    and "lookup_error env ''idle_timeout'' = Some m"
  shows "cutter_sensor_callback env cfg eventtime state s =
     (Raise (Exception m), s\<lparr>filament_present := state\<rparr>)"
  using assms
  by (simp add: cutter_sensor_callback_def run_simps cond_def lookup_object_def raise_def)

lemma callback_releases_cut:
  assumes "filament_present s" and "\<not> monotonic env (trace s) < min_event_systime s"
    and r: "fst (cutter_sensor_callback env cfg eventtime False s) = Return ()"
    and b: "(load_filament_object cfg \<and> load_started env (trace s))
      \<or> (unload_filament_object cfg \<and> truthy (unload_started s))
      \<or> (idle_timeout_state env (trace s) \<noteq> ''Printing''
          \<and> print_stats_state env (trace s) \<noteq> Some ''Printing'' \<and> runout_gcode cfg \<noteq> None)"
  shows "\<not> is_cutting (snd (cutter_sensor_callback env cfg eventtime False s))"
proof (cases "lookup_error env ''idle_timeout''")
  case (Some m)
  then show ?thesis
    using assms(1,2) r by (simp add: callback_raises_without_idle_timeout)
next
  case None
  let ?ps = "case print_stats_state env (trace s) of None \<Rightarrow> None | Some st \<Rightarrow> Some (st = ''Printing'')"
  let ?it = "idle_timeout_state env (trace s) = ''Printing''"
  let ?active = "(load_filament_object cfg \<and> load_started env (trace s))
      \<or> (unload_filament_object cfg \<and> truthy (unload_started s))"
  let ?branch = "if ?active then load_unload_branch env cfg False
      else idle_or_printing_branch env cfg False ?ps ?it"
  have ps: "truthy ?ps \<longleftrightarrow> print_stats_state env (trace s) = Some ''Printing''"
    by (simp add: truthy_def split: option.splits)
  have rel: "releases ?branch"
  proof (cases ?active)
    case True
    then show ?thesis
      by (simp only: if_True releases_load_unload_branch)
  next
    case False
    then have "\<not> ?it \<and> \<not> truthy ?ps \<and> runout_gcode cfg \<noteq> None"
      using b ps by blast
    then have "releases (idle_or_printing_branch env cfg False ?ps ?it)"
      by (rule releases_idle_branch)
    then show ?thesis
      using False by (simp only: if_False)
  qed
  have eq: "cutter_sensor_callback env cfg eventtime False s =
      bind ?branch
        (\<lambda>_. seq [call env (Run_script_from_command ''G90\<newline>M400''),
                  call env (Run_script_from_command ''M83\<newline>M400''),
                  call env (Run_script_from_command ''G92 E0.0\<newline>M400'')])
        (s\<lparr>filament_present := False\<rparr>)"
    using assms(1,2) None by (intro callback_runs_branch) simp_all
  have "releases (bind ?branch
        (\<lambda>_. seq [call env (Run_script_from_command ''G90\<newline>M400''),
                  call env (Run_script_from_command ''M83\<newline>M400''),
                  call env (Run_script_from_command ''G92 E0.0\<newline>M400'')]))"
    by (rule releases_keep [where P = "\<lambda>a. True", OF rel]) (intro confined_intros, simp_all)
  then show ?thesis
    using r unfolding eq by (rule releasesD)
qed

section \<open>What a cut does\<close>

lemma confined_home_needed: "untraced f \<Longrightarrow> confined f cut_call (home_needed env cfg)"
  unfolding home_needed_def by (intro confined_intros) simp_all

lemma confined_heat_wait_loop:
  "untraced f \<Longrightarrow> confined f cut_call (heat_wait_loop env temp wait fuel eventtime)"
proof (induction fuel arbitrary: eventtime)
  case 0
  then show ?case
    by (simp add: confined_cond confined_diverge confined_skip)
next
  case (Suc fuel)
  show ?case
    unfolding heat_wait_loop.simps
    by (intro confined_intros Suc.IH Suc.prems) simp_all
qed

lemma confined_heat_and_wait:
  "untraced f \<Longrightarrow> confined f cut_call (heat_and_wait env cfg fuel temp wait)"
  unfolding heat_and_wait_def
  by (intro confined_intros confined_heat_wait_loop) simp_all

lemma confined_move_extruder_mm:
  "untraced f \<Longrightarrow> confined f cut_call (move_extruder_mm env cfg distance speed wait)"
  unfolding move_extruder_mm_def by (intro confined_intros) simp_all

lemma confined_cut_move: "untraced f \<Longrightarrow> confined f cut_call (cut_move env cfg)"
  unfolding cut_move_def by (intro confined_intros) simp_all

lemma confined_move_to_cutter_pos: "untraced f \<Longrightarrow> confined f cut_call (move_to_cutter_pos env cfg)"
  unfolding move_to_cutter_pos_def by (intro confined_intros) simp_all

lemma confined_move_to_bucket: "untraced f \<Longrightarrow> confined f cut_call (move_to_bucket env cfg split)"
  unfolding move_to_bucket_def by (intro confined_intros) simp_all

lemma confined_move_back: "untraced f \<Longrightarrow> confined f cut_call (move_back env cfg)"
  unfolding move_back_def by (intro confined_intros) simp_all

lemmas confined_cut_steps = confined_home_needed confined_heat_and_wait confined_move_extruder_mm
  confined_cut_move confined_move_to_cutter_pos confined_move_to_bucket confined_move_back

lemma confined_cut:
  assumes "untraced f" and "\<And>s. f (s\<lparr>is_cutting := True\<rparr>) = f s"
    and "\<And>s p. f (s\<lparr>prev_pos := p\<rparr>) = f s"
  shows "confined f cut_call (cut env cfg fuel return_last_pos off_heaters temp)"
  unfolding cut_def
  by (intro confined_intros confined_cut_steps assms(1)) (simp_all add: assms)

lemma cut_keeps_unload_attributes:
  "confined (\<lambda>s. (unload_started s, unextrude_count s)) cut_call
     (cut env cfg fuel return_last_pos off_heaters temp)"
  by (rule confined_cut) (simp_all add: untraced_def)

lemma cut_sets_guard: "is_cutting (snd (cut env cfg fuel return_last_pos off_heaters temp s))"
proof (cases "is_cutting s")
  case True
  then show ?thesis
    by (simp add: cut_while_cutting call_def split: option.splits)
next
  case False
  show ?thesis
    apply (simp only: cut_def cond_False [of is_cutting, OF False])
    apply (rule holds_after_modify [where P = cut_call])
     apply (intro confined_intros confined_cut_steps)
                      apply simp_all
    done
qed

section \<open>The unload command\<close>

text \<open>
  What \<open>cmd_UNLOAD_FILAMENT\<close> calls, how often, and in which order: its calls stay
  within \<open>unload_call\<close>, each strategy is started once, and arming the verification of
  the switch sensor is its last call.
\<close>

lemma cut_call_unload_call: "cutter_object cfg \<Longrightarrow> cut_call a \<Longrightarrow> unload_call cfg temp a"
  by (cases a) (auto split: timer.splits)

lemma confined_save_state:
  "untraced f \<Longrightarrow> P SAVE_GCODE_STATE \<Longrightarrow> (idex cfg \<Longrightarrow> P SAVE_DUAL_CARRIAGE_STATE)
    \<Longrightarrow> confined f P (save_state env cfg)"
  unfolding save_state_def by (intro confined_intros) simp_all

lemma confined_disable_sensors:
  "untraced f \<Longrightarrow> (\<And>x. P (Set_sensor_enabled x 0))
    \<Longrightarrow> P (Respond_info ''filament switch sensor is not enabled'')
    \<Longrightarrow> confined f P (disable_sensors env cfg)"
  unfolding disable_sensors_def by (intro confined_intros) simp_all

text \<open>The statements of \<open>cmd_UNLOAD_FILAMENT\<close> around the delegated cut.\<close>

lemmas confined_unload_steps = confined_unload_home_needed confined_save_state
  confined_disable_sensors confined_send_event confined_unload_heat_and_wait confined_wait_moves

lemma confined_cmd_UNLOAD_FILAMENT:
  assumes "untraced f" and "\<And>s. f (s\<lparr>unload_started := Some True\<rparr>) = f s"
    and "\<And>s. f (s\<lparr>unextrude_count := 0\<rparr>) = f s"
    and "\<And>s. f (s\<lparr>is_cutting := True\<rparr>) = f s" and "\<And>s p. f (s\<lparr>prev_pos := p\<rparr>) = f s"
    and "get_TEMPERATURE gcmd = Inr temp"
  shows "confined f (unload_call cfg temp) (cmd_UNLOAD_FILAMENT env cfg fuel gcmd)"
  unfolding cmd_UNLOAD_FILAMENT_def assms(6) sum.case
  by (intro confined_intros confined_unload_steps assms(1)
      confined_weaken [OF confined_cut, OF assms(1)])
    (simp_all add: assms(2-5) SAVE_GCODE_STATE_def SAVE_DUAL_CARRIAGE_STATE_def
      cut_call_unload_call)

lemma cmd_emitted:
  "list_all (\<lambda>a. \<forall>temp. get_TEMPERATURE gcmd = Inr temp \<longrightarrow> unload_call cfg temp a)
     (emitted s (snd (cmd_UNLOAD_FILAMENT env cfg fuel gcmd s)))"
proof (cases "get_TEMPERATURE gcmd")
  case (Inl m)
  then show ?thesis
    by (simp add: cmd_UNLOAD_FILAMENT_def raise_def emitted_def)
next
  case (Inr temp)
  have "confined (\<lambda>s. ()) (unload_call cfg temp) (cmd_UNLOAD_FILAMENT env cfg fuel gcmd)"
    by (rule confined_cmd_UNLOAD_FILAMENT) (simp_all add: Inr)
  then show ?thesis
    using Inr by (simp add: confined_emitted)
qed

lemma unload_never_pauses:
  "Run_script_from_command ''PAUSE'' \<notin> set (emitted s (snd (cmd_UNLOAD_FILAMENT env cfg fuel gcmd s)))
   \<and> Send_pause_command \<notin> set (emitted s (snd (cmd_UNLOAD_FILAMENT env cfg fuel gcmd s)))"
proof (cases "get_TEMPERATURE gcmd")
  case (Inl m)
  then show ?thesis
    by (simp add: cmd_UNLOAD_FILAMENT_def raise_def emitted_def)
next
  case (Inr temp)
  have "\<not> unload_call cfg temp (Run_script_from_command ''PAUSE'')"
    and "\<not> unload_call cfg temp Send_pause_command"
    by (simp_all add: SAVE_GCODE_STATE_def SAVE_DUAL_CARRIAGE_STATE_def)
  then show ?thesis
    using cmd_emitted [of gcmd cfg s env fuel] Inr by (auto simp add: list_all_iff)
qed

lemma ends_emitted:
  "ends a m \<Longrightarrow> a \<in> set (emitted s (snd (m s))) \<Longrightarrow> last (emitted s (snd (m s))) = a"
  by (auto simp add: ends_def emitted_def dest!: spec [where x = s])

lemma ends_call: "ends a (call env a)"
  by (simp add: ends_def call_def split: option.splits)

lemma ends_silent: "silent a m \<Longrightarrow> ends a m"
  unfolding ends_def
proof
  fix s
  assume "silent a m"
  then obtain tr where "trace (snd (m s)) = trace s @ tr" "count_list tr a = 0"
    using silentD by blast
  then show "\<exists>tr. trace (snd (m s)) = trace s @ tr \<and> (a \<in> set tr \<longrightarrow> last tr = a)"
    by (auto simp add: count_list_0_iff)
qed

lemma ends_bind:
  assumes "silent a m" and "\<And>v. ends a (k v)"
  shows "ends a (bind m k)"
  unfolding ends_def
proof
  fix s
  obtain tr where 1: "trace (snd (m s)) = trace s @ tr" "count_list tr a = 0"
    using silentD [OF assms(1)] by blast
  show "\<exists>tr. trace (snd (bind m k s)) = trace s @ tr \<and> (a \<in> set tr \<longrightarrow> last tr = a)"
  proof (cases "fst (m s)")
    case (Return u)
    obtain tr' where 2: "trace (snd (k u (snd (m s)))) = trace (snd (m s)) @ tr'"
      "a \<in> set tr' \<longrightarrow> last tr' = a"
      using assms(2) [of u] unfolding ends_def by blast
    show ?thesis
      using 1 2 Return
      by (intro exI [of _ "tr @ tr'"]) (auto simp add: snd_bind_Return count_list_0_iff last_append)
  next
    case (Raise e)
    then show ?thesis
      using 1 by (cases "m s") (auto simp add: bind_def count_list_0_iff)
  next
    case Diverge
    then show ?thesis
      using 1 by (cases "m s") (auto simp add: bind_def count_list_0_iff)
  qed
qed

lemma ends_later: "silent a m \<Longrightarrow> ends a (seq ms) \<Longrightarrow> ends a (seq (m # ms))"
  by (simp add: seq.simps ends_bind)

lemma ends_last: "ends a m \<Longrightarrow> ends a (seq [m])"
  by (simp add: seq.simps bind_skip_right)

lemma ends_if_then: "(b \<Longrightarrow> ends a m) \<Longrightarrow> ends a (if_then b m)"
  by (cases b) (simp_all add: if_then_def ends_def skip_def return_def)

lemma ends_try_raise: "ends a m \<Longrightarrow> ends a (try_except m (\<lambda>e. raise (h e)))"
  by (simp add: ends_def snd_try_raise)

lemma ends_cond: "ends a m1 \<Longrightarrow> ends a m2 \<Longrightarrow> ends a (cond b m1 m2)"
  by (simp add: ends_def cond_def)

lemma silent_cut: "\<not> cut_call a \<Longrightarrow> silent a (cut env cfg fuel return_last_pos off_heaters temp)"
  by (rule silentI [where f = "\<lambda>s. ()"], rule confined_weaken [OF confined_cut]) auto

lemma ends_If: "(b \<Longrightarrow> ends a m1) \<Longrightarrow> (\<not> b \<Longrightarrow> ends a m2) \<Longrightarrow> ends a (if b then m1 else m2)"
  by simp

lemma ends_skip: "ends a skip"
  by (simp add: ends_def skip_def return_def)

lemmas ends_intros = ends_If ends_skip ends_try_raise ends_cond ends_last ends_later
  ends_if_then ends_call

lemma verification_is_armed_last:
  "ends (Update_timer Verify_switch_sensor_timer (NOW + 5.0))
     (cmd_UNLOAD_FILAMENT env cfg fuel gcmd)"
proof (cases "get_TEMPERATURE gcmd")
  case (Inl m)
  then show ?thesis
    by (simp add: cmd_UNLOAD_FILAMENT_def ends_def raise_def)
next
  case (Inr temp)
  show ?thesis
    unfolding cmd_UNLOAD_FILAMENT_def Inr sum.case
    by (intro ends_intros ends_silent silentI [where f = "\<lambda>s. ()"]
        confined_intros confined_unload_steps confined_weaken [OF confined_cut])
      (auto simp add: SAVE_GCODE_STATE_def SAVE_DUAL_CARRIAGE_STATE_def NOW_def)
qed


lemmas silent_intros = silentI [where f = "\<lambda>s. ()"] confined_intros confined_unload_steps
  confined_restore_state confined_weaken [OF confined_cut]

lemma unload_delegates_once:
  assumes nt: "\<not> truthy (unload_started s)" and th: "toolhead cfg = True"
    and te: "get_TEMPERATURE gcmd = Inr temp" and c: "cutter_object cfg"
  shows "count_list (emitted s (snd (cmd_UNLOAD_FILAMENT env cfg fuel gcmd s)))
        (Register_callback (Cut False False temp)) \<le> 1
     \<and> (fst (cmd_UNLOAD_FILAMENT env cfg fuel gcmd s) = Return () \<longrightarrow>
        count_list (emitted s (snd (cmd_UNLOAD_FILAMENT env cfg fuel gcmd s)))
          (Register_callback (Cut False False temp)) = 1)"
  apply (simp only: cmd_UNLOAD_FILAMENT_def te sum.case th not_True_eq_False if_False
      try_except_cond cond_False [of "\<lambda>s. truthy (unload_started s)", OF nt])
  apply (rule once_emitted)
  apply (intro once_try_raise once_here [where m = "if_then (cutter_object cfg) m'" for m']
      once_here [where m = "call env (Register_callback cb)" for cb]
      once_later once_if_then once_call silent_intros)
  apply (auto simp add: c SAVE_GCODE_STATE_def SAVE_DUAL_CARRIAGE_STATE_def)
  done

lemma unload_arms_pulses_once:
  assumes nt: "\<not> truthy (unload_started s)" and th: "toolhead cfg = True"
    and te: "get_TEMPERATURE gcmd = Inr temp" and c: "\<not> cutter_object cfg \<and> timeout cfg \<noteq> None"
  shows "count_list (emitted s (snd (cmd_UNLOAD_FILAMENT env cfg fuel gcmd s)))
        (Update_timer Unextrude_timer NOW) \<le> 1
     \<and> (fst (cmd_UNLOAD_FILAMENT env cfg fuel gcmd s) = Return () \<longrightarrow>
        count_list (emitted s (snd (cmd_UNLOAD_FILAMENT env cfg fuel gcmd s)))
          (Update_timer Unextrude_timer NOW) = 1)"
  apply (simp only: cmd_UNLOAD_FILAMENT_def te sum.case th not_True_eq_False if_False
      try_except_cond cond_False [of "\<lambda>s. truthy (unload_started s)", OF nt])
  apply (rule once_emitted)
  apply (intro once_try_raise
      once_here [where m = "if_then (\<not> cutter_object cfg \<and> timeout cfg \<noteq> None) m'" for m']
      once_here [where m = "call env (Update_timer Unextrude_timer v)" for v]
      once_later once_if_then once_call silent_intros)
  apply (auto simp add: c SAVE_GCODE_STATE_def SAVE_DUAL_CARRIAGE_STATE_def)
  done


lemma once_save_gcode: "once SAVE_GCODE_STATE (save_state env cfg)"
  unfolding save_state_def
  by (intro once_later once_here [where m = "call env SAVE_GCODE_STATE"] once_call silent_intros)
    (simp_all add: SAVE_GCODE_STATE_def SAVE_DUAL_CARRIAGE_STATE_def)

lemma once_save_carriage: "idex cfg \<Longrightarrow> once SAVE_DUAL_CARRIAGE_STATE (save_state env cfg)"
  unfolding save_state_def
  by (intro once_here [where m = "if_then b m'" for b m'] once_if_then once_call silent_intros)
    (simp_all add: SAVE_GCODE_STATE_def SAVE_DUAL_CARRIAGE_STATE_def)

lemma once_restore_gcode: "once RESTORE_GCODE_STATE (restore_state env cfg)"
  unfolding restore_state_def
  by (intro once_here [where m = "call env RESTORE_GCODE_STATE"] once_call silent_intros)
    (simp_all add: RESTORE_GCODE_STATE_def RESTORE_DUAL_CARRIAGE_STATE_def)

lemma once_restore_carriage: "idex cfg \<Longrightarrow> once RESTORE_DUAL_CARRIAGE_STATE (restore_state env cfg)"
  unfolding restore_state_def
  by (intro once_later once_here [where m = "if_then b m'" for b m'] once_if_then once_call
      silent_intros)
    (simp_all add: RESTORE_GCODE_STATE_def RESTORE_DUAL_CARRIAGE_STATE_def)

lemma unload_pushes_once:
  assumes nt: "\<not> truthy (unload_started s)" and th: "toolhead cfg = True"
    and te: "get_TEMPERATURE gcmd = Inr temp"
  shows "count_list (emitted s (snd (cmd_UNLOAD_FILAMENT env cfg fuel gcmd s))) SAVE_GCODE_STATE \<le> 1
     \<and> (fst (cmd_UNLOAD_FILAMENT env cfg fuel gcmd s) = Return () \<longrightarrow>
        count_list (emitted s (snd (cmd_UNLOAD_FILAMENT env cfg fuel gcmd s))) SAVE_GCODE_STATE = 1)"
  apply (simp only: cmd_UNLOAD_FILAMENT_def te sum.case th not_True_eq_False if_False
      try_except_cond cond_False [of "\<lambda>s. truthy (unload_started s)", OF nt])
  apply (rule once_emitted)
  apply (intro once_try_raise once_here [where m = "save_state env cfg"] once_save_gcode
      once_later silent_intros)
  apply (auto simp add: SAVE_GCODE_STATE_def SAVE_DUAL_CARRIAGE_STATE_def)
  done

lemma unload_pushes_carriage_once:
  assumes nt: "\<not> truthy (unload_started s)" and th: "toolhead cfg = True"
    and te: "get_TEMPERATURE gcmd = Inr temp" and i: "idex cfg"
  shows "count_list (emitted s (snd (cmd_UNLOAD_FILAMENT env cfg fuel gcmd s)))
        SAVE_DUAL_CARRIAGE_STATE \<le> 1
     \<and> (fst (cmd_UNLOAD_FILAMENT env cfg fuel gcmd s) = Return () \<longrightarrow>
        count_list (emitted s (snd (cmd_UNLOAD_FILAMENT env cfg fuel gcmd s)))
          SAVE_DUAL_CARRIAGE_STATE = 1)"
  apply (simp only: cmd_UNLOAD_FILAMENT_def te sum.case th not_True_eq_False if_False
      try_except_cond cond_False [of "\<lambda>s. truthy (unload_started s)", OF nt])
  apply (rule once_emitted)
  apply (intro once_try_raise once_here [where m = "save_state env cfg"] once_save_carriage
      once_later silent_intros)
  apply (auto simp add: i SAVE_GCODE_STATE_def SAVE_DUAL_CARRIAGE_STATE_def)
  done

lemma unload_end_pops_once:
  assumes "truthy (unload_started s)"
  shows "count_list (emitted s (snd (unload_end env cfg s))) RESTORE_GCODE_STATE \<le> 1
     \<and> (fst (unload_end env cfg s) = Return True \<longrightarrow>
        count_list (emitted s (snd (unload_end env cfg s))) RESTORE_GCODE_STATE = 1)"
  unfolding unload_end_def
  apply (simp only: cond_False [of "\<lambda>s. \<not> truthy (unload_started s)", simplified, OF assms])
  apply (rule once_emitted)
  apply (intro once_bind_left once_here [where m = "restore_state env cfg"] once_restore_gcode
      once_later silent_modify silent_intros)
  apply (auto simp add: RESTORE_GCODE_STATE_def RESTORE_DUAL_CARRIAGE_STATE_def)
  done

lemma unload_end_pops_carriage_once:
  assumes "truthy (unload_started s)" and "idex cfg"
  shows "count_list (emitted s (snd (unload_end env cfg s))) RESTORE_DUAL_CARRIAGE_STATE \<le> 1
     \<and> (fst (unload_end env cfg s) = Return True \<longrightarrow>
        count_list (emitted s (snd (unload_end env cfg s))) RESTORE_DUAL_CARRIAGE_STATE = 1)"
  unfolding unload_end_def
  apply (simp only: cond_False [of "\<lambda>s. \<not> truthy (unload_started s)", simplified, OF assms(1)])
  apply (rule once_emitted)
  apply (intro once_bind_left once_here [where m = "restore_state env cfg"] once_restore_carriage
      once_later silent_modify silent_intros)
  apply (auto simp add: assms(2) RESTORE_GCODE_STATE_def RESTORE_DUAL_CARRIAGE_STATE_def)
  done

lemma cmd_refused:
  assumes "(\<exists>m. get_TEMPERATURE gcmd = Inl m) \<or> \<not> toolhead cfg \<or> truthy (unload_started s)"
  shows "set (emitted s (snd (cmd_UNLOAD_FILAMENT env cfg fuel gcmd s)))
      \<subseteq> {Respond_info ''Printer already unloading filament''}"
proof (cases "truthy (unload_started s)")
  case True
  then show ?thesis
    using unload_while_unloading_state [of s env cfg fuel gcmd] by (auto simp add: emitted_def)
next
  case False
  with assms show ?thesis
    by (auto simp add: cmd_UNLOAD_FILAMENT_def raise_def skip_def return_def emitted_def
        split: sum.splits)
qed

lemma cmd_never_pops:
  "count_list (emitted s (snd (cmd_UNLOAD_FILAMENT env cfg fuel gcmd s))) RESTORE_GCODE_STATE = 0
   \<and> count_list (emitted s (snd (cmd_UNLOAD_FILAMENT env cfg fuel gcmd s)))
       RESTORE_DUAL_CARRIAGE_STATE = 0"
proof (cases "get_TEMPERATURE gcmd")
  case (Inl m)
  then show ?thesis
    by (simp add: cmd_UNLOAD_FILAMENT_def raise_def emitted_def)
next
  case (Inr temp)
  have "\<not> unload_call cfg temp RESTORE_GCODE_STATE"
    and "\<not> unload_call cfg temp RESTORE_DUAL_CARRIAGE_STATE"
    by (simp_all add: SAVE_GCODE_STATE_def SAVE_DUAL_CARRIAGE_STATE_def RESTORE_GCODE_STATE_def
        RESTORE_DUAL_CARRIAGE_STATE_def)
  then show ?thesis
    using cmd_emitted [of gcmd cfg s env fuel] Inr
    by (auto simp add: list_all_iff count_list_0_iff)
qed

lemma cmd_pushes:
  "count_list (emitted s (snd (cmd_UNLOAD_FILAMENT env cfg fuel gcmd s))) SAVE_GCODE_STATE \<le> 1
   \<and> count_list (emitted s (snd (cmd_UNLOAD_FILAMENT env cfg fuel gcmd s)))
       SAVE_DUAL_CARRIAGE_STATE \<le> 1"
proof (cases "(\<exists>m. get_TEMPERATURE gcmd = Inl m) \<or> \<not> toolhead cfg \<or> truthy (unload_started s)")
  case True
  have "SAVE_GCODE_STATE \<notin> set (emitted s (snd (cmd_UNLOAD_FILAMENT env cfg fuel gcmd s)))"
    and "SAVE_DUAL_CARRIAGE_STATE \<notin> set (emitted s (snd (cmd_UNLOAD_FILAMENT env cfg fuel gcmd s)))"
    using cmd_refused [OF True, of env fuel]
    by (auto simp add: SAVE_GCODE_STATE_def SAVE_DUAL_CARRIAGE_STATE_def)
  then show ?thesis
    by (simp add: count_list_0_iff)
next
  case False
  then obtain temp where te: "get_TEMPERATURE gcmd = Inr temp"
    by (cases "get_TEMPERATURE gcmd") auto
  from False have th: "toolhead cfg = True" and nt: "\<not> truthy (unload_started s)"
    by auto
  show ?thesis
  proof (cases "idex cfg")
    case True
    then show ?thesis
      using unload_pushes_once [OF nt th te] unload_pushes_carriage_once [OF nt th te True]
      by simp
  next
    case False
    have "\<not> unload_call cfg temp SAVE_DUAL_CARRIAGE_STATE"
      using False by (simp add: SAVE_GCODE_STATE_def SAVE_DUAL_CARRIAGE_STATE_def)
    then have "count_list (emitted s (snd (cmd_UNLOAD_FILAMENT env cfg fuel gcmd s)))
        SAVE_DUAL_CARRIAGE_STATE = 0"
      using cmd_emitted [of gcmd cfg s env fuel] te
      by (auto simp add: list_all_iff count_list_0_iff)
    then show ?thesis
      using unload_pushes_once [OF nt th te] by simp
  qed
qed

lemma cmd_pushes_when_it_returns:
  assumes nt: "\<not> truthy (unload_started s)" and th: "toolhead cfg"
    and r: "fst (cmd_UNLOAD_FILAMENT env cfg fuel gcmd s) = Return ()"
  shows "count_list (emitted s (snd (cmd_UNLOAD_FILAMENT env cfg fuel gcmd s))) SAVE_GCODE_STATE = 1
   \<and> count_list (emitted s (snd (cmd_UNLOAD_FILAMENT env cfg fuel gcmd s)))
       SAVE_DUAL_CARRIAGE_STATE = (if idex cfg then 1 else 0)"
proof -
  obtain temp where te: "get_TEMPERATURE gcmd = Inr temp"
    using r by (cases "get_TEMPERATURE gcmd") (auto simp add: cmd_UNLOAD_FILAMENT_def raise_def)
  from th have th': "toolhead cfg = True"
    by simp
  show ?thesis
  proof (cases "idex cfg")
    case True
    then show ?thesis
      using unload_pushes_once [OF nt th' te] unload_pushes_carriage_once [OF nt th' te True] r
      by simp
  next
    case False
    have "\<not> unload_call cfg temp SAVE_DUAL_CARRIAGE_STATE"
      using False by (simp add: SAVE_GCODE_STATE_def SAVE_DUAL_CARRIAGE_STATE_def)
    then have "count_list (emitted s (snd (cmd_UNLOAD_FILAMENT env cfg fuel gcmd s)))
        SAVE_DUAL_CARRIAGE_STATE = 0"
      using cmd_emitted [of gcmd cfg s env fuel] te
      by (auto simp add: list_all_iff count_list_0_iff)
    then show ?thesis
      using unload_pushes_once [OF nt th' te] r False by simp
  qed
qed

lemma unload_end_emitted: "list_all (unload_end_call cfg) (emitted s (snd (unload_end env cfg s)))"
  by (rule confined_emitted [where f = "\<lambda>s. ()"], rule confined_unload_end) simp_all

lemma unload_end_never_pushes:
  "count_list (emitted s (snd (unload_end env cfg s))) SAVE_GCODE_STATE = 0
   \<and> count_list (emitted s (snd (unload_end env cfg s))) SAVE_DUAL_CARRIAGE_STATE = 0"
proof -
  have "\<not> unload_end_call cfg SAVE_GCODE_STATE"
    and "\<not> unload_end_call cfg SAVE_DUAL_CARRIAGE_STATE"
    by (simp_all add: SAVE_GCODE_STATE_def SAVE_DUAL_CARRIAGE_STATE_def RESTORE_GCODE_STATE_def
        RESTORE_DUAL_CARRIAGE_STATE_def)
  then show ?thesis
    using unload_end_emitted [of cfg s env] by (auto simp add: list_all_iff count_list_0_iff)
qed

lemma unload_end_pops:
  "count_list (emitted s (snd (unload_end env cfg s))) RESTORE_GCODE_STATE \<le> 1
   \<and> count_list (emitted s (snd (unload_end env cfg s))) RESTORE_DUAL_CARRIAGE_STATE \<le> 1
   \<and> (fst (unload_end env cfg s) = Return True \<longrightarrow>
        count_list (emitted s (snd (unload_end env cfg s))) RESTORE_GCODE_STATE = 1
        \<and> count_list (emitted s (snd (unload_end env cfg s))) RESTORE_DUAL_CARRIAGE_STATE =
            (if idex cfg then 1 else 0))"
proof (cases "truthy (unload_started s)")
  case False
  then show ?thesis
    by (simp add: unload_end_noop emitted_def)
next
  case True
  show ?thesis
  proof (cases "idex cfg")
    case i: True
    then show ?thesis
      using unload_end_pops_once [OF True, of env cfg]
        unload_end_pops_carriage_once [OF True i, of env] by simp
  next
    case False
    have "\<not> unload_end_call cfg RESTORE_DUAL_CARRIAGE_STATE"
      using False by (simp add: RESTORE_GCODE_STATE_def RESTORE_DUAL_CARRIAGE_STATE_def)
    then have "count_list (emitted s (snd (unload_end env cfg s))) RESTORE_DUAL_CARRIAGE_STATE = 0"
      using unload_end_emitted [of cfg s env] by (auto simp add: list_all_iff count_list_0_iff)
    then show ?thesis
      using unload_end_pops_once [OF True, of env cfg] False by simp
  qed
qed

lemma cmd_delegates_to_configured_cutter:
  "Register_callback (Cut r h t) \<in> set (emitted s (snd (cmd_UNLOAD_FILAMENT env cfg fuel gcmd s)))
    \<Longrightarrow> cutter_object cfg \<and> \<not> r \<and> \<not> h \<and> get_TEMPERATURE gcmd = Inr t"
proof (cases "get_TEMPERATURE gcmd")
  case (Inl m)
  then show "Register_callback (Cut r h t) \<in> set (emitted s (snd (cmd_UNLOAD_FILAMENT env cfg fuel gcmd s)))
    \<Longrightarrow> cutter_object cfg \<and> \<not> r \<and> \<not> h \<and> get_TEMPERATURE gcmd = Inr t"
    by (simp add: cmd_UNLOAD_FILAMENT_def raise_def emitted_def)
next
  case (Inr temp)
  then show "Register_callback (Cut r h t) \<in> set (emitted s (snd (cmd_UNLOAD_FILAMENT env cfg fuel gcmd s)))
    \<Longrightarrow> cutter_object cfg \<and> \<not> r \<and> \<not> h \<and> get_TEMPERATURE gcmd = Inr t"
    using cmd_emitted [of gcmd cfg s env fuel] by (auto simp add: list_all_iff)
qed

lemma cmd_arms_pulses_without_cutter:
  "Update_timer Unextrude_timer v \<in> set (emitted s (snd (cmd_UNLOAD_FILAMENT env cfg fuel gcmd s)))
    \<Longrightarrow> \<not> cutter_object cfg \<and> timeout cfg \<noteq> None \<and> v = NOW"
proof (cases "get_TEMPERATURE gcmd")
  case (Inl m)
  then show "Update_timer Unextrude_timer v \<in> set (emitted s (snd (cmd_UNLOAD_FILAMENT env cfg fuel gcmd s)))
    \<Longrightarrow> \<not> cutter_object cfg \<and> timeout cfg \<noteq> None \<and> v = NOW"
    by (simp add: cmd_UNLOAD_FILAMENT_def raise_def emitted_def)
next
  case (Inr temp)
  then show "Update_timer Unextrude_timer v \<in> set (emitted s (snd (cmd_UNLOAD_FILAMENT env cfg fuel gcmd s)))
    \<Longrightarrow> \<not> cutter_object cfg \<and> timeout cfg \<noteq> None \<and> v = NOW"
    using cmd_emitted [of gcmd cfg s env fuel] by (auto simp add: list_all_iff)
qed

lemma cmd_verification_last:
  "Update_timer Verify_switch_sensor_timer (NOW + 5)
      \<in> set (emitted s (snd (cmd_UNLOAD_FILAMENT env cfg fuel gcmd s)))
    \<Longrightarrow> last (emitted s (snd (cmd_UNLOAD_FILAMENT env cfg fuel gcmd s))) =
        Update_timer Verify_switch_sensor_timer (NOW + 5)"
  using ends_emitted [OF verification_is_armed_last, of s env cfg fuel gcmd] by simp

text \<open>With a cutter, the unload runs the whole cut before it arms the verification.\<close>

lemma if_then_True: "if_then True m = m"
  by (simp add: if_then_def)

lemma if_then_False: "if_then False m = skip"
  by (simp add: if_then_def)

lemma call_Return:
  "fst (call env a x) = Return u \<Longrightarrow> call env a x = (Return (), x\<lparr>trace := trace x @ [a]\<rparr>)"
  by (simp add: call_def split: option.splits)

lemma verification_armed:
  assumes "fst (if_then b (seq [call env a1, call env a2]) x) = Return u"
  shows "if_then b (seq [call env a1, call env a2]) x =
      (Return (), x\<lparr>trace := trace x @ (if b then [a1, a2] else [])\<rparr>)"
  using assms by (cases b) (auto simp add: stmt_defs split: option.splits)

lemma unload_runs_the_cut:
  assumes c: "cutter_object cfg" and nt: "\<not> truthy (unload_started s)" and th: "toolhead cfg"
    and te: "get_TEMPERATURE gcmd = Inr temp"
    and r: "fst (cmd_UNLOAD_FILAMENT env cfg fuel gcmd s) = Return ()"
  shows "\<exists>s1 pre. trace s1 = trace s @ pre @ [Register_callback (Cut False False temp)]
      \<and> Register_callback (Cut False False temp) \<notin> set pre
      \<and> is_cutting s1 = is_cutting s
      \<and> fst (cut env cfg fuel False False temp s1) = Return ()
      \<and> snd (cmd_UNLOAD_FILAMENT env cfg fuel gcmd s) =
          (snd (cut env cfg fuel False False temp s1))
            \<lparr>trace := trace (snd (cut env cfg fuel False False temp s1))
               @ (if filament_switch_sensor_object cfg
                  then [Respond_info
                     ''[UNLOAD FILAMENT] Starting filament switch sensor unload verification in 10 seconds'',
                    Update_timer Verify_switch_sensor_timer (NOW + 5)]
                  else [])\<rparr>"
proof -
  let ?P = "[unload_home_needed env cfg,
      save_state env cfg,
      disable_sensors env cfg,
      if_then (idex cfg)
        (case get_TOOLHEAD gcmd of
           Inl m \<Rightarrow> raise (Exception m)
         | Inr t \<Rightarrow>
             if t = ''Load_T0''
             then call env (Run_script_from_command ''T0 UNLOAD'')
             else call env (Run_script_from_command ''T1 UNLOAD'')),
      modify (\<lambda>s. s\<lparr>unload_started := Some True\<rparr>),
      send_event env cfg ''unload_filament:start'',
      call env (Respond_info ''[UNLOAD FILAMENT] Start''),
      call env (Run_script_from_command ''G91\<newline>M400''),
      call env (Run_script_from_command ''M83\<newline>M400''),
      if_then (timeout cfg \<noteq> None) (modify (\<lambda>s. s\<lparr>unextrude_count := 0\<rparr>)),
      unload_heat_and_wait env cfg temp False,
      if_then (bucket_object cfg) (call env Bucket_move_to_bucket),
      unload_heat_and_wait env cfg temp True,
      wait_moves env cfg]"
  let ?a = "Register_callback (Cut False False temp)"
  let ?C = "cut env cfg fuel False False temp"
  let ?V = "if_then (filament_switch_sensor_object cfg)
      (seq [call env (Respond_info
              ''[UNLOAD FILAMENT] Starting filament switch sensor unload verification in 10 seconds''),
            call env (Update_timer Verify_switch_sensor_timer (NOW + 5))])"
  let ?m = "bind (seq ?P) (\<lambda>_. bind (call env ?a) (\<lambda>_. bind ?C (\<lambda>_. ?V)))"
  have eq: "cmd_UNLOAD_FILAMENT env cfg fuel gcmd s = try_except ?m (\<lambda>e. raise missing_errors) s"
    using c nt th te
    by (simp add: cmd_UNLOAD_FILAMENT_def try_except_cond cond_def seq.simps bind_bind bind_skip
        bind_skip_right if_then_True if_then_False)
  have 1: "cmd_UNLOAD_FILAMENT env cfg fuel gcmd s = ?m s"
    using r unfolding eq by (rule try_raise_Return)
  have r1: "fst (?m s) = Return ()"
    using r unfolding 1 .
  then obtain u0 where p: "fst (seq ?P s) = Return u0"
    unfolding fst_bind_Return [of "seq ?P"] by blast
  let ?s0 = "snd (seq ?P s)"
  let ?k1 = "bind (call env ?a) (\<lambda>_. bind ?C (\<lambda>_. ?V))"
  have 2: "?m s = ?k1 ?s0"
    using p by (rule bind_Return)
  have r2: "fst (?k1 ?s0) = Return ()"
    using r1 unfolding 2 .
  then obtain u1 where q: "fst (call env ?a ?s0) = Return u1"
    unfolding fst_bind_Return [of "call env ?a"] by blast
  let ?s1 = "snd (call env ?a ?s0)"
  have s1: "?s1 = ?s0\<lparr>trace := trace ?s0 @ [?a]\<rparr>"
    using call_Return [OF q] by simp
  have 3: "?k1 ?s0 = bind ?C (\<lambda>_. ?V) ?s1"
    using q by (rule bind_Return)
  have r3: "fst (bind ?C (\<lambda>_. ?V) ?s1) = Return ()"
    using r2 unfolding 3 .
  then obtain u2 where cr: "fst (?C ?s1) = Return u2"
    unfolding fst_bind_Return [of ?C] by blast
  let ?s2 = "snd (?C ?s1)"
  have 4: "bind ?C (\<lambda>_. ?V) ?s1 = ?V ?s2"
    using cr by (rule bind_Return)
  have r4: "fst (?V ?s2) = Return ()"
    using r3 unfolding 4 .
  have 5: "cmd_UNLOAD_FILAMENT env cfg fuel gcmd s = ?V ?s2"
    unfolding 1 2 3 4 ..
  have "confined is_cutting (\<lambda>b. b \<noteq> ?a) (seq ?P)"
    by (intro confined_intros confined_unload_steps)
      (simp_all add: SAVE_GCODE_STATE_def SAVE_DUAL_CARRIAGE_STATE_def)
  then obtain pre where pre: "is_cutting ?s0 = is_cutting s" "trace ?s0 = trace s @ pre"
      "list_all (\<lambda>b. b \<noteq> ?a) pre"
    using confinedD by blast
  have "trace ?s1 = trace s @ pre @ [?a]" and "?a \<notin> set pre" and "is_cutting ?s1 = is_cutting s"
    using pre unfolding s1 by (auto simp add: list_all_iff)
  moreover have "fst (?C ?s1) = Return ()"
    using cr by simp
  moreover have "snd (cmd_UNLOAD_FILAMENT env cfg fuel gcmd s) =
      ?s2\<lparr>trace := trace ?s2 @ (if filament_switch_sensor_object cfg
          then [Respond_info
              ''[UNLOAD FILAMENT] Starting filament switch sensor unload verification in 10 seconds'',
            Update_timer Verify_switch_sensor_timer (NOW + 5)]
          else [])\<rparr>"
    unfolding 5 verification_armed [OF r4] by simp
  ultimately show ?thesis
    by blast
qed

text \<open>Once the unload has announced its start, its guard is set and stays set.\<close>

lemma marks_emitted:
  "marks a f x m \<Longrightarrow> a \<in> set (emitted s (snd (m s))) \<Longrightarrow> f (snd (m s)) = x"
  by (auto simp add: marks_def emitted_def dest!: spec [where x = s])

lemma marks_silent: "silent a m \<Longrightarrow> marks a f x m"
  unfolding marks_def
proof
  fix s
  assume "silent a m"
  then obtain tr where "trace (snd (m s)) = trace s @ tr" "count_list tr a = 0"
    using silentD by blast
  then show "\<exists>tr. trace (snd (m s)) = trace s @ tr \<and> (a \<in> set tr \<longrightarrow> f (snd (m s)) = x)"
    by (auto simp add: count_list_0_iff)
qed

lemma marks_bind:
  assumes "silent a m" and "\<And>v. marks a f x (k v)"
  shows "marks a f x (bind m k)"
  unfolding marks_def
proof
  fix s
  obtain tr where 1: "trace (snd (m s)) = trace s @ tr" "count_list tr a = 0"
    using silentD [OF assms(1)] by blast
  show "\<exists>tr. trace (snd (bind m k s)) = trace s @ tr \<and> (a \<in> set tr \<longrightarrow> f (snd (bind m k s)) = x)"
  proof (cases "fst (m s)")
    case (Return u)
    obtain tr' where 2: "trace (snd (k u (snd (m s)))) = trace (snd (m s)) @ tr'"
      "a \<in> set tr' \<longrightarrow> f (snd (k u (snd (m s)))) = x"
      using assms(2) [of u] unfolding marks_def by blast
    show ?thesis
      using 1 2 Return
      by (intro exI [of _ "tr @ tr'"]) (auto simp add: snd_bind_Return count_list_0_iff)
  next
    case (Raise e)
    then show ?thesis
      using 1 by (cases "m s") (auto simp add: bind_def count_list_0_iff)
  next
    case Diverge
    then show ?thesis
      using 1 by (cases "m s") (auto simp add: bind_def count_list_0_iff)
  qed
qed

lemma marks_later: "silent a m \<Longrightarrow> marks a f x (seq ms) \<Longrightarrow> marks a f x (seq (m # ms))"
  by (simp add: seq.simps marks_bind)

lemma marks_here:
  assumes "confined f (\<lambda>a. True) (seq ms)" and "\<And>s. f (g s) = x" and "\<And>s. trace (g s) = trace s"
  shows "marks a f x (seq (modify g # ms))"
  unfolding marks_def
proof
  fix s
  obtain tr where "f (snd (seq ms (g s))) = f (g s)" "trace (snd (seq ms (g s))) = trace (g s) @ tr"
    using confinedD [OF assms(1), of "g s"] by blast
  then show "\<exists>tr. trace (snd (seq (modify g # ms) s)) = trace s @ tr
      \<and> (a \<in> set tr \<longrightarrow> f (snd (seq (modify g # ms) s)) = x)"
    by (simp add: snd_seq_modify assms(2,3))
qed

lemma marks_try_raise: "marks a f x m \<Longrightarrow> marks a f x (try_except m (\<lambda>e. raise (h e)))"
  by (simp add: marks_def snd_try_raise)

lemma marks_cond: "marks a f x m1 \<Longrightarrow> marks a f x m2 \<Longrightarrow> marks a f x (cond b m1 m2)"
  by (simp add: marks_def cond_def)

lemma marks_If: "(b \<Longrightarrow> marks a f x m1) \<Longrightarrow> (\<not> b \<Longrightarrow> marks a f x m2) \<Longrightarrow> marks a f x (if b then m1 else m2)"
  by simp

lemma unload_guard_once_started:
  "marks (Send_event ''unload_filament:start'') unload_started (Some True)
     (cmd_UNLOAD_FILAMENT env cfg fuel gcmd)"
proof (cases "get_TEMPERATURE gcmd")
  case (Inl m)
  then show ?thesis
    by (simp add: cmd_UNLOAD_FILAMENT_def marks_def raise_def)
next
  case (Inr temp)
  show ?thesis
    unfolding cmd_UNLOAD_FILAMENT_def Inr sum.case
    by (intro marks_If marks_try_raise marks_cond marks_here marks_later marks_silent
        silentI [where f = "\<lambda>s. ()"] confined_intros confined_unload_steps
        confined_weaken [OF confined_cut])
      (auto simp add: SAVE_GCODE_STATE_def SAVE_DUAL_CARRIAGE_STATE_def)
qed

lemma unload_guard_stays_set:
  "Send_event ''unload_filament:start''
      \<in> set (emitted s (snd (cmd_UNLOAD_FILAMENT env cfg fuel gcmd s)))
    \<Longrightarrow> unload_started (snd (cmd_UNLOAD_FILAMENT env cfg fuel gcmd s)) = Some True"
  by (rule marks_emitted [OF unload_guard_once_started])

section \<open>The retraction pulses of an unload\<close>

text \<open>
  One run of \<open>unextrude\<close> and of \<open>verify_switch_sensor_state\<close>, and the runs of
  \<open>unextrude\<close> under the timer from the moment the unload has armed it.
\<close>

lemma unextrude_tick:
  assumes "truthy (unload_started s)" and "timeout cfg = Some N" and "unextrude_count s \<le> N"
    and "fst (unload_unextrude env cfg t s) = Return r"
  shows "r = t + 10 / unload_speed cfg
    \<and> unload_started (snd (unload_unextrude env cfg t s)) = unload_started s
    \<and> unextrude_count (snd (unload_unextrude env cfg t s)) = unextrude_count s + 1
    \<and> Register_callback Unload_end \<notin> set (emitted s (snd (unload_unextrude env cfg t s)))"
  using assms
  by (auto simp add: unload_unextrude_def pulse_def unload_move_extruder_mm_def stmt_defs
      emitted_def split: option.splits prod.splits if_splits)

lemma unextrude_ends_the_unload:
  assumes t: "truthy (unload_started s)" and n: "timeout cfg = Some n" "n < unextrude_count s"
    and r: "fst (unload_unextrude env cfg eventtime s) = Return r"
  shows "\<exists>tr. trace (snd (unload_unextrude env cfg eventtime s)) =
      trace s @ Update_timer Verify_switch_sensor_timer NEVER # Register_callback Unload_end # tr
      \<and> list_all (unload_end_call cfg) tr"
proof -
  let ?pre = "seq [call env (Update_timer Verify_switch_sensor_timer NEVER),
      call env (Register_callback Unload_end)]"
  let ?m = "bind ?pre (\<lambda>_. bind (unload_end env cfg) (\<lambda>_. return NEVER))"
  let ?h = "\<lambda>e. UnloadFilamentError (''[UNLOAD FILAMENT] Error while unloading: '' @ str_of e)"
  have eq: "unload_unextrude env cfg eventtime s = try_except ?m (\<lambda>e. raise (?h e)) s"
    using t n by (simp add: unload_unextrude_def try_except_cond cond_def)
  have 1: "unload_unextrude env cfg eventtime s = ?m s"
    using r unfolding eq by (rule try_raise_Return)
  obtain u where u: "fst (?pre s) = Return u"
    using r unfolding 1 by (auto simp add: fst_bind_Return)
  let ?s1 = "snd (?pre s)"
  have s1: "trace ?s1 = trace s @ [Update_timer Verify_switch_sensor_timer NEVER,
      Register_callback Unload_end]"
    using u by (auto simp add: stmt_defs split: option.splits)
  have 2: "unload_unextrude env cfg eventtime s = bind (unload_end env cfg) (\<lambda>_. return NEVER) ?s1"
    unfolding 1 using u by (rule bind_Return)
  have "confined (\<lambda>s. ()) (unload_end_call cfg) (unload_end env cfg)"
    by (rule confined_unload_end) simp_all
  then obtain tr where "trace (snd (unload_end env cfg ?s1)) = trace ?s1 @ tr"
    and "list_all (unload_end_call cfg) tr"
    using confinedD by blast
  then show ?thesis
    unfolding 2 by (simp add: snd_bind_return s1)
qed

lemma verify_switch_tick:
  assumes "truthy (unload_started s)"
    and "fst (verify_switch_sensor_state env cfg t s) = Return r"
  shows "(switch_filament_detected env (trace s) \<longrightarrow>
        r = t + 1.250 \<and> snd (verify_switch_sensor_state env cfg t s) = s)
    \<and> (\<not> switch_filament_detected env (trace s) \<longrightarrow>
        r = NEVER \<and> emitted s (snd (verify_switch_sensor_state env cfg t s)) =
          [Update_timer Unextrude_timer NEVER, Register_callback Unload_end])"
  using assms
  by (auto simp add: verify_switch_sensor_state_def stmt_defs emitted_def
      split: option.splits if_splits)


lemma unextrude_pulses:
  assumes calm: "\<And>tr a. fails env tr a = None" "\<And>name. lookup_error env name = None"
    and "toolhead cfg" and "timeout cfg = Some N" and "unextrude_count s \<le> N"
    and "truthy (unload_started s)" and "unload_speed cfg \<noteq> 0"
  shows "\<exists>xs. unload_unextrude env cfg t s =
      (Return (t + 10 / unload_speed cfg),
       s\<lparr>unextrude_count := unextrude_count s + 1,
         trace := trace s @ [Set_absolute_coord False, Manual_move xs (unload_speed cfg * 60)]\<rparr>)"
proof (cases "get_position env (trace s)")
  case (fields p0 p1 p2 p3)
  with assms show ?thesis
    by (intro exI [of _ "[p0, p1, p2,
            - 10 * extrude_factor env (trace s @ [Set_absolute_coord False]) + p3]"])
      (simp add: unload_unextrude_def pulse_def unload_move_extruder_mm_def stmt_defs)
qed

lemma unload_end_returns:
  assumes calm: "\<And>tr a. fails env tr a = None" "\<And>name. lookup_error env name = None"
    and "toolhead cfg" and "truthy (unload_started s)"
  shows "fst (unload_end env cfg s) = Return True"
  using assms
  by (simp add: unload_end_def send_event_def wait_moves_def restore_state_def
      unload_heat_and_wait_def stmt_defs)

lemma try_except_Return: "fst (m s) = Return v \<Longrightarrow> try_except m h s = m s"
  by (cases "m s") (simp add: try_except_def)

lemma unextrude_returns_never:
  assumes calm: "\<And>tr a. fails env tr a = None" "\<And>name. lookup_error env name = None"
    and th: "toolhead cfg" and n: "timeout cfg = Some N" "N < unextrude_count s"
    and t: "truthy (unload_started s)"
  shows "fst (unload_unextrude env cfg t0 s) = Return NEVER"
proof -
  let ?pre = "seq [call env (Update_timer Verify_switch_sensor_timer NEVER),
      call env (Register_callback Unload_end)]"
  have pre: "?pre s = (Return (), s\<lparr>trace := trace s @ [Update_timer Verify_switch_sensor_timer NEVER,
      Register_callback Unload_end]\<rparr>)"
    by (simp add: stmt_defs calm)
  have "fst (unload_end env cfg (snd (?pre s))) = Return True"
    by (rule unload_end_returns [OF calm th]) (simp add: pre t)
  then have "fst (bind ?pre (\<lambda>_. bind (unload_end env cfg) (\<lambda>_. return NEVER)) s) = Return NEVER"
    by (auto simp add: fst_bind_Return pre return_def)
  then have "fst (try_except (bind ?pre (\<lambda>_. bind (unload_end env cfg) (\<lambda>_. return NEVER)))
      (\<lambda>e. raise (UnloadFilamentError
         (''[UNLOAD FILAMENT] Error while unloading: '' @ str_of e))) s) = Return NEVER"
    by (simp add: try_except_Return)
  then show ?thesis
    using t n by (simp add: unload_unextrude_def try_except_cond cond_def)
qed

lemma run_timer_stopped: "NEVER \<le> t \<Longrightarrow> run_timer cb n t = return t"
  by (cases n) simp_all

lemma run_timer_add: "run_timer cb (k + j) t = bind (run_timer cb k t) (run_timer cb j)"
proof (induction k arbitrary: t)
  case 0
  show ?case
    by (simp add: bind_return)
next
  case (Suc k)
  have "run_timer cb (k + j) = (\<lambda>v. bind (run_timer cb k v) (run_timer cb j))"
    by (rule ext) (rule Suc.IH)
  then show ?case
    by (simp add: bind_bind bind_return run_timer_stopped)
qed

lemma pulses_run:
  assumes calm: "\<And>tr a. fails env tr a = None" "\<And>name. lookup_error env name = None"
    and th: "toolhead cfg" and n: "timeout cfg = Some N" and sp: "0 < unload_speed cfg"
  shows "truthy (unload_started s) \<Longrightarrow> unextrude_count s + k \<le> N + 1
    \<Longrightarrow> t + real k * (10 / unload_speed cfg) < NEVER
    \<Longrightarrow> fst (run_timer (unload_unextrude env cfg) k t s) = Return (t + real k * (10 / unload_speed cfg))
      \<and> unextrude_count (snd (run_timer (unload_unextrude env cfg) k t s)) = unextrude_count s + k
      \<and> unload_started (snd (run_timer (unload_unextrude env cfg) k t s)) = unload_started s
      \<and> (\<exists>tr. trace (snd (run_timer (unload_unextrude env cfg) k t s)) = trace s @ tr
            \<and> length (filter is_pulse tr) = k \<and> Register_callback Unload_end \<notin> set tr)"
proof (induction k arbitrary: t s)
  case 0
  then show ?case
    by (simp add: return_def)
next
  case (Suc k)
  let ?d = "10 / unload_speed cfg"
  have d: "0 < ?d"
    using sp by simp
  have nn: "0 \<le> real k * ?d"
    using d by simp
  have e: "real (Suc k) * ?d = ?d + real k * ?d"
    by (simp only: of_nat_Suc distrib_right mult_1)
  have lt: "t < NEVER" and lt': "t + ?d + real k * ?d < NEVER"
    using Suc.prems(3) d nn unfolding e by linarith+
  have c: "unextrude_count s \<le> N"
    using Suc.prems(2) by simp
  obtain xs where 1: "unload_unextrude env cfg t s =
      (Return (t + ?d),
       s\<lparr>unextrude_count := unextrude_count s + 1,
         trace := trace s @ [Set_absolute_coord False, Manual_move xs (unload_speed cfg * 60)]\<rparr>)"
    using unextrude_pulses [OF calm th n c Suc.prems(1), of t] sp by auto
  let ?s1 = "s\<lparr>unextrude_count := unextrude_count s + 1,
         trace := trace s @ [Set_absolute_coord False, Manual_move xs (unload_speed cfg * 60)]\<rparr>"
  have 2: "run_timer (unload_unextrude env cfg) (Suc k) t s =
      run_timer (unload_unextrude env cfg) k (t + ?d) ?s1"
    using lt by (simp add: bind_def 1)
  have "truthy (unload_started ?s1)" and "unextrude_count ?s1 + k \<le> N + 1"
    using Suc.prems by simp_all
  from Suc.IH [OF this lt'] obtain tr
    where r: "fst (run_timer (unload_unextrude env cfg) k (t + ?d) ?s1) =
        Return (t + ?d + real k * ?d)"
      and c': "unextrude_count (snd (run_timer (unload_unextrude env cfg) k (t + ?d) ?s1)) =
        unextrude_count ?s1 + k"
      and g: "unload_started (snd (run_timer (unload_unextrude env cfg) k (t + ?d) ?s1)) =
        unload_started ?s1"
      and tr: "trace (snd (run_timer (unload_unextrude env cfg) k (t + ?d) ?s1)) = trace ?s1 @ tr"
        "length (filter is_pulse tr) = k" "Register_callback Unload_end \<notin> set tr"
    by blast
  have "trace (snd (run_timer (unload_unextrude env cfg) k (t + ?d) ?s1)) =
      trace s @ ([Set_absolute_coord False, Manual_move xs (unload_speed cfg * 60)] @ tr)
    \<and> length (filter is_pulse ([Set_absolute_coord False, Manual_move xs (unload_speed cfg * 60)] @ tr)) =
      Suc k
    \<and> Register_callback Unload_end
      \<notin> set ([Set_absolute_coord False, Manual_move xs (unload_speed cfg * 60)] @ tr)"
    using tr by simp
  then have "\<exists>tr. trace (snd (run_timer (unload_unextrude env cfg) k (t + ?d) ?s1)) = trace s @ tr
      \<and> length (filter is_pulse tr) = Suc k \<and> Register_callback Unload_end \<notin> set tr"
    by (rule exI)
  then show ?case
    unfolding 2 e using r c' g by (simp add: add.assoc)
qed

lemma unload_end_call_no_pulse: "unload_end_call cfg a \<Longrightarrow> \<not> is_pulse a"
  by (cases a) simp_all

lemma run_timer_one: "t < NEVER \<Longrightarrow> run_timer cb 1 t = bind (cb t) return"
proof -
  assume "t < NEVER"
  moreover have "run_timer cb 0 = return"
    by (rule ext) simp
  ultimately show ?thesis
    by simp
qed

lemma budget_run:
  assumes calm: "\<And>tr a. fails env tr a = None" "\<And>name. lookup_error env name = None"
    and th: "toolhead cfg" and n: "timeout cfg = Some (int N)" and sp: "0 < unload_speed cfg"
    and g: "truthy (unload_started s)" and c: "unextrude_count s = 0"
    and lt: "t + real (N + 1) * (10 / unload_speed cfg) < NEVER"
  shows "fst (run_timer (unload_unextrude env cfg) (N + 2) t s) = Return NEVER
    \<and> length (filter is_pulse (emitted s (snd (run_timer (unload_unextrude env cfg) (N + 2) t s)))) =
        N + 1
    \<and> unload_started (snd (run_timer (unload_unextrude env cfg) (N + 2) t s)) = Some False
    \<and> Register_callback Unload_end
        \<in> set (emitted s (snd (run_timer (unload_unextrude env cfg) (N + 2) t s)))"
proof -
  let ?cb = "unload_unextrude env cfg"
  let ?t = "t + real (N + 1) * (10 / unload_speed cfg)"
  let ?s = "snd (run_timer ?cb (N + 1) t s)"
  have "unextrude_count s + int (N + 1) \<le> int N + 1"
    using c by simp
  from pulses_run [OF calm th n sp g this lt] obtain tr
    where r: "fst (run_timer ?cb (N + 1) t s) = Return ?t"
      and c': "unextrude_count ?s = int N + 1" and g': "truthy (unload_started ?s)"
      and tr: "trace ?s = trace s @ tr" "length (filter is_pulse tr) = N + 1"
    using c g by auto
  have "run_timer ?cb (N + 2) t s = run_timer ?cb (N + 1 + 1) t s"
    by simp
  also have "\<dots> = bind (run_timer ?cb (N + 1) t) (run_timer ?cb 1) s"
    by (simp only: run_timer_add)
  also have "\<dots> = run_timer ?cb 1 ?t ?s"
    using r by (rule bind_Return)
  also have "\<dots> = bind (?cb ?t) return ?s"
    by (simp only: run_timer_one [OF lt])
  finally have 1: "run_timer ?cb (N + 2) t s = bind (?cb ?t) return ?s" .
  have lt': "int N < unextrude_count ?s"
    using c' by simp
  have f: "fst (?cb ?t ?s) = Return NEVER"
    by (rule unextrude_returns_never [OF calm th n lt' g'])
  have 2: "run_timer ?cb (N + 2) t s = (Return NEVER, snd (?cb ?t ?s))"
    unfolding 1 using f by (cases "?cb ?t ?s") (simp add: bind_def return_def)
  obtain tr2 where tr2: "trace (snd (?cb ?t ?s)) =
      trace ?s @ Update_timer Verify_switch_sensor_timer NEVER # Register_callback Unload_end # tr2"
      "list_all (unload_end_call cfg) tr2"
    using unextrude_ends_the_unload [OF g' n lt' f] by blast
  have "filter is_pulse tr2 = []"
    using tr2(2) by (auto simp add: list_all_iff filter_empty_conv dest: unload_end_call_no_pulse)
  moreover have e: "emitted s (snd (?cb ?t ?s)) =
      tr @ Update_timer Verify_switch_sensor_timer NEVER # Register_callback Unload_end # tr2"
    using tr tr2 by (simp add: emitted_def)
  ultimately have "length (filter is_pulse (emitted s (snd (?cb ?t ?s)))) = N + 1"
    and "Register_callback Unload_end \<in> set (emitted s (snd (?cb ?t ?s)))"
    using tr(2) by simp_all
  then show ?thesis
    unfolding 2 using unextrude_budget_exceeded [OF g' n lt' f] by simp
qed

lemma unextrude_over_budget:
  assumes t: "truthy (unload_started s)" and n: "timeout cfg = Some n" "n < unextrude_count s"
    and r: "fst (unload_unextrude env cfg eventtime s) = Return r"
  shows "r = NEVER \<and> unload_started (snd (unload_unextrude env cfg eventtime s)) = Some False
    \<and> Register_callback Unload_end \<in> set (emitted s (snd (unload_unextrude env cfg eventtime s)))
    \<and> filter is_pulse (emitted s (snd (unload_unextrude env cfg eventtime s))) = []"
proof -
  obtain tr where tr: "trace (snd (unload_unextrude env cfg eventtime s)) =
      trace s @ Update_timer Verify_switch_sensor_timer NEVER # Register_callback Unload_end # tr"
      "list_all (unload_end_call cfg) tr"
    using unextrude_ends_the_unload [OF assms] by blast
  have "filter is_pulse tr = []"
    using tr(2) by (auto simp add: list_all_iff filter_empty_conv dest: unload_end_call_no_pulse)
  then show ?thesis
    using unextrude_budget_exceeded [OF assms] tr(1) by (simp add: emitted_def)
qed

lemma pulses_before_budget:
  assumes calm: "\<And>tr a. fails env tr a = None" "\<And>name. lookup_error env name = None"
    and th: "toolhead cfg" and n: "timeout cfg = Some (int N)" and sp: "0 < unload_speed cfg"
    and g: "truthy (unload_started s)" and c: "unextrude_count s = 0"
    and lt: "t + real (N + 1) * (10 / unload_speed cfg) < NEVER" and k: "k \<le> N + 1"
  shows "fst (run_timer (unload_unextrude env cfg) k t s) =
      Return (t + real k * (10 / unload_speed cfg))
    \<and> length (filter is_pulse (emitted s (snd (run_timer (unload_unextrude env cfg) k t s)))) = k
    \<and> unload_started (snd (run_timer (unload_unextrude env cfg) k t s)) = unload_started s
    \<and> Register_callback Unload_end
        \<notin> set (emitted s (snd (run_timer (unload_unextrude env cfg) k t s)))"
proof -
  have 1: "unextrude_count s + int k \<le> int N + 1"
    using c k by simp
  have "real k \<le> real (N + 1)"
    using k by simp
  then have "real k * (10 / unload_speed cfg) \<le> real (N + 1) * (10 / unload_speed cfg)"
    using sp by (intro mult_right_mono) simp_all
  then have 2: "t + real k * (10 / unload_speed cfg) < NEVER"
    using lt by linarith
  from pulses_run [OF calm th n sp g 1 2] show ?thesis
    by (auto simp add: emitted_def)
qed

section \<open>The sensor_enabled flag\<close>

text \<open>
  C10.  Whatever value \<open>SET_FILAMENT_SENSOR\<close> has stored in \<open>sensor_enabled\<close>, the sensor
  callback does the same: it returns the same outcome and leaves the same state and the same
  log, up to the stored flag itself.  The flag is what \<open>cmd_SET_FILAMENT_SENSOR\<close> writes
  and what \<open>get_status\<close> reports as \<open>enabled\<close>, next to an unchanged \<open>filament_detect\<close>.
\<close>

theorem sensor_enabled_is_only_reported:
  "cutter_sensor_callback env cfg t st (s\<lparr>sensor_enabled := v\<rparr>) =
     (fst (cutter_sensor_callback env cfg t st s),
      (snd (cutter_sensor_callback env cfg t st s))\<lparr>sensor_enabled := v\<rparr>)
   \<and> cmd_SET_FILAMENT_SENSOR (g\<lparr>get_ENABLE := Inr v\<rparr>) s = (Return (), s\<lparr>sensor_enabled := v\<rparr>)
   \<and> get_status (s\<lparr>sensor_enabled := v\<rparr>) t = (fst (get_status s t), v \<noteq> 0)"
  using ignores_cutter_sensor_callback [of env cfg t st]
  by (simp add: ignores_sensor_enabled_def cmd_SET_FILAMENT_SENSOR_def modify_def get_status_def)

section \<open>Completion is idempotent\<close>

text \<open>
  C9.  \<open>unload_end\<close> called with the guard clear returns \<open>False\<close> and does nothing: no call
  is logged, no attribute changes.  Whatever the first of two calls in a row did, the second
  is such a call; when the first returned \<open>True\<close>, the two together have sent
  "unload_filament:end" exactly once.
\<close>

theorem unload_end_is_idempotent:
  "(\<not> truthy (unload_started s) \<longrightarrow> unload_end env cfg s = (Return False, s))
   \<and> (let s1 = snd (unload_end env cfg s)
      in unload_end env' cfg' s1 = (Return False, s1)
         \<and> (fst (unload_end env cfg s) = Return True \<longrightarrow>
              count_list (emitted s s1 @ emitted s1 (snd (unload_end env' cfg' s1)))
                (Send_event ''unload_filament:end'') = 1))"
proof -
  let ?s1 = "snd (unload_end env cfg s)"
  have 2: "unload_end env' cfg' ?s1 = (Return False, ?s1)"
    by (rule unload_end_noop) (rule unload_end_clears)
  have 3: "count_list (emitted s ?s1 @ emitted ?s1 (snd (unload_end env' cfg' ?s1)))
      (Send_event ''unload_filament:end'') = 1"
    if r: "fst (unload_end env cfg s) = Return True"
  proof -
    have "truthy (unload_started s)"
      using r by (auto simp add: unload_end_def cond_def return_def split: if_splits)
    then show ?thesis
      using once_unload_end_event [of s env cfg] r by (simp add: 2 emitted_def)
  qed
  show ?thesis
    using 2 3 by (simp add: unload_end_noop Let_def)
qed

theorem unload_end_is_idempotent_witness:
  "unload_end quiet_env bench idle_printer = (Return False, idle_printer)
   \<and> fst (unload_end quiet_env bench (idle_printer\<lparr>unload_started := Some True\<rparr>)) = Return True
   \<and> (let s1 = snd (unload_end quiet_env bench (idle_printer\<lparr>unload_started := Some True\<rparr>))
      in count_list
           (emitted (idle_printer\<lparr>unload_started := Some True\<rparr>) s1
              @ emitted s1 (snd (unload_end quiet_env bench s1)))
           (Send_event ''unload_filament:end'') = 1)"
proof -
  let ?s = "idle_printer\<lparr>unload_started := Some True\<rparr>"
  have 1: "\<not> truthy (unload_started idle_printer)"
    by (simp add: idle_printer_def truthy_def)
  have 2: "fst (unload_end quiet_env bench ?s) = Return True"
    by (simp add: unload_end_def send_event_def wait_moves_def restore_state_def
        unload_heat_and_wait_def stmt_defs quiet_env_def bench_def idle_printer_def truthy_def)
  have "unload_end quiet_env bench idle_printer = (Return False, idle_printer)"
    using 1 unload_end_is_idempotent [of idle_printer quiet_env bench quiet_env bench] by blast
  moreover have "let s1 = snd (unload_end quiet_env bench ?s)
      in count_list (emitted ?s s1 @ emitted s1 (snd (unload_end quiet_env bench s1)))
           (Send_event ''unload_filament:end'') = 1"
    using 2 unload_end_is_idempotent [of ?s quiet_env bench quiet_env bench]
    unfolding Let_def by blast
  ultimately show ?thesis
    using 2 by blast
qed

section \<open>Re-entrant invocations\<close>

text \<open>
  C2.  \<open>cut\<close> invoked while \<open>is_cutting\<close> is set answers "[CUTTER] Already cutting filament"
  and returns; \<open>cmd_UNLOAD_FILAMENT\<close> invoked while \<open>unload_started\<close> is set answers
  "Printer already unloading filament" and returns (the command has a toolhead and a
  \<open>TEMPERATURE\<close> that \<open>gcmd.get\<close> accepts; the answer is that of a console that takes it).
  In every case the one answer is the only call that can have been made and no attribute has
  changed, so the guard is still set.
\<close>

theorem reentrant_invocation_is_refused:
  "(is_cutting s \<longrightarrow>
      (fails env (trace s) (Respond_info ''[CUTTER] Already cutting filament'') = None \<longrightarrow>
         cut env cfg fuel return_last_pos off_heaters temp s =
           (Return (), s\<lparr>trace := trace s @ [Respond_info ''[CUTTER] Already cutting filament'']\<rparr>))
      \<and> (snd (cut env cfg fuel return_last_pos off_heaters temp s) = s
         \<or> snd (cut env cfg fuel return_last_pos off_heaters temp s) =
             s\<lparr>trace := trace s @ [Respond_info ''[CUTTER] Already cutting filament'']\<rparr>))
   \<and> (truthy (unload_started u) \<longrightarrow>
      (toolhead cfg \<and> get_TEMPERATURE gcmd = Inr t
         \<and> fails env (trace u) (Respond_info ''Printer already unloading filament'') = None \<longrightarrow>
         cmd_UNLOAD_FILAMENT env cfg fuel gcmd u =
           (Return (), u\<lparr>trace := trace u @ [Respond_info ''Printer already unloading filament'']\<rparr>))
      \<and> (snd (cmd_UNLOAD_FILAMENT env cfg fuel gcmd u) = u
         \<or> snd (cmd_UNLOAD_FILAMENT env cfg fuel gcmd u) =
             u\<lparr>trace := trace u @ [Respond_info ''Printer already unloading filament'']\<rparr>))"
proof (intro conjI impI)
  assume "is_cutting s"
  then show "snd (cut env cfg fuel return_last_pos off_heaters temp s) = s
      \<or> snd (cut env cfg fuel return_last_pos off_heaters temp s) =
          s\<lparr>trace := trace s @ [Respond_info ''[CUTTER] Already cutting filament'']\<rparr>"
    by (simp add: cut_while_cutting call_def split: option.splits)
next
  assume "is_cutting s"
    and "fails env (trace s) (Respond_info ''[CUTTER] Already cutting filament'') = None"
  then show "cut env cfg fuel return_last_pos off_heaters temp s =
      (Return (), s\<lparr>trace := trace s @ [Respond_info ''[CUTTER] Already cutting filament'']\<rparr>)"
    by (simp add: cut_while_cutting call_def)
next
  assume "truthy (unload_started u)"
  then show "snd (cmd_UNLOAD_FILAMENT env cfg fuel gcmd u) = u
      \<or> snd (cmd_UNLOAD_FILAMENT env cfg fuel gcmd u) =
          u\<lparr>trace := trace u @ [Respond_info ''Printer already unloading filament'']\<rparr>"
    by (rule unload_while_unloading_state)
next
  assume "truthy (unload_started u)"
    and "toolhead cfg \<and> get_TEMPERATURE gcmd = Inr t
      \<and> fails env (trace u) (Respond_info ''Printer already unloading filament'') = None"
  then show "cmd_UNLOAD_FILAMENT env cfg fuel gcmd u =
      (Return (), u\<lparr>trace := trace u @ [Respond_info ''Printer already unloading filament'']\<rparr>)"
    by (simp add: unload_while_unloading try_except_def call_def)
qed

theorem reentrant_invocation_is_refused_witness:
  "cut quiet_env bench 1 True True 220 (idle_printer\<lparr>is_cutting := True\<rparr>) =
     (Return (), idle_printer\<lparr>is_cutting := True,
        trace := [Respond_info ''[CUTTER] Already cutting filament'']\<rparr>)
   \<and> cmd_UNLOAD_FILAMENT quiet_env bench 1 plain_unload (idle_printer\<lparr>unload_started := Some True\<rparr>) =
     (Return (), idle_printer\<lparr>unload_started := Some True,
        trace := [Respond_info ''Printer already unloading filament'']\<rparr>)"
proof -
  let ?s = "idle_printer\<lparr>is_cutting := True\<rparr>"
  let ?u = "idle_printer\<lparr>unload_started := Some True\<rparr>"
  have "is_cutting ?s"
    and "fails quiet_env (trace ?s) (Respond_info ''[CUTTER] Already cutting filament'') = None"
    and "truthy (unload_started ?u)"
    and "toolhead bench \<and> get_TEMPERATURE plain_unload = Inr 250
      \<and> fails quiet_env (trace ?u) (Respond_info ''Printer already unloading filament'') = None"
    and "trace ?s = []" and "trace ?u = []"
    by (simp_all add: idle_printer_def quiet_env_def bench_def plain_unload_def truthy_def)
  then show ?thesis
    using reentrant_invocation_is_refused
      [of ?s quiet_env bench 1 True True 220 ?u plain_unload 250]
    by simp
qed

section \<open>Transitions inside the Quiet Period\<close>

lemma deliver_quiet:
  "\<forall>ev \<in> set evs. quiet s ev \<Longrightarrow>
     deliver cfg evs s =
       (Return (), s\<lparr>filament_present := (if evs = [] then filament_present s else snd (snd (last evs)))\<rparr>)"
proof (induction evs arbitrary: s)
  case Nil
  then show ?case by (simp add: skip_def return_def)
next
  case (Cons ev evs)
  obtain env eventtime state where ev: "ev = (env, eventtime, state)"
    by (cases ev)
  let ?s' = "s\<lparr>filament_present := state\<rparr>"
  have 1: "cutter_sensor_callback env cfg eventtime state s = (Return (), ?s')"
    using Cons.prems by (simp add: ev quiet_def callback_quiet)
  have "\<forall>ev \<in> set evs. quiet ?s' ev"
    using Cons.prems by (simp add: quiet_def)
  then have "deliver cfg evs ?s' =
      (Return (), ?s'\<lparr>filament_present := (if evs = [] then filament_present ?s' else snd (snd (last evs)))\<rparr>)"
    by (rule Cons.IH)
  then show ?case
    using 1 by (simp add: ev bind_def)
qed

text \<open>
  C4, as the code has it.  A transition to the state already stored does nothing.  A
  transition that arrives before \<open>min_event_systime\<close> logs no call (no event, no timer, no
  scheduled reaction) and returns, but it is not a complete no-op: \<open>filament_present\<close> has
  been set to the new state before the deadline is tested.  So after any sequence of
  transitions that all arrive inside the Quiet Period, the state is the one before them with
  \<open>filament_present\<close> set by the last, and the log is unchanged.
\<close>

theorem quiet_transitions_only_store_presence:
  "(state = filament_present s \<longrightarrow>
      cutter_sensor_callback env cfg eventtime state s = (Return (), s))
   \<and> (monotonic env (trace s) < min_event_systime s \<longrightarrow>
      cutter_sensor_callback env cfg eventtime state s =
        (Return (), s\<lparr>filament_present := state\<rparr>))
   \<and> ((\<forall>ev \<in> set evs. quiet s ev) \<longrightarrow>
      deliver cfg evs s =
        (Return (),
         s\<lparr>filament_present := (if evs = [] then filament_present s else snd (snd (last evs)))\<rparr>))"
  by (simp add: callback_same_state callback_quiet deliver_quiet)

theorem quiet_transitions_only_store_presence_witness:
  "cutter_sensor_callback quiet_env bench 100 False idle_printer = (Return (), idle_printer)
   \<and> cutter_sensor_callback quiet_env bench 100 True (idle_printer\<lparr>min_event_systime := 200\<rparr>) =
       (Return (), idle_printer\<lparr>min_event_systime := 200, filament_present := True\<rparr>)
   \<and> deliver bench [(quiet_env, 100, True), (quiet_env, 100, False), (quiet_env, 100, True)]
        (idle_printer\<lparr>min_event_systime := 200\<rparr>) =
       (Return (), idle_printer\<lparr>min_event_systime := 200, filament_present := True\<rparr>)"
proof -
  let ?q = "idle_printer\<lparr>min_event_systime := 200\<rparr>"
  let ?evs = "[(quiet_env, 100 :: real, True), (quiet_env, 100, False), (quiet_env, 100, True)]"
  have "False = filament_present idle_printer"
    and "monotonic quiet_env (trace ?q) < min_event_systime ?q"
    and "\<forall>ev \<in> set ?evs. quiet ?q ev"
    by (simp_all add: idle_printer_def quiet_env_def quiet_def)
  then show ?thesis
    using quiet_transitions_only_store_presence [of False idle_printer quiet_env bench 100 "[]"]
      quiet_transitions_only_store_presence [of True ?q quiet_env bench 100 ?evs]
    by simp
qed

text \<open>
  The claim as stated fails: a transition inside the Quiet Period changes stored state.
\<close>

theorem quiet_transition_is_a_noop_counterexample:
  "monotonic quiet_env (trace (idle_printer\<lparr>min_event_systime := 200\<rparr>))
     < min_event_systime (idle_printer\<lparr>min_event_systime := 200\<rparr>)
   \<and> snd (cutter_sensor_callback quiet_env bench 100 True (idle_printer\<lparr>min_event_systime := 200\<rparr>))
     \<noteq> idle_printer\<lparr>min_event_systime := 200\<rparr>"
  by (simp add: cutter_sensor_callback_def stmt_defs idle_printer_def quiet_env_def)

section \<open>Reactions and the Quiet Period\<close>

text \<open>
  C5, as the code has it.  The branches of \<open>cutter_sensor_callback\<close> that schedule the
  insertion or the runout reaction set \<open>min_event_systime\<close> to \<open>NEVER\<close> before the callback
  returns, and the scheduled handler ends in \<open>_exec_gcode\<close>, which sets it to the clock plus
  \<open>event_delay\<close> whether or not the macro ran: the insertion handler always, the runout
  handler whenever it returns (always without \<open>pause_on_runout\<close>).  With a positive
  \<open>event_delay\<close> that deadline is in the future.  The branch taken while a load or an
  unload is running emits its notification, and stops an active cut, without touching
  \<open>min_event_systime\<close>.
\<close>

theorem reactions_and_the_quiet_period:
  "(let s' = snd (cutter_sensor_callback env cfg eventtime state s)
    in ((\<exists>a \<in> set (emitted s s'). schedules a) \<longrightarrow> min_event_systime s' = NEVER)
       \<and> ((load_filament_object cfg \<and> load_started env (trace s))
            \<or> (unload_filament_object cfg \<and> truthy (unload_started s))
          \<longrightarrow> min_event_systime s' = min_event_systime s))
   \<and> (let r = insert_event_handler env cfg eventtime s
      in fst r = Return ()
         \<and> min_event_systime (snd r) = monotonic env (trace (snd r)) + event_delay cfg
         \<and> (0 < event_delay cfg \<longrightarrow> monotonic env (trace (snd r)) < min_event_systime (snd r)))
   \<and> (let r = runout_event_handler env cfg eventtime s
      in (\<not> runout_pause cfg \<longrightarrow> fst r = Return ())
         \<and> (fst r = Return () \<longrightarrow>
              min_event_systime (snd r) = monotonic env (trace (snd r)) + event_delay cfg
              \<and> (0 < event_delay cfg \<longrightarrow> monotonic env (trace (snd r)) < min_event_systime (snd r))))"
proof -
  let ?s' = "snd (cutter_sensor_callback env cfg eventtime state s)"
  obtain tr where tr: "trace ?s' = trace s @ tr"
    and "list_all (\<lambda>a. \<not> schedules a) tr \<and> min_event_systime ?s' = min_event_systime s
      \<or> min_event_systime ?s' = NEVER"
    using armsD [OF arms_cutter_sensor_callback] by blast
  then have 1: "(\<exists>a \<in> set (emitted s ?s'). schedules a) \<longrightarrow> min_event_systime ?s' = NEVER"
    by (auto simp add: emitted_def list_all_iff)
  have 2: "fst (runout_event_handler env cfg eventtime s) = Return ()" if "\<not> runout_pause cfg"
    using that by (simp add: runout_event_handler_def exec_gcode_deadline)
  show ?thesis
    using 1 2 callback_during_load_or_unload [of cfg env s eventtime state]
      exec_gcode_deadline [of env cfg "[]" "insert_gcode cfg" s]
      runout_event_handler_deadline [of env cfg eventtime s]
    by (simp add: Let_def insert_event_handler_def)
qed

theorem reactions_and_the_quiet_period_witness:
  "min_event_systime
     (snd (cutter_sensor_callback quiet_env (bench\<lparr>insert_gcode := Some ''M117 inserted''\<rparr>)
        100 True idle_printer)) = NEVER
   \<and> min_event_systime
       (snd (cutter_sensor_callback (quiet_env\<lparr>load_started := \<lambda>tr. True\<rparr>) bench
          100 True idle_printer)) = min_event_systime idle_printer
   \<and> monotonic quiet_env (trace (snd (insert_event_handler quiet_env bench 100 idle_printer)))
       < min_event_systime (snd (insert_event_handler quiet_env bench 100 idle_printer))
   \<and> monotonic quiet_env (trace (snd (runout_event_handler quiet_env bench 100 idle_printer)))
       < min_event_systime (snd (runout_event_handler quiet_env bench 100 idle_printer))"
proof -
  let ?cfg = "bench\<lparr>insert_gcode := Some ''M117 inserted''\<rparr>"
  let ?env = "quiet_env\<lparr>load_started := \<lambda>tr. True\<rparr>"
  have "\<exists>a \<in> set (emitted idle_printer
      (snd (cutter_sensor_callback quiet_env ?cfg 100 True idle_printer))). schedules a"
    by (simp add: cutter_sensor_callback_def idle_or_printing_branch_def send_event_def
        stmt_defs quiet_env_def bench_def idle_printer_def truthy_def emitted_def schedules_def)
  moreover have "(load_filament_object bench \<and> load_started ?env (trace idle_printer))
      \<or> (unload_filament_object bench \<and> truthy (unload_started idle_printer))"
    and "0 < event_delay bench" and "\<not> runout_pause bench"
    by (simp_all add: quiet_env_def bench_def)
  ultimately show ?thesis
    using reactions_and_the_quiet_period [of quiet_env ?cfg 100 True idle_printer]
      reactions_and_the_quiet_period [of ?env bench 100 True idle_printer]
      reactions_and_the_quiet_period [of quiet_env bench 100 True idle_printer]
    by (simp add: Let_def)
qed

text \<open>
  The claim as stated fails in the branch taken during a load: the presence notification is
  sent and the deadline stays where it was, in the past.
\<close>

theorem reaction_without_quiet_period_counterexample:
  "Send_event ''cutter_sensor:filament_present''
     \<in> set (trace (snd (cutter_sensor_callback (quiet_env\<lparr>load_started := \<lambda>tr. True\<rparr>) bench
          100 True idle_printer)))
   \<and> \<not> monotonic (quiet_env\<lparr>load_started := \<lambda>tr. True\<rparr>)
         (trace (snd (cutter_sensor_callback (quiet_env\<lparr>load_started := \<lambda>tr. True\<rparr>) bench
            100 True idle_printer)))
       < min_event_systime
           (snd (cutter_sensor_callback (quiet_env\<lparr>load_started := \<lambda>tr. True\<rparr>) bench
              100 True idle_printer))"
  by (simp add: cutter_sensor_callback_def load_unload_branch_def send_event_def
      stmt_defs quiet_env_def bench_def idle_printer_def truthy_def)

section \<open>The guards on the terminal paths\<close>

text \<open>
  C1, as the code has it.  \<open>cut\<close> has no statement that clears \<open>is_cutting\<close>: after every
  run of it the guard is set, whether it has armed its background timer, returned early
  because the printer is not homed, or raised.  It is \<open>cutter_sensor_callback\<close> that
  clears the guard, when it accepts a transition to absent while a load or an unload runs
  or, out of a print, with a runout reaction configured.  \<open>unload_end\<close> clears
  \<open>unload_started\<close> before any other step: after any run of it the guard is false, also
  after the run that \<open>unextrude\<close> forces once the pulse counter exceeds the budget.  An
  unload that ends before the guard is set (no toolhead, homing that does not return)
  leaves the guard as it was; an unload that has announced its start ends
  \<open>cmd_UNLOAD_FILAMENT\<close> with the guard set, on its return and on every exception.
\<close>

theorem guards_on_the_terminal_paths:
  "is_cutting (snd (cut env cfg fuel return_last_pos off_heaters temp s))
   \<and> (filament_present s \<and> \<not> monotonic env (trace s) < min_event_systime s
       \<and> fst (cutter_sensor_callback env cfg eventtime False s) = Return ()
       \<and> ((load_filament_object cfg \<and> load_started env (trace s))
          \<or> (unload_filament_object cfg \<and> truthy (unload_started s))
          \<or> (idle_timeout_state env (trace s) \<noteq> ''Printing''
              \<and> print_stats_state env (trace s) \<noteq> Some ''Printing'' \<and> runout_gcode cfg \<noteq> None))
     \<longrightarrow> \<not> is_cutting (snd (cutter_sensor_callback env cfg eventtime False s)))
   \<and> \<not> truthy (unload_started (snd (unload_end env cfg s)))
   \<and> (truthy (unload_started s) \<and> timeout cfg = Some n \<and> n < unextrude_count s
       \<and> fst (unload_unextrude env cfg eventtime s) = Return r
     \<longrightarrow> r = NEVER \<and> unload_started (snd (unload_unextrude env cfg eventtime s)) = Some False)
   \<and> (\<not> toolhead cfg \<or> fst (unload_home_needed env cfg s) \<noteq> Return ()
     \<longrightarrow> unload_started (snd (cmd_UNLOAD_FILAMENT env cfg fuel gcmd s)) = unload_started s)
   \<and> (Send_event ''unload_filament:start''
        \<in> set (emitted s (snd (cmd_UNLOAD_FILAMENT env cfg fuel gcmd s)))
     \<longrightarrow> unload_started (snd (cmd_UNLOAD_FILAMENT env cfg fuel gcmd s)) = Some True)"
  using cut_sets_guard [of env cfg fuel return_last_pos off_heaters temp s]
    callback_releases_cut [of s env cfg eventtime]
    unload_end_clears [of env cfg s]
    unextrude_budget_exceeded [of s cfg n env eventtime r]
    unload_stops_before_the_guard [of cfg env s fuel gcmd]
    unload_guard_stays_set [of s env cfg fuel gcmd]
  by blast

theorem guards_on_the_terminal_paths_witness:
  "is_cutting (snd (cut unhomed bench 1 False False 220 idle_printer))
   \<and> \<not> is_cutting
        (snd (cutter_sensor_callback (quiet_env\<lparr>load_started := \<lambda>tr. True\<rparr>) bench 100 False
           (idle_printer\<lparr>filament_present := True, is_cutting := True\<rparr>)))
   \<and> unload_started
        (snd (unload_unextrude quiet_env (bench\<lparr>timeout := Some 5\<rparr>) 100
           (idle_printer\<lparr>unload_started := Some True, unextrude_count := 6\<rparr>))) = Some False
   \<and> unload_started
        (snd (cmd_UNLOAD_FILAMENT
           (quiet_env\<lparr>homed_axes := \<lambda>tr. [],
              fails := \<lambda>tr a. if a = Run_script_from_command ''G28''
                then Some ''homing failed'' else None\<rparr>)
           bench 1 plain_unload idle_printer)) = unload_started idle_printer
   \<and> unload_started (snd (cmd_UNLOAD_FILAMENT heater_fault bench 1 plain_unload idle_printer)) =
       Some True"
proof -
  let ?load = "quiet_env\<lparr>load_started := \<lambda>tr. True\<rparr>"
  let ?cutting = "idle_printer\<lparr>filament_present := True, is_cutting := True\<rparr>"
  let ?budget = "bench\<lparr>timeout := Some 5\<rparr>"
  let ?pulsed = "idle_printer\<lparr>unload_started := Some True, unextrude_count := 6\<rparr>"
  let ?unhomed = "quiet_env\<lparr>homed_axes := \<lambda>tr. [],
      fails := \<lambda>tr a. if a = Run_script_from_command ''G28'' then Some ''homing failed'' else None\<rparr>"
  have p2: "filament_present ?cutting
      \<and> \<not> monotonic ?load (trace ?cutting) < min_event_systime ?cutting
      \<and> fst (cutter_sensor_callback ?load bench 100 False ?cutting) = Return ()
      \<and> ((load_filament_object bench \<and> load_started ?load (trace ?cutting))
          \<or> (unload_filament_object bench \<and> truthy (unload_started ?cutting))
          \<or> (idle_timeout_state ?load (trace ?cutting) \<noteq> ''Printing''
              \<and> print_stats_state ?load (trace ?cutting) \<noteq> Some ''Printing''
              \<and> runout_gcode bench \<noteq> None))"
    by (simp add: cutter_sensor_callback_def load_unload_branch_def send_event_def
        handle_cutter_fnp_def stmt_defs quiet_env_def bench_def idle_printer_def truthy_def)
  have p3: "truthy (unload_started ?pulsed) \<and> timeout ?budget = Some 5
      \<and> 5 < unextrude_count ?pulsed
      \<and> fst (unload_unextrude quiet_env ?budget 100 ?pulsed) = Return NEVER"
    by (simp add: unload_unextrude_def unload_end_def send_event_def wait_moves_def
        restore_state_def unload_heat_and_wait_def stmt_defs quiet_env_def bench_def
        idle_printer_def truthy_def)
  have p4: "\<not> toolhead bench \<or> fst (unload_home_needed ?unhomed bench idle_printer) \<noteq> Return ()"
    by (simp add: unload_home_needed_def lower_def stmt_defs quiet_env_def bench_def
        idle_printer_def)
  have p5: "Send_event ''unload_filament:start''
      \<in> set (emitted idle_printer
          (snd (cmd_UNLOAD_FILAMENT heater_fault bench 1 plain_unload idle_printer)))"
    by (simp add: cmd_UNLOAD_FILAMENT_def unload_home_needed_def save_state_def
        disable_sensors_def send_event_def unload_heat_and_wait_def wait_moves_def
        SAVE_GCODE_STATE_def lower_def lower_char_def stmt_defs emitted_def
        heater_fault_def quiet_env_def bench_def plain_unload_def idle_printer_def truthy_def)
  note t = guards_on_the_terminal_paths [where fuel = 1 and return_last_pos = False
      and off_heaters = False and temp = 220 and eventtime = 100 and n = 5 and r = NEVER
      and gcmd = plain_unload]
  have a: "is_cutting (snd (cut unhomed bench 1 False False 220 idle_printer))"
    by (rule t [where s = idle_printer and env = unhomed and cfg = bench, THEN conjunct1])
  have b: "\<not> is_cutting (snd (cutter_sensor_callback ?load bench 100 False ?cutting))"
    by (rule t [where s = ?cutting and env = ?load and cfg = bench, THEN conjunct2,
          THEN conjunct1, rule_format, OF p2])
  have c: "unload_started (snd (unload_unextrude quiet_env ?budget 100 ?pulsed)) = Some False"
    by (rule t [where s = ?pulsed and env = quiet_env and cfg = ?budget, THEN conjunct2,
          THEN conjunct2, THEN conjunct2, THEN conjunct1, rule_format, OF p3, THEN conjunct2])
  have d: "unload_started (snd (cmd_UNLOAD_FILAMENT ?unhomed bench 1 plain_unload idle_printer)) =
      unload_started idle_printer"
    by (rule t [where s = idle_printer and env = ?unhomed and cfg = bench, THEN conjunct2,
          THEN conjunct2, THEN conjunct2, THEN conjunct2, THEN conjunct1, rule_format, OF p4])
  have e: "unload_started (snd (cmd_UNLOAD_FILAMENT heater_fault bench 1 plain_unload idle_printer)) =
      Some True"
    by (rule t [where s = idle_printer and env = heater_fault and cfg = bench, THEN conjunct2,
          THEN conjunct2, THEN conjunct2, THEN conjunct2, THEN conjunct2, rule_format, OF p5])
  show ?thesis
    using a b c d e by (intro conjI)
qed

text \<open>
  The claim as stated fails on the paths on which the operation ends without its guard
  being cleared.  A \<open>cut\<close> on a printer that is not homed after the homing script returns
  early, with no timer armed, and leaves \<open>is_cutting\<close> set; a \<open>cut\<close> whose heater refuses
  the target raises and leaves it set; an unload whose heater refuses the target raises and
  leaves \<open>unload_started\<close> set.
\<close>

theorem guard_left_set_on_early_return_and_failure_counterexample:
  "fst (cut unhomed bench 1 False False 220 idle_printer) = Return ()
   \<and> trace (snd (cut unhomed bench 1 False False 220 idle_printer)) =
       [Respond_info ''Homing.'',
        Run_script_from_command ''G28\<newline>M400'',
        Wait_moves,
        Respond_info ''[CUTTER] Printer needs to be homed for filament cutting.'']
   \<and> is_cutting (snd (cut unhomed bench 1 False False 220 idle_printer))
   \<and> fst (cut heater_down bench 1 False False 220 idle_printer) =
       Raise (CutterSensorError ''Error heating extruder: heater fault'')
   \<and> is_cutting (snd (cut heater_down bench 1 False False 220 idle_printer))
   \<and> fst (cmd_UNLOAD_FILAMENT heater_fault bench 1 plain_unload idle_printer) =
       Raise missing_errors
   \<and> unload_started (snd (cmd_UNLOAD_FILAMENT heater_fault bench 1 plain_unload idle_printer)) =
       Some True"
  by (simp add: cut_def home_needed_def heat_and_wait_def move_extruder_mm_def
      move_to_cutter_pos_def cut_move_def move_to_bucket_def move_back_def
      cmd_UNLOAD_FILAMENT_def unload_home_needed_def save_state_def
      disable_sensors_def send_event_def unload_heat_and_wait_def wait_moves_def
      SAVE_GCODE_STATE_def lower_def lower_char_def stmt_defs
      unhomed_def heater_down_def heater_fault_def quiet_env_def bench_def plain_unload_def
      idle_printer_def truthy_def)

section \<open>The extraction strategies of an unload\<close>

text \<open>
  C6, as the code has it.  \<open>cmd_UNLOAD_FILAMENT\<close> starts at most one extraction.  It
  registers \<open>cut\<close> only with a cutter configured, and then with \<open>return_last_pos\<close> and
  \<open>off_heaters\<close> false and the requested temperature; it arms the retraction timer
  \<open>unextrude\<close> only without a cutter and with a pulse budget (\<open>timeout\<close>), for \<open>NOW\<close>.
  When it proceeds and returns it has done so exactly once: the cut with a cutter, the
  timer without a cutter and with a budget.  Arming the verification of the switch sensor is
  the last call it makes.  With a cutter, an unload that returns has run the whole of
  \<open>cut\<close> from the state in which it registered it, and \<open>cut\<close> has returned: the
  state the unload ends in is the state \<open>cut\<close> ended in, with the calls that arm the
  verification added to the log.  With neither a cutter nor a budget the unload proceeds
  without starting an extraction.
\<close>

theorem unload_starts_at_most_one_strategy:
  "(\<forall>r h t. Register_callback (Cut r h t)
        \<in> set (emitted s (snd (cmd_UNLOAD_FILAMENT env cfg fuel gcmd s)))
      \<longrightarrow> cutter_object cfg \<and> \<not> r \<and> \<not> h \<and> get_TEMPERATURE gcmd = Inr t)
   \<and> (\<forall>v. Update_timer Unextrude_timer v
        \<in> set (emitted s (snd (cmd_UNLOAD_FILAMENT env cfg fuel gcmd s)))
      \<longrightarrow> \<not> cutter_object cfg \<and> timeout cfg \<noteq> None \<and> v = NOW)
   \<and> (\<not> truthy (unload_started s) \<and> toolhead cfg \<and> get_TEMPERATURE gcmd = Inr temp
       \<and> fst (cmd_UNLOAD_FILAMENT env cfg fuel gcmd s) = Return ()
     \<longrightarrow> (cutter_object cfg
          \<longrightarrow> count_list (emitted s (snd (cmd_UNLOAD_FILAMENT env cfg fuel gcmd s)))
                (Register_callback (Cut False False temp)) = 1)
       \<and> (\<not> cutter_object cfg \<and> timeout cfg \<noteq> None
          \<longrightarrow> count_list (emitted s (snd (cmd_UNLOAD_FILAMENT env cfg fuel gcmd s)))
                (Update_timer Unextrude_timer NOW) = 1))
   \<and> (Update_timer Verify_switch_sensor_timer (NOW + 5)
        \<in> set (emitted s (snd (cmd_UNLOAD_FILAMENT env cfg fuel gcmd s)))
      \<longrightarrow> last (emitted s (snd (cmd_UNLOAD_FILAMENT env cfg fuel gcmd s))) =
          Update_timer Verify_switch_sensor_timer (NOW + 5))
   \<and> (cutter_object cfg \<and> \<not> truthy (unload_started s) \<and> toolhead cfg
       \<and> get_TEMPERATURE gcmd = Inr temp
       \<and> fst (cmd_UNLOAD_FILAMENT env cfg fuel gcmd s) = Return ()
     \<longrightarrow> (\<exists>s1 pre. trace s1 = trace s @ pre @ [Register_callback (Cut False False temp)]
          \<and> Register_callback (Cut False False temp) \<notin> set pre
          \<and> is_cutting s1 = is_cutting s
          \<and> fst (cut env cfg fuel False False temp s1) = Return ()
          \<and> snd (cmd_UNLOAD_FILAMENT env cfg fuel gcmd s) =
              (snd (cut env cfg fuel False False temp s1))
                \<lparr>trace := trace (snd (cut env cfg fuel False False temp s1))
                   @ (if filament_switch_sensor_object cfg
                      then [Respond_info
                         ''[UNLOAD FILAMENT] Starting filament switch sensor unload verification in 10 seconds'',
                        Update_timer Verify_switch_sensor_timer (NOW + 5)]
                      else [])\<rparr>))"
proof (intro conjI allI impI)
  fix r h t
  assume "Register_callback (Cut r h t)
      \<in> set (emitted s (snd (cmd_UNLOAD_FILAMENT env cfg fuel gcmd s)))"
  from cmd_delegates_to_configured_cutter [OF this]
  show "cutter_object cfg" and "\<not> r" and "\<not> h" and "get_TEMPERATURE gcmd = Inr t"
    by simp_all
next
  fix v
  assume "Update_timer Unextrude_timer v
      \<in> set (emitted s (snd (cmd_UNLOAD_FILAMENT env cfg fuel gcmd s)))"
  from cmd_arms_pulses_without_cutter [OF this]
  show "\<not> cutter_object cfg" and "timeout cfg \<noteq> None" and "v = NOW"
    by simp_all
next
  assume a: "\<not> truthy (unload_started s) \<and> toolhead cfg \<and> get_TEMPERATURE gcmd = Inr temp
      \<and> fst (cmd_UNLOAD_FILAMENT env cfg fuel gcmd s) = Return ()"
    and c: "cutter_object cfg"
  from a have "toolhead cfg = True"
    by simp
  with a c show "count_list (emitted s (snd (cmd_UNLOAD_FILAMENT env cfg fuel gcmd s)))
      (Register_callback (Cut False False temp)) = 1"
    using unload_delegates_once [of s cfg gcmd temp env fuel] by simp
next
  assume a: "\<not> truthy (unload_started s) \<and> toolhead cfg \<and> get_TEMPERATURE gcmd = Inr temp
      \<and> fst (cmd_UNLOAD_FILAMENT env cfg fuel gcmd s) = Return ()"
    and c: "\<not> cutter_object cfg \<and> timeout cfg \<noteq> None"
  from a have "toolhead cfg = True"
    by simp
  with a c show "count_list (emitted s (snd (cmd_UNLOAD_FILAMENT env cfg fuel gcmd s)))
      (Update_timer Unextrude_timer NOW) = 1"
    using unload_arms_pulses_once [of s cfg gcmd temp env fuel] by simp
next
  assume "Update_timer Verify_switch_sensor_timer (NOW + 5)
      \<in> set (emitted s (snd (cmd_UNLOAD_FILAMENT env cfg fuel gcmd s)))"
  then show "last (emitted s (snd (cmd_UNLOAD_FILAMENT env cfg fuel gcmd s))) =
      Update_timer Verify_switch_sensor_timer (NOW + 5)"
    by (rule cmd_verification_last)
next
  assume "cutter_object cfg \<and> \<not> truthy (unload_started s) \<and> toolhead cfg
      \<and> get_TEMPERATURE gcmd = Inr temp
      \<and> fst (cmd_UNLOAD_FILAMENT env cfg fuel gcmd s) = Return ()"
  then show "\<exists>s1 pre. trace s1 = trace s @ pre @ [Register_callback (Cut False False temp)]
      \<and> Register_callback (Cut False False temp) \<notin> set pre
      \<and> is_cutting s1 = is_cutting s
      \<and> fst (cut env cfg fuel False False temp s1) = Return ()
      \<and> snd (cmd_UNLOAD_FILAMENT env cfg fuel gcmd s) =
          (snd (cut env cfg fuel False False temp s1))
            \<lparr>trace := trace (snd (cut env cfg fuel False False temp s1))
               @ (if filament_switch_sensor_object cfg
                  then [Respond_info
                     ''[UNLOAD FILAMENT] Starting filament switch sensor unload verification in 10 seconds'',
                    Update_timer Verify_switch_sensor_timer (NOW + 5)]
                  else [])\<rparr>"
    using unload_runs_the_cut [of cfg s gcmd temp env fuel] by blast
qed

theorem unload_starts_at_most_one_strategy_witness:
  "cutter_object (bench\<lparr>cutter_object := True, filament_switch_sensor_object := True\<rparr>)
   \<and> get_TEMPERATURE (plain_unload\<lparr>get_TEMPERATURE := Inr 220\<rparr>) = Inr 220
   \<and> count_list (emitted idle_printer
        (snd (cmd_UNLOAD_FILAMENT quiet_env
           (bench\<lparr>cutter_object := True, filament_switch_sensor_object := True\<rparr>) 1
           (plain_unload\<lparr>get_TEMPERATURE := Inr 220\<rparr>) idle_printer)))
        (Register_callback (Cut False False 220)) = 1
   \<and> last (emitted idle_printer
        (snd (cmd_UNLOAD_FILAMENT quiet_env
           (bench\<lparr>cutter_object := True, filament_switch_sensor_object := True\<rparr>) 1
           (plain_unload\<lparr>get_TEMPERATURE := Inr 220\<rparr>) idle_printer))) =
       Update_timer Verify_switch_sensor_timer (NOW + 5)
   \<and> \<not> cutter_object (bench\<lparr>timeout := Some 10\<rparr>)
   \<and> count_list (emitted idle_printer
        (snd (cmd_UNLOAD_FILAMENT quiet_env (bench\<lparr>timeout := Some 10\<rparr>) 1 plain_unload
           idle_printer)))
        (Update_timer Unextrude_timer NOW) = 1
   \<and> (\<exists>s1 pre. trace s1 = trace idle_printer @ pre @ [Register_callback (Cut False False 220)]
        \<and> Register_callback (Cut False False 220) \<notin> set pre
        \<and> is_cutting s1 = is_cutting idle_printer
        \<and> fst (cut quiet_env
              (bench\<lparr>cutter_object := True, filament_switch_sensor_object := True\<rparr>) 1
              False False 220 s1) = Return ()
        \<and> snd (cmd_UNLOAD_FILAMENT quiet_env
              (bench\<lparr>cutter_object := True, filament_switch_sensor_object := True\<rparr>) 1
              (plain_unload\<lparr>get_TEMPERATURE := Inr 220\<rparr>) idle_printer) =
            (snd (cut quiet_env
              (bench\<lparr>cutter_object := True, filament_switch_sensor_object := True\<rparr>) 1
              False False 220 s1))
              \<lparr>trace := trace (snd (cut quiet_env
                  (bench\<lparr>cutter_object := True, filament_switch_sensor_object := True\<rparr>) 1
                  False False 220 s1))
                 @ (if filament_switch_sensor_object
                      (bench\<lparr>cutter_object := True, filament_switch_sensor_object := True\<rparr>)
                    then [Respond_info
                       ''[UNLOAD FILAMENT] Starting filament switch sensor unload verification in 10 seconds'',
                      Update_timer Verify_switch_sensor_timer (NOW + 5)]
                    else [])\<rparr>)"
proof -
  let ?cutter = "bench\<lparr>cutter_object := True, filament_switch_sensor_object := True\<rparr>"
  let ?warm = "plain_unload\<lparr>get_TEMPERATURE := Inr 220\<rparr>"
  let ?budget = "bench\<lparr>timeout := Some 10\<rparr>"
  let ?c = "cmd_UNLOAD_FILAMENT quiet_env ?cutter 1 ?warm idle_printer"
  let ?b = "cmd_UNLOAD_FILAMENT quiet_env ?budget 1 plain_unload idle_printer"
  have run_c: "?c = (Return (), idle_printer\<lparr>is_cutting := True, prev_pos := Some (0, 0, 0, 0),
      unload_started := Some True,
      trace := [SAVE_GCODE_STATE,
         Set_sensor_enabled Filament_switch_sensor 0,
         Respond_info ''filament switch sensor is not enabled'',
         Send_event ''unload_filament:start'',
         Respond_info ''[UNLOAD FILAMENT] Start'',
         Run_script_from_command ''G91\<newline>M400'',
         Run_script_from_command ''M83\<newline>M400'',
         Set_temperature 220 False, Set_temperature 220 True, Wait_moves,
         Register_callback (Cut False False 220),
         Respond_info ''Printer already homed.'', Wait_moves,
         Run_script_from_command ''G90\<newline>M400'',
         Run_script_from_command ''M83\<newline>M400'',
         Run_script_from_command ''G92 E0.0\<newline>M400'',
         Respond_info ''[CUTTER] Heating extruder.'',
         Set_temperature 220 False,
         Respond_info ''Waiting for temperature to stabilize.'',
         Move [0, 0, 0, 10] 2, Move [0, 0, 0, - 5] 2,
         Manual_move [30, 20] 100, Wait_moves, Manual_move [10, 20] 100,
         Manual_move [30, 20] 100, Wait_moves, Move [0, 0, 0, - 2] 2,
         Move [0, 0, 0, 15] 2, Update_timer Unextrude_to_sensor_timer NOW,
         Respond_info
           ''[UNLOAD FILAMENT] Starting filament switch sensor unload verification in 10 seconds'',
         Update_timer Verify_switch_sensor_timer (NOW + 5)]\<rparr>)"
    by (simp add: cmd_UNLOAD_FILAMENT_def unload_home_needed_def save_state_def
        disable_sensors_def send_event_def unload_heat_and_wait_def wait_moves_def
        SAVE_GCODE_STATE_def lower_def lower_char_def stmt_defs
        cut_def home_needed_def heat_and_wait_def move_extruder_mm_def
        move_to_cutter_pos_def cut_move_def move_to_bucket_def move_back_def
        quiet_env_def bench_def plain_unload_def idle_printer_def truthy_def)
  have run_b: "?b = (Return (), idle_printer\<lparr>unload_started := Some True,
      trace := [SAVE_GCODE_STATE,
         Send_event ''unload_filament:start'',
         Respond_info ''[UNLOAD FILAMENT] Start'',
         Run_script_from_command ''G91\<newline>M400'',
         Run_script_from_command ''M83\<newline>M400'',
         Set_temperature 250 False, Set_temperature 250 True, Wait_moves,
         Update_timer Unextrude_timer NOW]\<rparr>)"
    by (simp add: cmd_UNLOAD_FILAMENT_def unload_home_needed_def save_state_def
        disable_sensors_def send_event_def unload_heat_and_wait_def wait_moves_def
        SAVE_GCODE_STATE_def lower_def lower_char_def stmt_defs
        quiet_env_def bench_def plain_unload_def idle_printer_def truthy_def)
  have 1: "Register_callback (Cut False False 220) \<in> set (emitted idle_printer (snd ?c))"
    unfolding run_c by (simp add: emitted_def idle_printer_def)
  have 2: "Update_timer Unextrude_timer NOW \<in> set (emitted idle_printer (snd ?b))"
    unfolding run_b by (simp add: emitted_def idle_printer_def)
  have 3: "\<not> truthy (unload_started idle_printer) \<and> toolhead ?cutter
      \<and> get_TEMPERATURE ?warm = Inr 220 \<and> fst ?c = Return ()"
    unfolding run_c by (simp add: idle_printer_def bench_def truthy_def)
  have 4: "\<not> truthy (unload_started idle_printer) \<and> toolhead ?budget
      \<and> get_TEMPERATURE plain_unload = Inr 250 \<and> fst ?b = Return ()"
    unfolding run_b by (simp add: idle_printer_def bench_def plain_unload_def truthy_def)
  have 5: "Update_timer Verify_switch_sensor_timer (NOW + 5)
      \<in> set (emitted idle_printer (snd ?c))"
    unfolding run_c by (simp add: emitted_def idle_printer_def)
  have 6: "cutter_object ?cutter"
    by simp
  have 7: "\<not> cutter_object ?budget \<and> timeout ?budget \<noteq> None"
    by (simp add: bench_def)
  note c = unload_starts_at_most_one_strategy [of idle_printer quiet_env ?cutter 1 ?warm 220]
  note b = unload_starts_at_most_one_strategy [of idle_printer quiet_env ?budget 1 plain_unload 250]
  have a1: "cutter_object ?cutter \<and> \<not> False \<and> \<not> False \<and> get_TEMPERATURE ?warm = Inr 220"
    by (rule c [THEN conjunct1, rule_format, OF 1])
  have a2: "\<not> cutter_object ?budget \<and> timeout ?budget \<noteq> None \<and> NOW = NOW"
    by (rule b [THEN conjunct2, THEN conjunct1, rule_format, OF 2])
  have a3: "count_list (emitted idle_printer (snd ?c)) (Register_callback (Cut False False 220)) = 1"
    by (rule c [THEN conjunct2, THEN conjunct2, THEN conjunct1, rule_format, OF 3,
          THEN conjunct1, rule_format, OF 6])
  have a4: "count_list (emitted idle_printer (snd ?b)) (Update_timer Unextrude_timer NOW) = 1"
    by (rule b [THEN conjunct2, THEN conjunct2, THEN conjunct1, rule_format, OF 4,
          THEN conjunct2, rule_format, OF 7])
  have a5: "last (emitted idle_printer (snd ?c)) = Update_timer Verify_switch_sensor_timer (NOW + 5)"
    by (rule c [THEN conjunct2, THEN conjunct2, THEN conjunct2, THEN conjunct1, rule_format,
          OF 5])
  have 8: "cutter_object ?cutter \<and> \<not> truthy (unload_started idle_printer) \<and> toolhead ?cutter
      \<and> get_TEMPERATURE ?warm = Inr 220 \<and> fst ?c = Return ()"
    using 3 6 by simp
  note a6 = c [THEN conjunct2, THEN conjunct2, THEN conjunct2, THEN conjunct2, rule_format, OF 8]
  show ?thesis
    by (intro conjI a3 a4 a5 a1 [THEN conjunct1] a2 [THEN conjunct1]
        a1 [THEN conjunct2, THEN conjunct2, THEN conjunct2] a6)
qed

text \<open>
  The claim as stated fails on the default configuration, which has neither a cutter nor a
  pulse budget: the unload proceeds, and starts no extraction at all.
\<close>

theorem unload_without_a_strategy_counterexample:
  "fst (cmd_UNLOAD_FILAMENT quiet_env bench 1 plain_unload idle_printer) = Return ()
   \<and> unload_started (snd (cmd_UNLOAD_FILAMENT quiet_env bench 1 plain_unload idle_printer)) =
       Some True
   \<and> emitted idle_printer (snd (cmd_UNLOAD_FILAMENT quiet_env bench 1 plain_unload idle_printer)) =
       [SAVE_GCODE_STATE,
        Send_event ''unload_filament:start'',
        Respond_info ''[UNLOAD FILAMENT] Start'',
        Run_script_from_command ''G91\<newline>M400'',
        Run_script_from_command ''M83\<newline>M400'',
        Set_temperature 250 False,
        Set_temperature 250 True,
        Wait_moves]"
  by (simp add: cmd_UNLOAD_FILAMENT_def unload_home_needed_def save_state_def
      disable_sensors_def send_event_def unload_heat_and_wait_def wait_moves_def
      SAVE_GCODE_STATE_def lower_def lower_char_def stmt_defs emitted_def
      quiet_env_def bench_def plain_unload_def idle_printer_def truthy_def)

section \<open>An unload requested during a print\<close>

text \<open>
  C7.  \<open>cmd_UNLOAD_FILAMENT\<close> does not look at the print: requested while the idle
  timeout reports \<open>Printing\<close>, with the print not paused and a file active, it saves the
  state, sets \<open>unload_started\<close> and heats, and it makes no pause request.  The test the
  claim describes is \<open>conditional_pause\<close>, which nothing calls.
\<close>

theorem unload_goes_ahead_while_printing:
  "idle_timeout_state printing_env [] = ''Printing'' \<and> \<not> is_paused printing_env []
   \<and> is_active printing_env []
   \<and> fst (cmd_UNLOAD_FILAMENT printing_env bench 1 plain_unload idle_printer) = Return ()
   \<and> trace (snd (cmd_UNLOAD_FILAMENT printing_env bench 1 plain_unload idle_printer)) =
       [Run_script_from_command ''SAVE_GCODE_STATE NAME=_UNLOAD_STATE\<newline>M400'',
        Send_event ''unload_filament:start'',
        Respond_info ''[UNLOAD FILAMENT] Start'',
        Run_script_from_command ''G91\<newline>M400'',
        Run_script_from_command ''M83\<newline>M400'',
        Set_temperature 250 False,
        Set_temperature 250 True,
        Wait_moves]
   \<and> unload_started (snd (cmd_UNLOAD_FILAMENT printing_env bench 1 plain_unload idle_printer)) = Some True"
  by (simp add: cmd_UNLOAD_FILAMENT_def unload_home_needed_def save_state_def
      disable_sensors_def send_event_def unload_heat_and_wait_def wait_moves_def
      SAVE_GCODE_STATE_def lower_def lower_char_def stmt_defs
      printing_env_def quiet_env_def bench_def plain_unload_def idle_printer_def truthy_def)

section \<open>The saved machine state\<close>

text \<open>
  C8, as the code has it.  \<open>cmd_UNLOAD_FILAMENT\<close> pushes the snapshot at most once
  (\<open>save_state\<close>: the gcode state, and the carriage state with \<open>idex\<close>), exactly once
  when it proceeds and returns, and it never pops it.  \<open>unload_end\<close> pushes nothing and
  pops at most once (\<open>restore_state\<close>), exactly once when it runs to its end.  Neither
  method has a cleanup on its exception paths: the pop belongs to the completed
  \<open>unload_end\<close> only.
\<close>

theorem saved_state_is_pushed_and_popped_once:
  "count_list (emitted s (snd (cmd_UNLOAD_FILAMENT env cfg fuel gcmd s))) SAVE_GCODE_STATE \<le> 1
   \<and> count_list (emitted s (snd (cmd_UNLOAD_FILAMENT env cfg fuel gcmd s)))
       SAVE_DUAL_CARRIAGE_STATE \<le> 1
   \<and> count_list (emitted s (snd (cmd_UNLOAD_FILAMENT env cfg fuel gcmd s)))
       RESTORE_GCODE_STATE = 0
   \<and> count_list (emitted s (snd (cmd_UNLOAD_FILAMENT env cfg fuel gcmd s)))
       RESTORE_DUAL_CARRIAGE_STATE = 0
   \<and> (\<not> truthy (unload_started s) \<and> toolhead cfg
       \<and> fst (cmd_UNLOAD_FILAMENT env cfg fuel gcmd s) = Return ()
     \<longrightarrow> count_list (emitted s (snd (cmd_UNLOAD_FILAMENT env cfg fuel gcmd s)))
           SAVE_GCODE_STATE = 1
       \<and> count_list (emitted s (snd (cmd_UNLOAD_FILAMENT env cfg fuel gcmd s)))
           SAVE_DUAL_CARRIAGE_STATE = (if idex cfg then 1 else 0))
   \<and> count_list (emitted u (snd (unload_end env' cfg u))) SAVE_GCODE_STATE = 0
   \<and> count_list (emitted u (snd (unload_end env' cfg u))) SAVE_DUAL_CARRIAGE_STATE = 0
   \<and> count_list (emitted u (snd (unload_end env' cfg u))) RESTORE_GCODE_STATE \<le> 1
   \<and> count_list (emitted u (snd (unload_end env' cfg u))) RESTORE_DUAL_CARRIAGE_STATE \<le> 1
   \<and> (fst (unload_end env' cfg u) = Return True
     \<longrightarrow> count_list (emitted u (snd (unload_end env' cfg u))) RESTORE_GCODE_STATE = 1
       \<and> count_list (emitted u (snd (unload_end env' cfg u))) RESTORE_DUAL_CARRIAGE_STATE =
           (if idex cfg then 1 else 0))"
  using cmd_pushes [of s env cfg fuel gcmd] cmd_never_pops [of s env cfg fuel gcmd]
    cmd_pushes_when_it_returns [of s cfg env fuel gcmd]
    unload_end_never_pushes [of u env' cfg] unload_end_pops [of u env' cfg]
  by blast

theorem saved_state_is_pushed_and_popped_once_witness:
  "count_list (emitted idle_printer
       (snd (cmd_UNLOAD_FILAMENT quiet_env (bench\<lparr>idex := True\<rparr>) 1
          (plain_unload\<lparr>get_TOOLHEAD := Inr ''Load_T0''\<rparr>) idle_printer))) SAVE_GCODE_STATE = 1
   \<and> count_list (emitted idle_printer
       (snd (cmd_UNLOAD_FILAMENT quiet_env (bench\<lparr>idex := True\<rparr>) 1
          (plain_unload\<lparr>get_TOOLHEAD := Inr ''Load_T0''\<rparr>) idle_printer)))
        SAVE_DUAL_CARRIAGE_STATE = 1
   \<and> count_list (emitted (idle_printer\<lparr>unload_started := Some True\<rparr>)
       (snd (unload_end quiet_env (bench\<lparr>idex := True\<rparr>)
          (idle_printer\<lparr>unload_started := Some True\<rparr>)))) RESTORE_GCODE_STATE = 1
   \<and> count_list (emitted (idle_printer\<lparr>unload_started := Some True\<rparr>)
       (snd (unload_end quiet_env (bench\<lparr>idex := True\<rparr>)
          (idle_printer\<lparr>unload_started := Some True\<rparr>)))) RESTORE_DUAL_CARRIAGE_STATE = 1"
proof -
  let ?cfg = "bench\<lparr>idex := True\<rparr>"
  let ?gcmd = "plain_unload\<lparr>get_TOOLHEAD := Inr ''Load_T0''\<rparr>"
  let ?u = "idle_printer\<lparr>unload_started := Some True\<rparr>"
  have 1: "\<not> truthy (unload_started idle_printer) \<and> toolhead ?cfg
      \<and> fst (cmd_UNLOAD_FILAMENT quiet_env ?cfg 1 ?gcmd idle_printer) = Return ()"
    by (simp add: cmd_UNLOAD_FILAMENT_def unload_home_needed_def save_state_def
      disable_sensors_def send_event_def unload_heat_and_wait_def wait_moves_def
      lower_def lower_char_def stmt_defs
      quiet_env_def bench_def plain_unload_def idle_printer_def truthy_def)
  have 2: "fst (unload_end quiet_env ?cfg ?u) = Return True"
    by (simp add: unload_end_def send_event_def wait_moves_def restore_state_def
        unload_heat_and_wait_def stmt_defs quiet_env_def bench_def idle_printer_def truthy_def)
  note t = saved_state_is_pushed_and_popped_once [of idle_printer quiet_env ?cfg 1 ?gcmd ?u quiet_env]
  have a: "count_list (emitted idle_printer
       (snd (cmd_UNLOAD_FILAMENT quiet_env ?cfg 1 ?gcmd idle_printer))) SAVE_GCODE_STATE = 1
     \<and> count_list (emitted idle_printer
       (snd (cmd_UNLOAD_FILAMENT quiet_env ?cfg 1 ?gcmd idle_printer))) SAVE_DUAL_CARRIAGE_STATE =
         (if idex ?cfg then 1 else 0)"
    by (rule t [THEN conjunct2, THEN conjunct2, THEN conjunct2, THEN conjunct2, THEN conjunct1,
          rule_format, OF 1])
  have b: "count_list (emitted ?u (snd (unload_end quiet_env ?cfg ?u))) RESTORE_GCODE_STATE = 1
     \<and> count_list (emitted ?u (snd (unload_end quiet_env ?cfg ?u))) RESTORE_DUAL_CARRIAGE_STATE =
         (if idex ?cfg then 1 else 0)"
    by (rule t [THEN conjunct2, THEN conjunct2, THEN conjunct2, THEN conjunct2, THEN conjunct2,
          THEN conjunct2, THEN conjunct2, THEN conjunct2, THEN conjunct2,
          rule_format, OF 2])
  have i: "idex ?cfg"
    by simp
  show ?thesis
    using a b unfolding if_P [OF i] by (intro conjI) (erule conjunct1 conjunct2)+
qed

text \<open>
  The claim as stated fails on the error path: when the heater refuses the blocking request
  the command raises, the snapshot has been pushed and no call pops it.
\<close>

theorem saved_state_is_not_popped_on_error_counterexample:
  "fst (cmd_UNLOAD_FILAMENT heater_fault bench 1 plain_unload idle_printer) = Raise missing_errors
   \<and> emitted idle_printer (snd (cmd_UNLOAD_FILAMENT heater_fault bench 1 plain_unload idle_printer)) =
       [SAVE_GCODE_STATE,
        Send_event ''unload_filament:start'',
        Respond_info ''[UNLOAD FILAMENT] Start'',
        Run_script_from_command ''G91\<newline>M400'',
        Run_script_from_command ''M83\<newline>M400'',
        Set_temperature 250 False]
   \<and> unload_started (snd (cmd_UNLOAD_FILAMENT heater_fault bench 1 plain_unload idle_printer)) =
       Some True"
  by (simp add: cmd_UNLOAD_FILAMENT_def unload_home_needed_def save_state_def
      disable_sensors_def send_event_def unload_heat_and_wait_def wait_moves_def
      SAVE_GCODE_STATE_def lower_def lower_char_def stmt_defs emitted_def
      heater_fault_def quiet_env_def bench_def plain_unload_def idle_printer_def truthy_def)

section \<open>The pulse loop of an unload\<close>

text \<open>
  C3, as the code has it.  A run of \<open>unextrude\<close> with the guard set and the budget
  \<open>timeout\<close> configured tests the counter before it counts: with the counter at most the
  budget it counts one pulse and asks to be run again after the time of one pulse; with
  the counter above the budget it cancels the verification, runs \<open>unload_end\<close> and
  answers \<open>NEVER\<close>.  A run of \<open>verify_switch_sensor_state\<close> with the guard set asks to
  be run again while the switch sensor reports filament, and once it reports none it sets
  the retraction timer to \<open>NEVER\<close> and registers \<open>unload_end\<close>.  So, with a budget of
  \<open>N\<close>, no sensor and no failing call, the timer armed by the unload pulses on each of its
  first \<open>N + 1\<close> runs, and its run \<open>N + 2\<close> ends the unload: \<open>unload_end\<close> follows pulse
  \<open>N + 1\<close>.
\<close>

theorem pulse_loop_runs_until_the_budget_is_exceeded:
  "(truthy (unload_started s) \<and> timeout cfg = Some n
      \<and> fst (unload_unextrude env cfg t s) = Return r
    \<longrightarrow> (unextrude_count s \<le> n
          \<longrightarrow> r = t + 10 / unload_speed cfg
            \<and> unload_started (snd (unload_unextrude env cfg t s)) = unload_started s
            \<and> unextrude_count (snd (unload_unextrude env cfg t s)) = unextrude_count s + 1
            \<and> Register_callback Unload_end
                \<notin> set (emitted s (snd (unload_unextrude env cfg t s))))
      \<and> (n < unextrude_count s
          \<longrightarrow> r = NEVER
            \<and> unload_started (snd (unload_unextrude env cfg t s)) = Some False
            \<and> Register_callback Unload_end
                \<in> set (emitted s (snd (unload_unextrude env cfg t s)))
            \<and> filter is_pulse (emitted s (snd (unload_unextrude env cfg t s))) = []))
   \<and> (truthy (unload_started u) \<and> fst (verify_switch_sensor_state env cfg t u) = Return r'
    \<longrightarrow> (switch_filament_detected env (trace u)
          \<longrightarrow> r' = t + 1.250 \<and> snd (verify_switch_sensor_state env cfg t u) = u)
      \<and> (\<not> switch_filament_detected env (trace u)
          \<longrightarrow> r' = NEVER
            \<and> emitted u (snd (verify_switch_sensor_state env cfg t u)) =
                [Update_timer Unextrude_timer NEVER, Register_callback Unload_end]))
   \<and> ((\<forall>tr a. fails env tr a = None) \<and> (\<forall>name. lookup_error env name = None)
      \<and> toolhead cfg \<and> timeout cfg = Some (int N) \<and> 0 < unload_speed cfg
      \<and> truthy (unload_started v) \<and> unextrude_count v = 0
      \<and> t0 + real (N + 1) * (10 / unload_speed cfg) < NEVER
    \<longrightarrow> (\<forall>k\<le>N + 1.
            fst (run_timer (unload_unextrude env cfg) k t0 v) =
              Return (t0 + real k * (10 / unload_speed cfg))
            \<and> length (filter is_pulse
                (emitted v (snd (run_timer (unload_unextrude env cfg) k t0 v)))) = k
            \<and> unload_started (snd (run_timer (unload_unextrude env cfg) k t0 v)) =
                unload_started v
            \<and> Register_callback Unload_end
                \<notin> set (emitted v (snd (run_timer (unload_unextrude env cfg) k t0 v))))
      \<and> fst (run_timer (unload_unextrude env cfg) (N + 2) t0 v) = Return NEVER
      \<and> length (filter is_pulse
          (emitted v (snd (run_timer (unload_unextrude env cfg) (N + 2) t0 v)))) = N + 1
      \<and> unload_started (snd (run_timer (unload_unextrude env cfg) (N + 2) t0 v)) = Some False
      \<and> Register_callback Unload_end
          \<in> set (emitted v (snd (run_timer (unload_unextrude env cfg) (N + 2) t0 v))))"
proof (intro conjI)
  show "truthy (unload_started s) \<and> timeout cfg = Some n
      \<and> fst (unload_unextrude env cfg t s) = Return r
    \<longrightarrow> (unextrude_count s \<le> n
          \<longrightarrow> r = t + 10 / unload_speed cfg
            \<and> unload_started (snd (unload_unextrude env cfg t s)) = unload_started s
            \<and> unextrude_count (snd (unload_unextrude env cfg t s)) = unextrude_count s + 1
            \<and> Register_callback Unload_end
                \<notin> set (emitted s (snd (unload_unextrude env cfg t s))))
      \<and> (n < unextrude_count s
          \<longrightarrow> r = NEVER
            \<and> unload_started (snd (unload_unextrude env cfg t s)) = Some False
            \<and> Register_callback Unload_end
                \<in> set (emitted s (snd (unload_unextrude env cfg t s)))
            \<and> filter is_pulse (emitted s (snd (unload_unextrude env cfg t s))) = [])"
    using unextrude_tick [of s cfg n env t r] unextrude_over_budget [of s cfg n env t r]
    by blast
next
  show "truthy (unload_started u) \<and> fst (verify_switch_sensor_state env cfg t u) = Return r'
    \<longrightarrow> (switch_filament_detected env (trace u)
          \<longrightarrow> r' = t + 1.250 \<and> snd (verify_switch_sensor_state env cfg t u) = u)
      \<and> (\<not> switch_filament_detected env (trace u)
          \<longrightarrow> r' = NEVER
            \<and> emitted u (snd (verify_switch_sensor_state env cfg t u)) =
                [Update_timer Unextrude_timer NEVER, Register_callback Unload_end])"
    using verify_switch_tick [of u env cfg t r'] by blast
next
  show "(\<forall>tr a. fails env tr a = None) \<and> (\<forall>name. lookup_error env name = None)
      \<and> toolhead cfg \<and> timeout cfg = Some (int N) \<and> 0 < unload_speed cfg
      \<and> truthy (unload_started v) \<and> unextrude_count v = 0
      \<and> t0 + real (N + 1) * (10 / unload_speed cfg) < NEVER
    \<longrightarrow> (\<forall>k\<le>N + 1.
            fst (run_timer (unload_unextrude env cfg) k t0 v) =
              Return (t0 + real k * (10 / unload_speed cfg))
            \<and> length (filter is_pulse
                (emitted v (snd (run_timer (unload_unextrude env cfg) k t0 v)))) = k
            \<and> unload_started (snd (run_timer (unload_unextrude env cfg) k t0 v)) =
                unload_started v
            \<and> Register_callback Unload_end
                \<notin> set (emitted v (snd (run_timer (unload_unextrude env cfg) k t0 v))))
      \<and> fst (run_timer (unload_unextrude env cfg) (N + 2) t0 v) = Return NEVER
      \<and> length (filter is_pulse
          (emitted v (snd (run_timer (unload_unextrude env cfg) (N + 2) t0 v)))) = N + 1
      \<and> unload_started (snd (run_timer (unload_unextrude env cfg) (N + 2) t0 v)) = Some False
      \<and> Register_callback Unload_end
          \<in> set (emitted v (snd (run_timer (unload_unextrude env cfg) (N + 2) t0 v)))"
  proof (intro impI, elim conjE, intro conjI allI impI)
    assume a: "\<forall>tr a. fails env tr a = None" "\<forall>name. lookup_error env name = None"
      "toolhead cfg" "timeout cfg = Some (int N)" "0 < unload_speed cfg"
      "truthy (unload_started v)" "unextrude_count v = 0"
      "t0 + real (N + 1) * (10 / unload_speed cfg) < NEVER"
    note calm = a(1) [rule_format] a(2) [rule_format]
    note b = budget_run [OF calm a(3-8)]
    {
      fix k
      assume k: "k \<le> N + 1"
      note p = pulses_before_budget [OF calm a(3-8) k]
      from p show "fst (run_timer (unload_unextrude env cfg) k t0 v) =
          Return (t0 + real k * (10 / unload_speed cfg))"
        by (rule conjunct1)
      from p show "length (filter is_pulse
          (emitted v (snd (run_timer (unload_unextrude env cfg) k t0 v)))) = k"
        by simp
      from p show "unload_started (snd (run_timer (unload_unextrude env cfg) k t0 v)) =
          unload_started v"
        by simp
      from p show "Register_callback Unload_end
          \<notin> set (emitted v (snd (run_timer (unload_unextrude env cfg) k t0 v)))"
        by simp
    }
    from b show "fst (run_timer (unload_unextrude env cfg) (N + 2) t0 v) = Return NEVER"
      by (rule conjunct1)
    from b show "length (filter is_pulse
        (emitted v (snd (run_timer (unload_unextrude env cfg) (N + 2) t0 v)))) = N + 1"
      by simp
    from b show "unload_started (snd (run_timer (unload_unextrude env cfg) (N + 2) t0 v)) =
        Some False"
      by simp
    from b show "Register_callback Unload_end
        \<in> set (emitted v (snd (run_timer (unload_unextrude env cfg) (N + 2) t0 v)))"
      by simp
  qed
qed

theorem pulse_loop_runs_until_the_budget_is_exceeded_witness:
  "Register_callback Unload_end
      \<notin> set (emitted unloading
          (snd (unload_unextrude quiet_env (bench\<lparr>timeout := Some 10\<rparr>) NOW unloading)))
   \<and> unload_started
        (snd (unload_unextrude quiet_env (bench\<lparr>timeout := Some 10\<rparr>) NOW
           (unloading\<lparr>unextrude_count := 11\<rparr>))) = Some False
   \<and> snd (verify_switch_sensor_state (quiet_env\<lparr>switch_filament_detected := \<lambda>tr. True\<rparr>)
        (bench\<lparr>filament_switch_sensor_object := True\<rparr>) 5 unloading) = unloading
   \<and> emitted unloading
        (snd (verify_switch_sensor_state quiet_env
           (bench\<lparr>filament_switch_sensor_object := True\<rparr>) 5 unloading)) =
       [Update_timer Unextrude_timer NEVER, Register_callback Unload_end]
   \<and> length (filter is_pulse
        (emitted unloading
          (snd (run_timer (unload_unextrude quiet_env (bench\<lparr>timeout := Some 10\<rparr>)) 5 NOW
             unloading)))) = 5
   \<and> fst (run_timer (unload_unextrude quiet_env (bench\<lparr>timeout := Some 10\<rparr>)) (10 + 2) NOW
        unloading) = Return NEVER
   \<and> length (filter is_pulse
        (emitted unloading
          (snd (run_timer (unload_unextrude quiet_env (bench\<lparr>timeout := Some 10\<rparr>)) (10 + 2)
             NOW unloading)))) = 10 + 1"
proof -
  let ?cfg = "bench\<lparr>timeout := Some 10\<rparr>"
  let ?sw = "bench\<lparr>filament_switch_sensor_object := True\<rparr>"
  let ?over = "unloading\<lparr>unextrude_count := 11\<rparr>"
  let ?fed = "quiet_env\<lparr>switch_filament_detected := \<lambda>tr. True\<rparr>"
  have p1: "truthy (unload_started unloading) \<and> timeout ?cfg = Some 10
      \<and> fst (unload_unextrude quiet_env ?cfg NOW unloading) = Return (1 / 5)"
    by (simp add: unload_unextrude_def pulse_def unload_move_extruder_mm_def stmt_defs
        quiet_env_def bench_def idle_printer_def unloading_def truthy_def NOW_def)
  have q1: "unextrude_count unloading \<le> 10"
    by (simp add: unloading_def idle_printer_def)
  have p2: "truthy (unload_started ?over) \<and> timeout ?cfg = Some 10
      \<and> fst (unload_unextrude quiet_env ?cfg NOW ?over) = Return NEVER"
    by (simp add: unload_unextrude_def unload_end_def send_event_def wait_moves_def
        restore_state_def unload_heat_and_wait_def stmt_defs quiet_env_def bench_def
        idle_printer_def unloading_def truthy_def)
  have q2: "10 < unextrude_count ?over"
    by simp
  have p3: "truthy (unload_started unloading)
      \<and> fst (verify_switch_sensor_state ?fed ?sw 5 unloading) = Return (5 + 1.250)"
    by (simp add: verify_switch_sensor_state_def stmt_defs quiet_env_def bench_def
        idle_printer_def unloading_def truthy_def)
  have q3: "switch_filament_detected ?fed (trace unloading)"
    by simp
  have p4: "truthy (unload_started unloading)
      \<and> fst (verify_switch_sensor_state quiet_env ?sw 5 unloading) = Return NEVER"
    by (simp add: verify_switch_sensor_state_def stmt_defs quiet_env_def bench_def
        idle_printer_def unloading_def truthy_def)
  have q4: "\<not> switch_filament_detected quiet_env (trace unloading)"
    by (simp add: quiet_env_def)
  have p5: "(\<forall>tr a. fails quiet_env tr a = None) \<and> (\<forall>name. lookup_error quiet_env name = None)
      \<and> toolhead ?cfg \<and> timeout ?cfg = Some (int 10) \<and> 0 < unload_speed ?cfg
      \<and> truthy (unload_started unloading) \<and> unextrude_count unloading = 0
      \<and> NOW + real (10 + 1) * (10 / unload_speed ?cfg) < NEVER"
    by (simp add: quiet_env_def bench_def idle_printer_def unloading_def truthy_def NOW_def
        NEVER_def)
  have q5: "(5::nat) \<le> 10 + 1"
    by simp
  note t = pulse_loop_runs_until_the_budget_is_exceeded
  have a: "Register_callback Unload_end
      \<notin> set (emitted unloading (snd (unload_unextrude quiet_env ?cfg NOW unloading)))"
    by (rule t [of unloading ?cfg 10 quiet_env NOW "1 / 5", THEN conjunct1, rule_format, OF p1,
          THEN conjunct1, rule_format, OF q1, THEN conjunct2, THEN conjunct2, THEN conjunct2])
  have b: "unload_started (snd (unload_unextrude quiet_env ?cfg NOW ?over)) = Some False"
    by (rule t [of ?over ?cfg 10 quiet_env NOW NEVER, THEN conjunct1, rule_format, OF p2,
          THEN conjunct2, rule_format, OF q2, THEN conjunct2, THEN conjunct1])
  have c: "snd (verify_switch_sensor_state ?fed ?sw 5 unloading) = unloading"
    by (rule t [where u = unloading and cfg = ?sw and env = ?fed and t = 5 and r' = "5 + 1.250",
          THEN conjunct2, THEN conjunct1, rule_format, OF p3, THEN conjunct1, rule_format, OF q3,
          THEN conjunct2])
  have d: "emitted unloading (snd (verify_switch_sensor_state quiet_env ?sw 5 unloading)) =
      [Update_timer Unextrude_timer NEVER, Register_callback Unload_end]"
    by (rule t [where u = unloading and cfg = ?sw and env = quiet_env and t = 5 and r' = NEVER,
          THEN conjunct2, THEN conjunct1, rule_format, OF p4, THEN conjunct2, rule_format, OF q4,
          THEN conjunct2])
  note l = t [where v = unloading and cfg = ?cfg and env = quiet_env and ?t0.0 = NOW and N = 10,
      THEN conjunct2, THEN conjunct2, rule_format, OF p5]
  have e: "length (filter is_pulse
      (emitted unloading (snd (run_timer (unload_unextrude quiet_env ?cfg) 5 NOW unloading)))) = 5"
    by (rule l [THEN conjunct1, rule_format, OF q5, THEN conjunct2, THEN conjunct1])
  have f: "fst (run_timer (unload_unextrude quiet_env ?cfg) (10 + 2) NOW unloading) = Return NEVER"
    by (rule l [THEN conjunct2, THEN conjunct1])
  have g: "length (filter is_pulse
      (emitted unloading
        (snd (run_timer (unload_unextrude quiet_env ?cfg) (10 + 2) NOW unloading)))) = 10 + 1"
    by (rule l [THEN conjunct2, THEN conjunct2, THEN conjunct1])
  show ?thesis
    by (intro conjI a b c d e f g)
qed

text \<open>
  The claim as stated fails in its scenario, a budget of 5 and no sensor: after the fifth
  pulse the unload has not ended and the timer is set for a sixth run, which pulses again;
  it is the seventh run that ends the unload.
\<close>

theorem unload_end_after_the_fifth_pulse_counterexample:
  "fst (run_timer (unload_unextrude quiet_env (bench\<lparr>timeout := Some 5\<rparr>)) 5 NOW unloading) =
      Return 1
   \<and> length (filter is_pulse
        (trace (snd (run_timer (unload_unextrude quiet_env (bench\<lparr>timeout := Some 5\<rparr>)) 5 NOW
           unloading)))) = 5
   \<and> unload_started
        (snd (run_timer (unload_unextrude quiet_env (bench\<lparr>timeout := Some 5\<rparr>)) 5 NOW
           unloading)) = Some True
   \<and> Register_callback Unload_end
        \<notin> set (trace (snd (run_timer (unload_unextrude quiet_env (bench\<lparr>timeout := Some 5\<rparr>)) 5
           NOW unloading)))
   \<and> length (filter is_pulse
        (trace (snd (run_timer (unload_unextrude quiet_env (bench\<lparr>timeout := Some 5\<rparr>)) 6 NOW
           unloading)))) = 6
   \<and> unload_started
        (snd (run_timer (unload_unextrude quiet_env (bench\<lparr>timeout := Some 5\<rparr>)) 6 NOW
           unloading)) = Some True
   \<and> Register_callback Unload_end
        \<notin> set (trace (snd (run_timer (unload_unextrude quiet_env (bench\<lparr>timeout := Some 5\<rparr>)) 6
           NOW unloading)))
   \<and> Register_callback Unload_end
        \<in> set (trace (snd (run_timer (unload_unextrude quiet_env (bench\<lparr>timeout := Some 5\<rparr>)) 7
           NOW unloading)))"
  by (simp add: unload_unextrude_def pulse_def unload_move_extruder_mm_def unload_end_def
      send_event_def wait_moves_def restore_state_def unload_heat_and_wait_def stmt_defs
      quiet_env_def bench_def idle_printer_def unloading_def truthy_def NOW_def NEVER_def
      eval_nat_numeral)

end
